theory Spec2Isabelle
  imports Main "HOL-Library.Word"
begin

unbundle bit_operations_syntax

section \<open>JavaScript numbers\<close>

text \<open>
  The emulator keeps every register and the cycle counter in a JavaScript number, a
  double, and masks the registers by hand.  The model keeps the integers among these
  numbers as \<^typ>\<open>int\<close>.  The bitwise operators of JavaScript first convert their operands
  to signed 32-bit integers.  Addition and subtraction are exact in the reals and then
  rounded to the nearest double, ties to the even significand: integers up to \<open>2^53\<close> in
  magnitude are kept, larger ones are rounded to 53 significant bits, so that
  \<open>2^53 + 1\<close> is \<open>2^53\<close> again.  Numbers that are not integers, and the infinities
  that sums beyond \<open>2^1024\<close> give, are not in the model.
\<close>

text \<open>
  \<open>ulp m\<close> is the distance between neighbouring doubles at the magnitude \<open>m\<close>: 1 below
  \<open>2^53\<close>, 2 below \<open>2^54\<close>, and so on.  \<open>to_double n\<close> is the double nearest to the integer \<open>n\<close>,
  the one with the even significand when two are equally near; \<open>jadd\<close> and \<open>jsub\<close> are the
  operators \<open>+\<close> and \<open>-\<close> of JavaScript (\<open>++\<close> is \<open>jadd\<close> of 1, \<open>--\<close> is \<open>jsub\<close> of 1).
\<close>

function ulp :: "nat \<Rightarrow> nat" where
  "ulp m = (if m < 2 ^ 53 then 1 else 2 * ulp (m div 2))"
  by pat_completeness auto
termination
  by (relation "measure id") auto

declare ulp.simps [simp del]

definition to_double :: "int \<Rightarrow> int" where
  "to_double n =
     (let u = int (ulp (nat \<bar>n\<bar>)); q = \<bar>n\<bar> div u; r = \<bar>n\<bar> mod u;
          q' = (if 2 * r < u then q else if u < 2 * r then q + 1 else if even q then q else q + 1)
      in sgn n * (q' * u))"

definition jadd :: "int \<Rightarrow> int \<Rightarrow> int" where
  "jadd a b = to_double (a + b)"

definition jsub :: "int \<Rightarrow> int \<Rightarrow> int" where
  "jsub a b = to_double (a - b)"

definition toInt32 :: "int \<Rightarrow> int" where
  "toInt32 x = signed_take_bit 31 x"

definition band :: "int \<Rightarrow> int \<Rightarrow> int" where
  "band a b = toInt32 a AND toInt32 b"

definition bor :: "int \<Rightarrow> int \<Rightarrow> int" where
  "bor a b = toInt32 a OR toInt32 b"

definition bxor :: "int \<Rightarrow> int \<Rightarrow> int" where
  "bxor a b = toInt32 a XOR toInt32 b"

definition bnot :: "int \<Rightarrow> int" where
  "bnot a = NOT (toInt32 a)"

definition shl :: "int \<Rightarrow> nat \<Rightarrow> int" where
  "shl a n = toInt32 (push_bit (n mod 32) (toInt32 a))"

definition shr :: "int \<Rightarrow> nat \<Rightarrow> int" where
  "shr a n = drop_bit (n mod 32) (toInt32 a)"

section \<open>Data model\<close>

datatype Flavor = FLAVOR_6502 | FLAVOR_ROCKWELL_65C02 | FLAVOR_WDC_65C02

definition FLAVORS_65C02 :: "Flavor list" where
  "FLAVORS_65C02 = [FLAVOR_ROCKWELL_65C02, FLAVOR_WDC_65C02]"

datatype Mode =
    Accumulator | Implied | Immediate | Absolute | ZeroPage | Relative
  | AbsoluteX | AbsoluteY | ZeroPageX | ZeroPageY
  | AbsoluteIndirect | ZeroPageXIndirect | ZeroPageIndirectY
  | ZeroPageIndirect | AbsoluteXIndirect | ZeroPage_relative

fun sizes :: "Mode \<Rightarrow> nat" where
  "sizes Accumulator = 1"
| "sizes Implied = 1"
| "sizes Immediate = 2"
| "sizes Absolute = 3"
| "sizes ZeroPage = 2"
| "sizes Relative = 2"
| "sizes AbsoluteX = 3"
| "sizes AbsoluteY = 3"
| "sizes ZeroPageX = 2"
| "sizes ZeroPageY = 2"
| "sizes AbsoluteIndirect = 3"
| "sizes ZeroPageXIndirect = 2"
| "sizes ZeroPageIndirectY = 2"
| "sizes ZeroPageIndirect = 2"
| "sizes AbsoluteXIndirect = 3"
| "sizes ZeroPage_relative = 3"

text \<open>Status register flag masks (\<open>flags\<close>) and the CPU-referenced locations (\<open>loc\<close>).\<close>

abbreviation (input) flags_N :: int where "flags_N \<equiv> 0x80"
abbreviation (input) flags_V :: int where "flags_V \<equiv> 0x40"
abbreviation (input) flags_X :: int where "flags_X \<equiv> 0x20"
abbreviation (input) flags_B :: int where "flags_B \<equiv> 0x10"
abbreviation (input) flags_D :: int where "flags_D \<equiv> 0x08"
abbreviation (input) flags_I :: int where "flags_I \<equiv> 0x04"
abbreviation (input) flags_Z :: int where "flags_Z \<equiv> 0x02"
abbreviation (input) flags_C :: int where "flags_C \<equiv> 0x01"

abbreviation (input) loc_STACK :: int where "loc_STACK \<equiv> 0x100"
abbreviation (input) loc_NMI :: int where "loc_NMI \<equiv> 0xfffa"
abbreviation (input) loc_RESET :: int where "loc_RESET \<equiv> 0xfffc"
abbreviation (input) loc_BRK :: int where "loc_BRK \<equiv> 0xfffe"

text \<open>
  A page handler is an object of the host.  Its methods may change the host's own state,
  of type \<open>'m\<close>; \<open>h_id\<close> stands for the identity of the object, \<open>h_reset\<close> is \<open>None\<close> for a
  handler without a \<open>reset\<close> method.
\<close>

record 'm MemoryPages =
  h_id :: nat
  h_start :: int
  h_end :: int
  h_read :: "int \<Rightarrow> int \<Rightarrow> 'm \<Rightarrow> int \<times> 'm"
  h_write :: "int \<Rightarrow> int \<Rightarrow> int \<Rightarrow> 'm \<Rightarrow> 'm"
  h_reset :: "('m \<Rightarrow> 'm) option"

definition isResettablePageHandler :: "'m MemoryPages \<Rightarrow> bool" where
  "isResettablePageHandler pageHandler = (h_reset pageHandler \<noteq> None)"

definition BLANK_PAGE :: "'m MemoryPages" where
  "BLANK_PAGE = \<lparr> h_id = 0, h_start = 0, h_end = 255,
     h_read = (\<lambda>page off m. (0, m)), h_write = (\<lambda>page off val m. m), h_reset = None \<rparr>"

text \<open>
  Every call the CPU makes on a page handler is appended to \<open>bus\<close>, a history variable
  that the source does not have: handler identity, page, offset and the byte moved.
\<close>

datatype access = Rd nat int int int | Wr nat int int int | Rs nat

datatype error = TypeError | Error string

record CpuState =
  st_a :: int
  st_x :: int
  st_y :: int
  st_s :: int
  st_pc :: int
  st_sp :: int
  st_cycles :: int

text \<open>
  The fields of the class.  \<open>op\<close> keeps the name and mode of the current instruction (its
  \<open>fn\<close> is looked up in the table again when needed); the read-only table \<open>opary\<close> is a
  function of the flavor and is recomputed from it.
\<close>

record 'm CPU6502 =
  flavor :: Flavor
  is65C02 :: bool
  pc :: int
  sr :: int
  ar :: int
  xr :: int
  yr :: int
  sp :: int
  op :: "(string \<times> Mode) option"
  addr :: int
  memPages :: "int \<rightharpoonup> 'm MemoryPages"
  resetHandlers :: "'m MemoryPages list"
  cycles :: int
  sync :: bool
  wait :: bool
  stop :: bool
  host :: 'm
  bus :: "access list"

section \<open>Methods as state transformers\<close>

text \<open>
  A method returns a value and the updated object, or throws and leaves the object as it
  was at the throw.
\<close>

type_synonym ('m, 'a) M = "'m CPU6502 \<Rightarrow> (error \<times> 'm CPU6502) + ('a \<times> 'm CPU6502)"

definition ret :: "'a \<Rightarrow> ('m, 'a) M" where
  "ret x = (\<lambda>s. Inr (x, s))"

definition throw :: "error \<Rightarrow> ('m, 'a) M" where
  "throw e = (\<lambda>s. Inl (e, s))"

definition bnd :: "('m, 'a) M \<Rightarrow> ('a \<Rightarrow> ('m, 'b) M) \<Rightarrow> ('m, 'b) M" where
  "bnd m f = (\<lambda>s. case m s of Inl (e, s') \<Rightarrow> Inl (e, s') | Inr (x, s') \<Rightarrow> f x s')"

definition thn :: "('m, 'a) M \<Rightarrow> ('m, 'b) M \<Rightarrow> ('m, 'b) M" where
  "thn m n = bnd m (\<lambda>_. n)"

definition get :: "('m CPU6502 \<Rightarrow> 'a) \<Rightarrow> ('m, 'a) M" where
  "get f = (\<lambda>s. Inr (f s, s))"

definition upd :: "('m CPU6502 \<Rightarrow> 'm CPU6502) \<Rightarrow> ('m, unit) M" where
  "upd f = (\<lambda>s. Inr ((), f s))"

subsection \<open>Flags\<close>

definition setFlag :: "int \<Rightarrow> bool \<Rightarrow> ('m, unit) M" where
  "setFlag f on = upd (\<lambda>s. s\<lparr>sr := (if on then bor (sr s) f else band (sr s) (bnot f))\<rparr>)"

definition testNZ :: "int \<Rightarrow> ('m, int) M" where
  "testNZ val =
     thn (upd (\<lambda>s. s\<lparr>sr := (if val = 0 then bor (sr s) flags_Z else band (sr s) (bnot flags_Z))\<rparr>))
    (thn (upd (\<lambda>s. s\<lparr>sr := (if band val 0x80 \<noteq> 0 then bor (sr s) flags_N
                             else band (sr s) (bnot flags_N))\<rparr>))
         (ret val))"

definition testZ :: "int \<Rightarrow> ('m, int) M" where
  "testZ val =
     thn (upd (\<lambda>s. s\<lparr>sr := (if val = 0 then bor (sr s) flags_Z else band (sr s) (bnot flags_Z))\<rparr>))
         (ret val)"

subsection \<open>Memory access\<close>

text \<open>
  \<open>memPages[page]\<close> is \<open>undefined\<close> for a page no handler was stored at, and calling
  \<open>read\<close> on it throws a \<open>TypeError\<close>, before the cycle counter moves.
\<close>

definition readByte :: "int \<Rightarrow> ('m, int) M" where
  "readByte a =
     thn (upd (\<lambda>s. s\<lparr>addr := a\<rparr>))
     (let page = shr a 8; off = band a 0xff in
      bnd (get memPages) (\<lambda>mp.
        case mp page of
          None \<Rightarrow> throw TypeError
        | Some h \<Rightarrow>
            bnd (get host) (\<lambda>m.
              let (result, m') = h_read h page off m in
              thn (upd (\<lambda>s. s\<lparr>host := m', bus := bus s @ [Rd (h_id h) page off result]\<rparr>))
             (thn (upd (\<lambda>s. s\<lparr>cycles := jadd (cycles s) 1\<rparr>))
                  (ret result)))))"

definition writeByte :: "int \<Rightarrow> int \<Rightarrow> ('m, unit) M" where
  "writeByte a val =
     thn (upd (\<lambda>s. s\<lparr>addr := a\<rparr>))
     (let page = shr a 8; off = band a 0xff in
      bnd (get memPages) (\<lambda>mp.
        case mp page of
          None \<Rightarrow> throw TypeError
        | Some h \<Rightarrow>
            thn (upd (\<lambda>s. s\<lparr>host := h_write h page off val (host s),
                             bus := bus s @ [Wr (h_id h) page off val]\<rparr>))
                (upd (\<lambda>s. s\<lparr>cycles := jadd (cycles s) 1\<rparr>))))"

definition readBytePC :: "('m, int) M" where
  "readBytePC =
     bnd (bnd (get pc) readByte) (\<lambda>result.
     thn (upd (\<lambda>s. s\<lparr>pc := band (jadd (pc s) 1) 0xffff\<rparr>))
         (ret result))"

definition readWord :: "int \<Rightarrow> ('m, int) M" where
  "readWord a =
     bnd (readByte a) (\<lambda>lo.
     bnd (readByte (jadd a 1)) (\<lambda>hi.
     ret (bor lo (shl hi 8))))"

definition readWordPC :: "('m, int) M" where
  "readWordPC =
     bnd readBytePC (\<lambda>lo.
     bnd readBytePC (\<lambda>hi.
     ret (bor lo (shl hi 8))))"

definition readZPWord :: "int \<Rightarrow> ('m, int) M" where
  "readZPWord a =
     bnd (readByte (band a 0xff)) (\<lambda>lsb.
     bnd (readByte (band (jadd a 1) 0xff)) (\<lambda>msb.
     ret (bor (shl msb 8) lsb)))"

definition pushByte :: "int \<Rightarrow> ('m, unit) M" where
  "pushByte val =
     thn (bnd (get sp) (\<lambda>p. writeByte (bor loc_STACK p) val))
         (upd (\<lambda>s. s\<lparr>sp := band (jadd (sp s) 0xff) 0xff\<rparr>))"

definition pushWord :: "int \<Rightarrow> ('m, unit) M" where
  "pushWord val = thn (pushByte (shr val 8)) (pushByte (band val 0xff))"

definition pullByte :: "('m, int) M" where
  "pullByte =
     thn (upd (\<lambda>s. s\<lparr>sp := band (jadd (sp s) 0x01) 0xff\<rparr>))
         (bnd (get sp) (\<lambda>p. readByte (bor loc_STACK p)))"

definition pullWordRaw :: "('m, int) M" where
  "pullWordRaw =
     bnd pullByte (\<lambda>lsb.
     bnd pullByte (\<lambda>msb.
     ret (bor (shl msb 8) lsb)))"

subsection \<open>Arithmetic\<close>

text \<open>
  \<open>add\<close> keeps four local variables \<open>n\<close>, \<open>co\<close>, \<open>v\<close>, \<open>z\<close> that its two closures
  \<open>updateFlags\<close> and \<open>updateBCDFlags\<close> assign; here the closures return them.
\<close>

definition updateFlags :: "int \<Rightarrow> int \<Rightarrow> int \<Rightarrow> int \<Rightarrow> int \<Rightarrow> int \<Rightarrow> int \<times> int \<times> int \<times> bool" where
  "updateFlags a b ci a7 b7 c =
     (let bin = band c 0xff;
          n = shr bin 7;
          co = shr c 8;
          z = (band (jadd (jadd a b) ci) 0xff = 0);
          v = bxor (bxor (bxor a7 b7) n) co
      in (n, co, v, z))"

definition updateBCDFlags ::
    "bool \<Rightarrow> int \<Rightarrow> int \<times> int \<times> int \<times> bool \<Rightarrow> ('m, int \<times> int \<times> int \<times> bool) M" where
  "updateBCDFlags sub c nvz =
     (case nvz of (n, co, v, z) \<Rightarrow>
      bnd (get is65C02) (\<lambda>c02.
      bnd (if c02 then
             (let bin = band c 0xff; n' = shr bin 7; z' = (bin = 0) in
              thn (bnd (get op) (\<lambda>cur.
                     if map_option snd cur = Some Immediate then
                       bnd (get flavor) (\<lambda>fl.
                         if fl = FLAVOR_WDC_65C02 then readByte (if sub then 0xb8 else 0x7f)
                         else readByte (if sub then 0xb1 else 0x59))
                     else bnd (get addr) readByte))
                  (ret (n', z')))
           else ret (n, z)) (\<lambda>(n', z').
      ret (n', (if \<not> sub then shr c 8 else co), v, z'))))"

definition add :: "int \<Rightarrow> int \<Rightarrow> bool \<Rightarrow> ('m, int) M" where
  "add a b sub =
     (let a7 = shr a 7; b7 = shr b 7 in
      bnd (get sr) (\<lambda>sr0.
      let ci = band sr0 flags_C;
          c0 = jadd (jadd (band a 0x0f) (band b 0x0f)) ci in
      bnd (bnd (get sr) (\<lambda>sr1.
             if band sr1 flags_D \<noteq> 0 then
               (if sub then
                  (let c1 = (if c0 < 0x10 then band (jsub c0 0x06) 0x0f else c0);
                       c2 = jadd c1 (jadd (band a 0xf0) (band b 0xf0));
                       fl = updateFlags a b ci a7 b7 c2;
                       c3 = (if c2 < 0x100 then jadd c2 0xa0 else c2)
                   in bnd (updateBCDFlags sub c3 fl) (\<lambda>fl'. ret (c3, fl')))
                else
                  (let c1 = (if c0 > 0x9 then jadd 0x10 (band (jadd c0 0x6) 0xf) else c0);
                       c2 = jadd c1 (jadd (band a 0xf0) (band b 0xf0));
                       fl = updateFlags a b ci a7 b7 c2;
                       c3 = (if c2 \<ge> 0xa0 then jadd c2 0x60 else c2)
                   in bnd (updateBCDFlags sub c3 fl) (\<lambda>fl'. ret (c3, fl'))))
             else
               (let c2 = jadd c0 (jadd (band a 0xf0) (band b 0xf0))
                in ret (c2, updateFlags a b ci a7 b7 c2)))) (\<lambda>(c, n, co, v, z).
      let c' = band c 0xff in
      thn (setFlag flags_N (n \<noteq> 0))
     (thn (setFlag flags_V (v \<noteq> 0))
     (thn (setFlag flags_Z z)
     (thn (setFlag flags_C (co \<noteq> 0))
          (ret c')))))))"

definition increment :: "int \<Rightarrow> ('m, int) M" where
  "increment a = testNZ (band (jadd a 0x01) 0xff)"

definition decrement :: "int \<Rightarrow> ('m, int) M" where
  "decrement a = testNZ (band (jadd a 0xff) 0xff)"

subsection \<open>Work cycles that differ between CPU versions\<close>

definition workCycle :: "int \<Rightarrow> int \<Rightarrow> ('m, unit) M" where
  "workCycle a val =
     bnd (get is65C02) (\<lambda>c02.
       if c02 then thn (readByte a) (ret ()) else writeByte a val)"

definition workCycleIndexedWrite :: "int \<Rightarrow> int \<Rightarrow> int \<Rightarrow> ('m, unit) M" where
  "workCycleIndexedWrite pc0 a addrIdx =
     (let oldPage = band a 0xff00 in
      bnd (get is65C02) (\<lambda>c02.
        if c02 then thn (readByte pc0) (ret ())
        else (let off = band addrIdx 0xff in thn (readByte (bor oldPage off)) (ret ()))))"

definition workCycleIndexedRead :: "int \<Rightarrow> int \<Rightarrow> int \<Rightarrow> ('m, unit) M" where
  "workCycleIndexedRead pc0 a addrIdx =
     (let oldPage = band a 0xff00; newPage = band addrIdx 0xff00 in
      if newPage \<noteq> oldPage then
        bnd (get is65C02) (\<lambda>c02.
          if c02 then thn (readByte pc0) (ret ())
          else (let off = band addrIdx 0xff in thn (readByte (bor oldPage off)) (ret ())))
      else ret ())"

subsection \<open>Addressing modes: implied and read functions\<close>

definition implied :: "('m, unit) M" where
  "implied = thn (bnd (get pc) readByte) (ret ())"

definition readImmediate :: "('m, int) M" where
  "readImmediate = readBytePC"

definition readAbsolute :: "('m, int) M" where
  "readAbsolute = bnd readWordPC readByte"

definition readZeroPage :: "('m, int) M" where
  "readZeroPage = bnd readBytePC readByte"

definition readAbsoluteX :: "('m, int) M" where
  "readAbsoluteX =
     bnd readWordPC (\<lambda>a.
     bnd (get addr) (\<lambda>pc0.
     bnd (get xr) (\<lambda>x.
     let addrIdx = band (jadd a x) 0xffff in
     thn (workCycleIndexedRead pc0 a addrIdx)
         (readByte addrIdx))))"

definition readAbsoluteY :: "('m, int) M" where
  "readAbsoluteY =
     bnd readWordPC (\<lambda>a.
     bnd (get addr) (\<lambda>pc0.
     bnd (get yr) (\<lambda>y.
     let addrIdx = band (jadd a y) 0xffff in
     thn (workCycleIndexedRead pc0 a addrIdx)
         (readByte addrIdx))))"

definition readZeroPageX :: "('m, int) M" where
  "readZeroPageX =
     bnd readBytePC (\<lambda>zpAddr.
     thn (readByte zpAddr)
         (bnd (get xr) (\<lambda>x. readByte (band (jadd zpAddr x) 0xff))))"

definition readZeroPageY :: "('m, int) M" where
  "readZeroPageY =
     bnd readBytePC (\<lambda>zpAddr.
     thn (readByte zpAddr)
         (bnd (get yr) (\<lambda>y. readByte (band (jadd zpAddr y) 0xff))))"

definition readZeroPageXIndirect :: "('m, int) M" where
  "readZeroPageXIndirect =
     bnd readBytePC (\<lambda>zpAddr.
     thn (readByte zpAddr)
         (bnd (get xr) (\<lambda>x.
          bnd (readZPWord (band (jadd zpAddr x) 0xff)) readByte)))"

definition readZeroPageIndirectY :: "('m, int) M" where
  "readZeroPageIndirectY =
     bnd readBytePC (\<lambda>zpAddr.
     bnd (get addr) (\<lambda>pc0.
     bnd (readZPWord zpAddr) (\<lambda>a.
     bnd (get yr) (\<lambda>y.
     let addrIdx = band (jadd a y) 0xffff in
     thn (workCycleIndexedRead pc0 a addrIdx)
         (readByte addrIdx)))))"

definition readZeroPageIndirect :: "('m, int) M" where
  "readZeroPageIndirect = bnd (bnd readBytePC readZPWord) readByte"

subsection \<open>Addressing modes: write functions\<close>

definition writeAbsolute :: "int \<Rightarrow> ('m, unit) M" where
  "writeAbsolute val = bnd readWordPC (\<lambda>a. writeByte a val)"

definition writeZeroPage :: "int \<Rightarrow> ('m, unit) M" where
  "writeZeroPage val = bnd readBytePC (\<lambda>a. writeByte a val)"

definition writeAbsoluteX :: "int \<Rightarrow> ('m, unit) M" where
  "writeAbsoluteX val =
     bnd readWordPC (\<lambda>a.
     bnd (get addr) (\<lambda>pc0.
     bnd (get xr) (\<lambda>x.
     let addrIdx = band (jadd a x) 0xffff in
     thn (workCycleIndexedWrite pc0 a addrIdx)
         (writeByte addrIdx val))))"

definition writeAbsoluteY :: "int \<Rightarrow> ('m, unit) M" where
  "writeAbsoluteY val =
     bnd readWordPC (\<lambda>a.
     bnd (get addr) (\<lambda>pc0.
     bnd (get yr) (\<lambda>y.
     let addrIdx = band (jadd a y) 0xffff in
     thn (workCycleIndexedWrite pc0 a addrIdx)
         (writeByte addrIdx val))))"

definition writeZeroPageX :: "int \<Rightarrow> ('m, unit) M" where
  "writeZeroPageX val =
     bnd readBytePC (\<lambda>zpAddr.
     thn (readByte zpAddr)
         (bnd (get xr) (\<lambda>x. writeByte (band (jadd zpAddr x) 0xff) val)))"

definition writeZeroPageY :: "int \<Rightarrow> ('m, unit) M" where
  "writeZeroPageY val =
     bnd readBytePC (\<lambda>zpAddr.
     thn (readByte zpAddr)
         (bnd (get yr) (\<lambda>y. writeByte (band (jadd zpAddr y) 0xff) val)))"

definition writeZeroPageXIndirect :: "int \<Rightarrow> ('m, unit) M" where
  "writeZeroPageXIndirect val =
     bnd readBytePC (\<lambda>zpAddr.
     thn (readByte zpAddr)
         (bnd (get xr) (\<lambda>x.
          bnd (readZPWord (band (jadd zpAddr x) 0xff)) (\<lambda>a.
          writeByte a val))))"

definition writeZeroPageIndirectY :: "int \<Rightarrow> ('m, unit) M" where
  "writeZeroPageIndirectY val =
     bnd readBytePC (\<lambda>zpAddr.
     bnd (get addr) (\<lambda>pc0.
     bnd (readZPWord zpAddr) (\<lambda>a.
     bnd (get yr) (\<lambda>y.
     let addrIdx = band (jadd a y) 0xffff in
     thn (workCycleIndexedWrite pc0 a addrIdx)
         (writeByte addrIdx val)))))"

definition writeZeroPageIndirect :: "int \<Rightarrow> ('m, unit) M" where
  "writeZeroPageIndirect val = bnd (bnd readBytePC readZPWord) (\<lambda>a. writeByte a val)"

subsection \<open>Addressing modes: address functions\<close>

text \<open>
  An address function is called with an optional \<open>opts\<close> object, of which only the field
  \<open>inc\<close> is ever read: \<open>None\<close> is a call without argument, \<open>Some b\<close> is \<open>{inc: b}\<close>.  Only
  \<open>readAddrAbsoluteX\<close> declares the parameter; the others ignore the argument.
\<close>

type_synonym Opts = "bool option"

definition readAddrZeroPage :: "Opts \<Rightarrow> ('m, int) M" where
  "readAddrZeroPage opts = readBytePC"

definition readAddrZeroPageX :: "Opts \<Rightarrow> ('m, int) M" where
  "readAddrZeroPageX opts =
     bnd readBytePC (\<lambda>zpAddr.
     thn (readByte zpAddr)
         (bnd (get xr) (\<lambda>x. ret (band (jadd zpAddr x) 0xff))))"

definition readAddrAbsolute :: "Opts \<Rightarrow> ('m, int) M" where
  "readAddrAbsolute opts = readWordPC"

definition readAddrAbsoluteIndirectBug :: "Opts \<Rightarrow> ('m, int) M" where
  "readAddrAbsoluteIndirectBug opts =
     bnd readWordPC (\<lambda>a.
     let page = band a 0xff00; off = band a 0x00ff in
     bnd (readByte a) (\<lambda>lsb.
     bnd (readByte (bor page (band (jadd off 0x01) 0xff))) (\<lambda>msb.
     ret (bor (shl msb 8) lsb))))"

definition readAddrAbsoluteIndirect :: "Opts \<Rightarrow> ('m, int) M" where
  "readAddrAbsoluteIndirect opts =
     bnd (bnd readWordPC readWord) (\<lambda>a.
     thn (bnd (get addr) readByte)
         (ret a))"

definition readAddrAbsoluteX :: "Opts \<Rightarrow> ('m, int) M" where
  "readAddrAbsoluteX opts =
     bnd readWordPC (\<lambda>a0.
     let page = band a0 0xff00 in
     bnd (get xr) (\<lambda>x.
     let a = band (jadd a0 x) 0xffff in
     thn (bnd (get is65C02) (\<lambda>c02.
            if c02 then
              (if opts = Some True then thn (bnd (get addr) readByte) (ret ())
               else (let newPage = band a 0xff00 in
                     if page \<noteq> newPage then thn (bnd (get addr) readByte) (ret ())
                     else ret ()))
            else (let off = band a 0x00ff in thn (readByte (bor page off)) (ret ()))))
         (ret a)))"

definition readAddrAbsoluteY :: "Opts \<Rightarrow> ('m, int) M" where
  "readAddrAbsoluteY opts =
     bnd readWordPC (\<lambda>a0.
     let page = band a0 0xff00 in
     bnd (get yr) (\<lambda>y.
     let a = band (jadd a0 y) 0xffff; off = band a 0x00ff in
     thn (readByte (bor page off))
         (ret a)))"

definition readAddrZeroPageXIndirect :: "Opts \<Rightarrow> ('m, int) M" where
  "readAddrZeroPageXIndirect opts =
     bnd readBytePC (\<lambda>zpAddr.
     thn (readByte zpAddr)
         (bnd (get xr) (\<lambda>x. readZPWord (band (jadd zpAddr x) 0xff))))"

definition readAddrZeroPageIndirectY :: "Opts \<Rightarrow> ('m, int) M" where
  "readAddrZeroPageIndirectY opts =
     bnd readBytePC (\<lambda>zpAddr.
     bnd (readZPWord zpAddr) (\<lambda>a.
     bnd (get yr) (\<lambda>y.
     let addrIdx = band (jadd a y) 0xffff;
         oldPage = band a 0xff00;
         off = band addrIdx 0xff in
     thn (readByte (bor oldPage off))
         (ret addrIdx))))"

definition readAddrAbsoluteXIndirect :: "Opts \<Rightarrow> ('m, int) M" where
  "readAddrAbsoluteXIndirect opts =
     bnd readBytePC (\<lambda>lsb.
     bnd (get addr) (\<lambda>pc0.
     bnd readBytePC (\<lambda>msb.
     bnd (get xr) (\<lambda>x.
     let a = band (jadd (bor (shl msb 8) lsb) x) 0xffff in
     thn (readByte pc0)
         (readWord a)))))"

definition readNop :: "('m, unit) M" where
  "readNop = thn readWordPC (thn (bnd (get addr) readByte) (ret ()))"

definition readNopImplied :: "('m, unit) M" where
  "readNopImplied = ret ()"

section \<open>Instructions\<close>

definition brk :: "('m, 'a) M \<Rightarrow> ('m, unit) M" where
  "brk readFn =
     thn readFn
    (thn (bnd (get pc) pushWord)
    (thn (bnd (get sr) (\<lambda>p. pushByte (bor p flags_B)))
    (thn (bnd (get is65C02) (\<lambda>c02. if c02 then setFlag flags_D False else ret ()))
    (thn (setFlag flags_I True)
         (bnd (readWord loc_BRK) (\<lambda>w. upd (\<lambda>s. s\<lparr>pc := w\<rparr>)))))))"

definition stp :: "('m, unit) M" where
  "stp =
     thn (upd (\<lambda>s. s\<lparr>stop := True\<rparr>))
    (thn (bnd (get pc) readByte)
    (thn (bnd (get pc) readByte) (ret ())))"

definition wai :: "('m, unit) M" where
  "wai =
     thn (upd (\<lambda>s. s\<lparr>wait := True\<rparr>))
    (thn (bnd (get pc) readByte)
    (thn (bnd (get pc) readByte) (ret ())))"

definition lda :: "('m, int) M \<Rightarrow> ('m, unit) M" where
  "lda readFn = bnd (bnd readFn testNZ) (\<lambda>v. upd (\<lambda>s. s\<lparr>ar := v\<rparr>))"

definition ldx :: "('m, int) M \<Rightarrow> ('m, unit) M" where
  "ldx readFn = bnd (bnd readFn testNZ) (\<lambda>v. upd (\<lambda>s. s\<lparr>xr := v\<rparr>))"

definition ldy :: "('m, int) M \<Rightarrow> ('m, unit) M" where
  "ldy readFn = bnd (bnd readFn testNZ) (\<lambda>v. upd (\<lambda>s. s\<lparr>yr := v\<rparr>))"

definition sta :: "(int \<Rightarrow> ('m, unit) M) \<Rightarrow> ('m, unit) M" where
  "sta writeFn = bnd (get ar) writeFn"

definition stx :: "(int \<Rightarrow> ('m, unit) M) \<Rightarrow> ('m, unit) M" where
  "stx writeFn = bnd (get xr) writeFn"

definition sty :: "(int \<Rightarrow> ('m, unit) M) \<Rightarrow> ('m, unit) M" where
  "sty writeFn = bnd (get yr) writeFn"

definition stz :: "(int \<Rightarrow> ('m, unit) M) \<Rightarrow> ('m, unit) M" where
  "stz writeFn = writeFn 0"

definition adc :: "('m, int) M \<Rightarrow> ('m, unit) M" where
  "adc readFn =
     bnd (get ar) (\<lambda>a.
     bnd readFn (\<lambda>b.
     bnd (add a b False) (\<lambda>v. upd (\<lambda>s. s\<lparr>ar := v\<rparr>))))"

definition sbc :: "('m, int) M \<Rightarrow> ('m, unit) M" where
  "sbc readFn =
     bnd (get ar) (\<lambda>a.
     bnd readFn (\<lambda>b.
     bnd (add a (bxor b 0xff) True) (\<lambda>v. upd (\<lambda>s. s\<lparr>ar := v\<rparr>))))"

definition incA :: "('m, unit) M" where
  "incA =
     thn (bnd (get pc) readByte)
         (bnd (bnd (get ar) increment) (\<lambda>v. upd (\<lambda>s. s\<lparr>ar := v\<rparr>)))"

definition inc :: "(Opts \<Rightarrow> ('m, int) M) \<Rightarrow> ('m, unit) M" where
  "inc readAddrFn =
     bnd (readAddrFn (Some True)) (\<lambda>a.
     bnd (readByte a) (\<lambda>oldVal.
     thn (workCycle a oldVal)
         (bnd (increment oldVal) (\<lambda>val.
          writeByte a val))))"

definition inx :: "('m, unit) M" where
  "inx =
     thn (bnd (get pc) readByte)
         (bnd (bnd (get xr) increment) (\<lambda>v. upd (\<lambda>s. s\<lparr>xr := v\<rparr>)))"

definition iny :: "('m, unit) M" where
  "iny =
     thn (bnd (get pc) readByte)
         (bnd (bnd (get yr) increment) (\<lambda>v. upd (\<lambda>s. s\<lparr>yr := v\<rparr>)))"

definition decA :: "('m, unit) M" where
  "decA =
     thn (bnd (get pc) readByte)
         (bnd (bnd (get ar) decrement) (\<lambda>v. upd (\<lambda>s. s\<lparr>ar := v\<rparr>)))"

definition dec :: "(Opts \<Rightarrow> ('m, int) M) \<Rightarrow> ('m, unit) M" where
  "dec readAddrFn =
     bnd (readAddrFn (Some True)) (\<lambda>a.
     bnd (readByte a) (\<lambda>oldVal.
     thn (workCycle a oldVal)
         (bnd (decrement oldVal) (\<lambda>val.
          writeByte a val))))"

definition dex :: "('m, unit) M" where
  "dex =
     thn (bnd (get pc) readByte)
         (bnd (bnd (get xr) decrement) (\<lambda>v. upd (\<lambda>s. s\<lparr>xr := v\<rparr>)))"

definition dey :: "('m, unit) M" where
  "dey =
     thn (bnd (get pc) readByte)
         (bnd (bnd (get yr) decrement) (\<lambda>v. upd (\<lambda>s. s\<lparr>yr := v\<rparr>)))"

definition shiftLeft :: "int \<Rightarrow> ('m, int) M" where
  "shiftLeft val =
     thn (setFlag flags_C (band val 0x80 \<noteq> 0))
         (testNZ (band (shl val 1) 0xff))"

definition aslA :: "('m, unit) M" where
  "aslA =
     thn (bnd (get pc) readByte)
         (bnd (bnd (get ar) shiftLeft) (\<lambda>v. upd (\<lambda>s. s\<lparr>ar := v\<rparr>)))"

definition asl :: "(Opts \<Rightarrow> ('m, int) M) \<Rightarrow> ('m, unit) M" where
  "asl readAddrFn =
     bnd (readAddrFn None) (\<lambda>a.
     bnd (readByte a) (\<lambda>oldVal.
     thn (workCycle a oldVal)
         (bnd (shiftLeft oldVal) (\<lambda>val.
          writeByte a val))))"

definition shiftRight :: "int \<Rightarrow> ('m, int) M" where
  "shiftRight val =
     thn (setFlag flags_C (band val 0x01 \<noteq> 0))
         (testNZ (shr val 1))"

definition lsrA :: "('m, unit) M" where
  "lsrA =
     thn (bnd (get pc) readByte)
         (bnd (bnd (get ar) shiftRight) (\<lambda>v. upd (\<lambda>s. s\<lparr>ar := v\<rparr>)))"

definition lsr :: "(Opts \<Rightarrow> ('m, int) M) \<Rightarrow> ('m, unit) M" where
  "lsr readAddrFn =
     bnd (readAddrFn None) (\<lambda>a.
     bnd (readByte a) (\<lambda>oldVal.
     thn (workCycle a oldVal)
         (bnd (shiftRight oldVal) (\<lambda>val.
          writeByte a val))))"

definition rotateLeft :: "int \<Rightarrow> ('m, int) M" where
  "rotateLeft val =
     bnd (get sr) (\<lambda>p.
     let c = band p flags_C in
     thn (setFlag flags_C (band val 0x80 \<noteq> 0))
         (testNZ (band (bor (shl val 1) (if c \<noteq> 0 then 0x01 else 0x00)) 0xff)))"

definition rolA :: "('m, unit) M" where
  "rolA =
     thn (bnd (get pc) readByte)
         (bnd (bnd (get ar) rotateLeft) (\<lambda>v. upd (\<lambda>s. s\<lparr>ar := v\<rparr>)))"

definition rol :: "(Opts \<Rightarrow> ('m, int) M) \<Rightarrow> ('m, unit) M" where
  "rol readAddrFn =
     bnd (readAddrFn None) (\<lambda>a.
     bnd (readByte a) (\<lambda>oldVal.
     thn (workCycle a oldVal)
         (bnd (rotateLeft oldVal) (\<lambda>val.
          writeByte a val))))"

definition rotateRight :: "int \<Rightarrow> ('m, int) M" where
  "rotateRight a =
     bnd (get sr) (\<lambda>p.
     let c = band p flags_C in
     thn (setFlag flags_C (band a 0x01 \<noteq> 0))
         (testNZ (bor (shr a 1) (if c \<noteq> 0 then 0x80 else 0x00))))"

definition rorA :: "('m, unit) M" where
  "rorA =
     thn (bnd (get pc) readByte)
         (bnd (bnd (get ar) rotateRight) (\<lambda>v. upd (\<lambda>s. s\<lparr>ar := v\<rparr>)))"

definition ror :: "(Opts \<Rightarrow> ('m, int) M) \<Rightarrow> ('m, unit) M" where
  "ror readAddrFn =
     bnd (readAddrFn None) (\<lambda>a.
     bnd (readByte a) (\<lambda>oldVal.
     thn (workCycle a oldVal)
         (bnd (rotateRight oldVal) (\<lambda>val.
          writeByte a val))))"

definition and_op :: "('m, int) M \<Rightarrow> ('m, unit) M" where
  "and_op readFn =
     bnd (get ar) (\<lambda>a.
     bnd readFn (\<lambda>b.
     bnd (testNZ (band a b)) (\<lambda>v. upd (\<lambda>s. s\<lparr>ar := v\<rparr>))))"

definition ora :: "('m, int) M \<Rightarrow> ('m, unit) M" where
  "ora readFn =
     bnd (get ar) (\<lambda>a.
     bnd readFn (\<lambda>b.
     bnd (testNZ (bor a b)) (\<lambda>v. upd (\<lambda>s. s\<lparr>ar := v\<rparr>))))"

definition eor :: "('m, int) M \<Rightarrow> ('m, unit) M" where
  "eor readFn =
     bnd (get ar) (\<lambda>a.
     bnd readFn (\<lambda>b.
     bnd (testNZ (bxor a b)) (\<lambda>v. upd (\<lambda>s. s\<lparr>ar := v\<rparr>))))"

definition rmb :: "nat \<Rightarrow> ('m, unit) M" where
  "rmb b =
     (let bit_mask = bxor (shl 0x1 b) 0xff in
      bnd readBytePC (\<lambda>a.
      bnd (readByte a) (\<lambda>val.
      thn (readByte a)
          (writeByte a (band val bit_mask)))))"

definition smb :: "nat \<Rightarrow> ('m, unit) M" where
  "smb b =
     (let bit_mask = shl 0x1 b in
      bnd readBytePC (\<lambda>a.
      bnd (readByte a) (\<lambda>val.
      thn (readByte a)
          (writeByte a (bor val bit_mask)))))"

definition trb :: "(Opts \<Rightarrow> ('m, int) M) \<Rightarrow> ('m, unit) M" where
  "trb readAddrFn =
     bnd (readAddrFn None) (\<lambda>a.
     bnd (readByte a) (\<lambda>val.
     thn (bnd (get ar) (\<lambda>acc. testZ (band val acc)))
    (thn (readByte a)
         (bnd (get ar) (\<lambda>acc. writeByte a (band val (bnot acc)))))))"

definition tsb :: "(Opts \<Rightarrow> ('m, int) M) \<Rightarrow> ('m, unit) M" where
  "tsb readAddrFn =
     bnd (readAddrFn None) (\<lambda>a.
     bnd (readByte a) (\<lambda>val.
     thn (bnd (get ar) (\<lambda>acc. testZ (band val acc)))
    (thn (readByte a)
         (bnd (get ar) (\<lambda>acc. writeByte a (bor val acc))))))"

definition bit_op :: "('m, int) M \<Rightarrow> ('m, unit) M" where
  "bit_op readFn =
     bnd readFn (\<lambda>val.
     thn (bnd (get ar) (\<lambda>acc. setFlag flags_Z (band val acc = 0)))
    (thn (setFlag flags_N (band val 0x80 \<noteq> 0))
         (setFlag flags_V (band val 0x40 \<noteq> 0))))"

definition bitI :: "('m, int) M \<Rightarrow> ('m, unit) M" where
  "bitI readFn =
     bnd readFn (\<lambda>val.
     bnd (get ar) (\<lambda>acc. setFlag flags_Z (band val acc = 0)))"

definition compare :: "int \<Rightarrow> int \<Rightarrow> ('m, unit) M" where
  "compare a b0 =
     (let b = bxor b0 0xff; c = jadd (jadd a b) 1 in
      thn (setFlag flags_C (c > 0xff))
     (thn (testNZ (band c 0xff)) (ret ())))"

definition cmp :: "('m, int) M \<Rightarrow> ('m, unit) M" where
  "cmp readFn = bnd (get ar) (\<lambda>r. bnd readFn (\<lambda>b. compare r b))"

definition cpx :: "('m, int) M \<Rightarrow> ('m, unit) M" where
  "cpx readFn = bnd (get xr) (\<lambda>r. bnd readFn (\<lambda>b. compare r b))"

definition cpy :: "('m, int) M \<Rightarrow> ('m, unit) M" where
  "cpy readFn = bnd (get yr) (\<lambda>r. bnd readFn (\<lambda>b. compare r b))"

subsection \<open>Branches\<close>

text \<open>The body shared by \<open>brs\<close> and \<open>brc\<close> once the branch is taken.\<close>

definition branch_taken :: "int \<Rightarrow> ('m, unit) M" where
  "branch_taken off =
     thn (bnd (get pc) readByte)
    (bnd (get pc) (\<lambda>pc0.
     let oldPage = band pc0 0xff00 in
     thn (upd (\<lambda>s. s\<lparr>pc := jadd (pc s) (if off > 127 then jsub off 256 else off)\<rparr>))
    (thn (upd (\<lambda>s. s\<lparr>pc := band (pc s) 0xffff\<rparr>))
    (bnd (get pc) (\<lambda>pc1.
     let newPage = band pc1 0xff00; newOff = band pc1 0xff in
     if newPage \<noteq> oldPage then thn (readByte (bor oldPage newOff)) (ret ()) else ret ())))))"

definition brs :: "int \<Rightarrow> ('m, unit) M" where
  "brs f =
     bnd readBytePC (\<lambda>off.
     bnd (get sr) (\<lambda>p.
     if band f p \<noteq> 0 then branch_taken off else ret ()))"

definition brc :: "int \<Rightarrow> ('m, unit) M" where
  "brc f =
     bnd readBytePC (\<lambda>off.
     bnd (get sr) (\<lambda>p.
     if band f p = 0 then branch_taken off else ret ()))"

definition bbr :: "nat \<Rightarrow> ('m, unit) M" where
  "bbr b =
     bnd readBytePC (\<lambda>zpAddr.
     bnd (readByte zpAddr) (\<lambda>val.
     thn (writeByte zpAddr val)
    (bnd readBytePC (\<lambda>off.
     bnd (get pc) (\<lambda>oldPc.
     let oldPage = band oldPc 0xff00;
         newPC = band (jadd oldPc (if off > 127 then jsub off 256 else off)) 0xffff;
         newOff = band newPC 0xff in
     thn (readByte (bor oldPage newOff))
         (if band (shl 1 b) val = 0 then upd (\<lambda>s. s\<lparr>pc := newPC\<rparr>) else ret ()))))))"

definition bbs :: "nat \<Rightarrow> ('m, unit) M" where
  "bbs b =
     bnd readBytePC (\<lambda>zpAddr.
     bnd (readByte zpAddr) (\<lambda>val.
     thn (writeByte zpAddr val)
    (bnd readBytePC (\<lambda>off.
     bnd (get pc) (\<lambda>oldPc.
     let oldPage = band oldPc 0xff00;
         newPC = band (jadd oldPc (if off > 127 then jsub off 256 else off)) 0xffff;
         newOff = band newPC 0xff in
     thn (readByte (bor oldPage newOff))
         (if band (shl 1 b) val \<noteq> 0 then upd (\<lambda>s. s\<lparr>pc := newPC\<rparr>) else ret ()))))))"

subsection \<open>Transfers and stack\<close>

definition tax :: "('m, unit) M" where
  "tax = thn (bnd (get pc) readByte)
        (thn (upd (\<lambda>s. s\<lparr>xr := ar s\<rparr>)) (thn (bnd (get xr) testNZ) (ret ())))"

definition txa :: "('m, unit) M" where
  "txa = thn (bnd (get pc) readByte)
        (thn (upd (\<lambda>s. s\<lparr>ar := xr s\<rparr>)) (thn (bnd (get ar) testNZ) (ret ())))"

definition tay :: "('m, unit) M" where
  "tay = thn (bnd (get pc) readByte)
        (thn (upd (\<lambda>s. s\<lparr>yr := ar s\<rparr>)) (thn (bnd (get yr) testNZ) (ret ())))"

definition tya :: "('m, unit) M" where
  "tya = thn (bnd (get pc) readByte)
        (thn (upd (\<lambda>s. s\<lparr>ar := yr s\<rparr>)) (thn (bnd (get ar) testNZ) (ret ())))"

definition tsx :: "('m, unit) M" where
  "tsx = thn (bnd (get pc) readByte)
        (thn (upd (\<lambda>s. s\<lparr>xr := sp s\<rparr>)) (thn (bnd (get xr) testNZ) (ret ())))"

definition txs :: "('m, unit) M" where
  "txs = thn (bnd (get pc) readByte) (upd (\<lambda>s. s\<lparr>sp := xr s\<rparr>))"

definition pha :: "('m, unit) M" where
  "pha = thn (bnd (get pc) readByte) (bnd (get ar) pushByte)"

definition pla :: "('m, unit) M" where
  "pla = thn (bnd (get pc) readByte)
        (thn (bnd (get sp) (\<lambda>p. readByte (bor 0x0100 p)))
        (bnd pullByte (\<lambda>v.
         thn (upd (\<lambda>s. s\<lparr>ar := v\<rparr>)) (thn (testNZ v) (ret ())))))"

definition phx :: "('m, unit) M" where
  "phx = thn (bnd (get pc) readByte) (bnd (get xr) pushByte)"

definition plx :: "('m, unit) M" where
  "plx = thn (bnd (get pc) readByte)
        (thn (bnd (get sp) (\<lambda>p. readByte (bor 0x0100 p)))
        (bnd pullByte (\<lambda>v.
         thn (upd (\<lambda>s. s\<lparr>xr := v\<rparr>)) (thn (testNZ v) (ret ())))))"

definition phy :: "('m, unit) M" where
  "phy = thn (bnd (get pc) readByte) (bnd (get yr) pushByte)"

definition ply :: "('m, unit) M" where
  "ply = thn (bnd (get pc) readByte)
        (thn (bnd (get sp) (\<lambda>p. readByte (bor 0x0100 p)))
        (bnd pullByte (\<lambda>v.
         thn (upd (\<lambda>s. s\<lparr>yr := v\<rparr>)) (thn (testNZ v) (ret ())))))"

definition php :: "('m, unit) M" where
  "php = thn (bnd (get pc) readByte) (bnd (get sr) (\<lambda>p. pushByte (bor p flags_B)))"

definition plp :: "('m, unit) M" where
  "plp = thn (bnd (get pc) readByte)
        (thn (bnd (get sp) (\<lambda>p. readByte (bor 0x0100 p)))
        (bnd pullByte (\<lambda>v. upd (\<lambda>s. s\<lparr>sr := bor (band v (bnot flags_B)) flags_X\<rparr>))))"

subsection \<open>Jumps, returns, flags, no-ops\<close>

definition jmp :: "(Opts \<Rightarrow> ('m, int) M) \<Rightarrow> ('m, unit) M" where
  "jmp readAddrFn = bnd (readAddrFn None) (\<lambda>a. upd (\<lambda>s. s\<lparr>pc := a\<rparr>))"

definition jsr :: "('m, unit) M" where
  "jsr =
     bnd readBytePC (\<lambda>lsb.
     thn (bnd (get sp) (\<lambda>p. readByte (bor 0x0100 p)))
    (thn (bnd (get pc) pushWord)
    (bnd readBytePC (\<lambda>msb.
     upd (\<lambda>s. s\<lparr>pc := band (bor (shl msb 8) lsb) 0xffff\<rparr>)))))"

definition rts :: "('m, unit) M" where
  "rts =
     thn (bnd (get pc) readByte)
    (thn (bnd (get sp) (\<lambda>p. readByte (bor 0x0100 p)))
    (bnd pullWordRaw (\<lambda>a.
     thn (readByte a)
         (upd (\<lambda>s. s\<lparr>pc := band (jadd a 1) 0xffff\<rparr>)))))"

definition rti :: "('m, unit) M" where
  "rti =
     thn (bnd (get pc) readByte)
    (thn (bnd (get sp) (\<lambda>p. readByte (bor 0x0100 p)))
    (thn (bnd pullByte (\<lambda>v. upd (\<lambda>s. s\<lparr>sr := bor (band v (bnot flags_B)) flags_X\<rparr>)))
         (bnd pullWordRaw (\<lambda>a. upd (\<lambda>s. s\<lparr>pc := a\<rparr>)))))"

definition set_op :: "int \<Rightarrow> ('m, unit) M" where
  "set_op flag = thn (bnd (get pc) readByte) (upd (\<lambda>s. s\<lparr>sr := bor (sr s) flag\<rparr>))"

definition clr :: "int \<Rightarrow> ('m, unit) M" where
  "clr flag = thn (bnd (get pc) readByte) (upd (\<lambda>s. s\<lparr>sr := band (sr s) (bnot flag)\<rparr>))"

definition nop :: "('m, 'a) M \<Rightarrow> ('m, unit) M" where
  "nop readFn = thn readFn (ret ())"

subsection \<open>NMOS 6502 illegal opcodes\<close>

definition aso :: "(Opts \<Rightarrow> ('m, int) M) \<Rightarrow> ('m, unit) M" where
  "aso readAddrFn =
     bnd (readAddrFn None) (\<lambda>a.
     bnd (readByte a) (\<lambda>oldVal.
     thn (workCycle a oldVal)
    (bnd (shiftLeft oldVal) (\<lambda>val.
     thn (writeByte a val)
         (thn (upd (\<lambda>s. s\<lparr>ar := bor (ar s) val\<rparr>))
         (thn (bnd (get ar) testNZ) (ret ())))))))"

definition rla :: "(Opts \<Rightarrow> ('m, int) M) \<Rightarrow> ('m, unit) M" where
  "rla readAddrFn =
     bnd (readAddrFn None) (\<lambda>a.
     bnd (readByte a) (\<lambda>oldVal.
     thn (workCycle a oldVal)
    (bnd (rotateLeft oldVal) (\<lambda>val.
     thn (writeByte a val)
         (thn (upd (\<lambda>s. s\<lparr>ar := band (ar s) val\<rparr>))
         (thn (bnd (get ar) testNZ) (ret ())))))))"

definition lse :: "(Opts \<Rightarrow> ('m, int) M) \<Rightarrow> ('m, unit) M" where
  "lse readAddrFn =
     bnd (readAddrFn None) (\<lambda>a.
     bnd (readByte a) (\<lambda>oldVal.
     thn (workCycle a oldVal)
    (bnd (shiftRight oldVal) (\<lambda>val.
     thn (writeByte a val)
         (thn (upd (\<lambda>s. s\<lparr>ar := bxor (ar s) val\<rparr>))
         (thn (bnd (get ar) testNZ) (ret ())))))))"

definition rra :: "(Opts \<Rightarrow> ('m, int) M) \<Rightarrow> ('m, unit) M" where
  "rra readAddrFn =
     bnd (readAddrFn None) (\<lambda>a.
     bnd (readByte a) (\<lambda>oldVal.
     thn (workCycle a oldVal)
    (bnd (rotateRight oldVal) (\<lambda>val.
     thn (writeByte a val)
         (bnd (bnd (get ar) (\<lambda>acc. add acc val False)) (\<lambda>v. upd (\<lambda>s. s\<lparr>ar := v\<rparr>)))))))"

definition axs :: "(int \<Rightarrow> ('m, unit) M) \<Rightarrow> ('m, unit) M" where
  "axs writeFn = bnd (get ar) (\<lambda>acc. bnd (get xr) (\<lambda>x. writeFn (band acc x)))"

definition lax :: "('m, int) M \<Rightarrow> ('m, unit) M" where
  "lax readFn =
     bnd readFn (\<lambda>val.
     thn (upd (\<lambda>s. s\<lparr>ar := val\<rparr>))
    (thn (upd (\<lambda>s. s\<lparr>xr := val\<rparr>))
    (thn (testNZ val) (ret ()))))"

definition dcm :: "(Opts \<Rightarrow> ('m, int) M) \<Rightarrow> ('m, unit) M" where
  "dcm readAddrFn =
     bnd (readAddrFn (Some True)) (\<lambda>a.
     bnd (readByte a) (\<lambda>oldVal.
     thn (workCycle a oldVal)
    (bnd (decrement oldVal) (\<lambda>val.
     thn (writeByte a val)
         (bnd (get ar) (\<lambda>acc. compare acc val))))))"

definition ins :: "(Opts \<Rightarrow> ('m, int) M) \<Rightarrow> ('m, unit) M" where
  "ins readAddrFn =
     bnd (readAddrFn (Some True)) (\<lambda>a.
     bnd (readByte a) (\<lambda>oldVal.
     thn (workCycle a oldVal)
    (bnd (increment oldVal) (\<lambda>val.
     thn (writeByte a val)
         (bnd (bnd (get ar) (\<lambda>acc. add acc (bxor val 0xff) True)) (\<lambda>v. upd (\<lambda>s. s\<lparr>ar := v\<rparr>)))))))"

definition alr :: "('m, int) M \<Rightarrow> ('m, unit) M" where
  "alr readFn =
     bnd readFn (\<lambda>b.
     bnd (get ar) (\<lambda>acc.
     let val = band b acc in
     bnd (shiftRight val) (\<lambda>v. upd (\<lambda>s. s\<lparr>ar := v\<rparr>))))"

definition arr :: "('m, int) M \<Rightarrow> ('m, unit) M" where
  "arr readFn =
     bnd readFn (\<lambda>b.
     bnd (get ar) (\<lambda>acc.
     let val = band b acc;
         ah = shr val 4;
         al = band val 0xf;
         b7 = shr val 7;
         b6 = band (shr val 6) 0x1 in
     thn (bnd (rotateRight val) (\<lambda>v. upd (\<lambda>s. s\<lparr>ar := v\<rparr>)))
    (let c = (b7 \<noteq> 0); v = (bxor b7 b6 \<noteq> 0) in
     bnd (bnd (get sr) (\<lambda>p.
            if band p flags_D \<noteq> 0 then
              thn (if jadd al (band al 0x1) > 0x5
                   then upd (\<lambda>s. s\<lparr>ar := bor (band (ar s) 0xf0) (band (jadd (ar s) 0x6) 0xf)\<rparr>)
                   else ret ())
                  (if jadd ah (band ah 0x1) > 5
                   then thn (upd (\<lambda>s. s\<lparr>ar := band (jadd (ar s) 0x60) 0xff\<rparr>)) (ret True)
                   else ret c)
            else ret c)) (\<lambda>c'.
     thn (setFlag flags_V v)
         (setFlag flags_C c')))))"

definition xaa :: "('m, int) M \<Rightarrow> ('m, unit) M" where
  "xaa readFn =
     bnd readFn (\<lambda>val.
     thn (upd (\<lambda>s. s\<lparr>ar := bor (band (xr s) 0xee) (band (band (xr s) (ar s)) 0x11)\<rparr>))
         (bnd (bnd (get ar) (\<lambda>acc. testNZ (band acc val))) (\<lambda>v. upd (\<lambda>s. s\<lparr>ar := v\<rparr>))))"

definition oal :: "('m, int) M \<Rightarrow> ('m, unit) M" where
  "oal readFn =
     thn (upd (\<lambda>s. s\<lparr>ar := bor (ar s) 0xee\<rparr>))
    (bnd (get ar) (\<lambda>acc.
     bnd readFn (\<lambda>b.
     bnd (testNZ (band acc b)) (\<lambda>val.
     thn (upd (\<lambda>s. s\<lparr>ar := val\<rparr>))
         (upd (\<lambda>s. s\<lparr>xr := val\<rparr>))))))"

definition sax :: "('m, int) M \<Rightarrow> ('m, unit) M" where
  "sax readFn =
     bnd (get xr) (\<lambda>x.
     bnd (get ar) (\<lambda>acc.
     let a = band x acc in
     bnd readFn (\<lambda>b0.
     let b = bxor b0 0xff; c = jadd (jadd a b) 1 in
     thn (setFlag flags_C (c > 0xff))
         (bnd (testNZ (band c 0xff)) (\<lambda>v. upd (\<lambda>s. s\<lparr>xr := v\<rparr>))))))"

definition tas :: "(Opts \<Rightarrow> ('m, int) M) \<Rightarrow> ('m, unit) M" where
  "tas readAddrFn =
     bnd (readAddrFn None) (\<lambda>a.
     bnd (get xr) (\<lambda>x.
     bnd (get ar) (\<lambda>acc.
     let val = band x acc in
     thn (upd (\<lambda>s. s\<lparr>sp := val\<rparr>))
         (let msb = shr a 8; val' = band val (band (jadd msb 1) 0xff) in
          writeByte a val'))))"

definition say :: "(Opts \<Rightarrow> ('m, int) M) \<Rightarrow> ('m, unit) M" where
  "say readAddrFn =
     bnd (readAddrFn None) (\<lambda>a.
     let msb = shr a 8 in
     bnd (get yr) (\<lambda>y.
     let val = band y (band (jadd msb 1) 0xff) in
     writeByte a val))"

definition xas :: "(Opts \<Rightarrow> ('m, int) M) \<Rightarrow> ('m, unit) M" where
  "xas readAddrFn =
     bnd (readAddrFn None) (\<lambda>a.
     let msb = shr a 8 in
     bnd (get xr) (\<lambda>x.
     let val = band x (band (jadd msb 1) 0xff) in
     writeByte a val))"

definition axa :: "(Opts \<Rightarrow> ('m, int) M) \<Rightarrow> ('m, unit) M" where
  "axa readAddrFn =
     bnd (readAddrFn None) (\<lambda>a.
     bnd (get xr) (\<lambda>x.
     bnd (get ar) (\<lambda>acc.
     let val = band x acc;
         msb = shr a 8;
         val' = band val (band (jadd msb 1) 0xff) in
     writeByte a val')))"

definition anc :: "('m, int) M \<Rightarrow> ('m, unit) M" where
  "anc readFn =
     bnd (get ar) (\<lambda>acc.
     bnd readFn (\<lambda>b.
     thn (bnd (testNZ (band acc b)) (\<lambda>v. upd (\<lambda>s. s\<lparr>ar := v\<rparr>)))
         (bnd (get ar) (\<lambda>acc'. setFlag flags_C (band acc' 0x80 \<noteq> 0)))))"

definition las :: "('m, int) M \<Rightarrow> ('m, unit) M" where
  "las readFn =
     bnd (get sp) (\<lambda>p.
     bnd readFn (\<lambda>b.
     let val = band p b in
     thn (upd (\<lambda>s. s\<lparr>sp := val\<rparr>))
    (thn (upd (\<lambda>s. s\<lparr>xr := val\<rparr>))
         (bnd (testNZ val) (\<lambda>v. upd (\<lambda>s. s\<lparr>ar := v\<rparr>))))))"

definition skp :: "('m, 'a) M \<Rightarrow> ('m, unit) M" where
  "skp readFn = thn readFn (ret ())"

definition hlt :: "('m, 'a) M \<Rightarrow> ('m, unit) M" where
  "hlt impliedFn =
     thn (bnd (get pc) readByte)
    (thn (bnd (get pc) readByte)
    (thn (upd (\<lambda>s. s\<lparr>pc := band (jsub (pc s) 1) 0xffff\<rparr>))
         (upd (\<lambda>s. s\<lparr>stop := True\<rparr>))))"

section \<open>Opcode tables\<close>

record 'm Instruction =
  name :: string
  mode :: Mode
  fn :: "('m, unit) M"

text \<open>
  The five tables of the class, as the object literals list them.  A function that takes
  an address function calls it itself; \<open>skp\<close> and \<open>nop\<close> call what they are given without
  argument.
\<close>

definition OPS_6502 :: "(int \<times> 'm Instruction) list" where
  "OPS_6502 = [
     (0xa9, \<lparr>name = ''LDA'', mode = Immediate, fn = lda readImmediate\<rparr>),
     (0xa5, \<lparr>name = ''LDA'', mode = ZeroPage, fn = lda readZeroPage\<rparr>),
     (0xb5, \<lparr>name = ''LDA'', mode = ZeroPageX, fn = lda readZeroPageX\<rparr>),
     (0xad, \<lparr>name = ''LDA'', mode = Absolute, fn = lda readAbsolute\<rparr>),
     (0xbd, \<lparr>name = ''LDA'', mode = AbsoluteX, fn = lda readAbsoluteX\<rparr>),
     (0xb9, \<lparr>name = ''LDA'', mode = AbsoluteY, fn = lda readAbsoluteY\<rparr>),
     (0xa1, \<lparr>name = ''LDA'', mode = ZeroPageXIndirect, fn = lda readZeroPageXIndirect\<rparr>),
     (0xb1, \<lparr>name = ''LDA'', mode = ZeroPageIndirectY, fn = lda readZeroPageIndirectY\<rparr>),
     (0xa2, \<lparr>name = ''LDX'', mode = Immediate, fn = ldx readImmediate\<rparr>),
     (0xa6, \<lparr>name = ''LDX'', mode = ZeroPage, fn = ldx readZeroPage\<rparr>),
     (0xb6, \<lparr>name = ''LDX'', mode = ZeroPageY, fn = ldx readZeroPageY\<rparr>),
     (0xae, \<lparr>name = ''LDX'', mode = Absolute, fn = ldx readAbsolute\<rparr>),
     (0xbe, \<lparr>name = ''LDX'', mode = AbsoluteY, fn = ldx readAbsoluteY\<rparr>),
     (0xa0, \<lparr>name = ''LDY'', mode = Immediate, fn = ldy readImmediate\<rparr>),
     (0xa4, \<lparr>name = ''LDY'', mode = ZeroPage, fn = ldy readZeroPage\<rparr>),
     (0xb4, \<lparr>name = ''LDY'', mode = ZeroPageX, fn = ldy readZeroPageX\<rparr>),
     (0xac, \<lparr>name = ''LDY'', mode = Absolute, fn = ldy readAbsolute\<rparr>),
     (0xbc, \<lparr>name = ''LDY'', mode = AbsoluteX, fn = ldy readAbsoluteX\<rparr>),
     (0x85, \<lparr>name = ''STA'', mode = ZeroPage, fn = sta writeZeroPage\<rparr>),
     (0x95, \<lparr>name = ''STA'', mode = ZeroPageX, fn = sta writeZeroPageX\<rparr>),
     (0x8d, \<lparr>name = ''STA'', mode = Absolute, fn = sta writeAbsolute\<rparr>),
     (0x9d, \<lparr>name = ''STA'', mode = AbsoluteX, fn = sta writeAbsoluteX\<rparr>),
     (0x99, \<lparr>name = ''STA'', mode = AbsoluteY, fn = sta writeAbsoluteY\<rparr>),
     (0x81, \<lparr>name = ''STA'', mode = ZeroPageXIndirect, fn = sta writeZeroPageXIndirect\<rparr>),
     (0x91, \<lparr>name = ''STA'', mode = ZeroPageIndirectY, fn = sta writeZeroPageIndirectY\<rparr>),
     (0x86, \<lparr>name = ''STX'', mode = ZeroPage, fn = stx writeZeroPage\<rparr>),
     (0x96, \<lparr>name = ''STX'', mode = ZeroPageY, fn = stx writeZeroPageY\<rparr>),
     (0x8e, \<lparr>name = ''STX'', mode = Absolute, fn = stx writeAbsolute\<rparr>),
     (0x84, \<lparr>name = ''STY'', mode = ZeroPage, fn = sty writeZeroPage\<rparr>),
     (0x94, \<lparr>name = ''STY'', mode = ZeroPageX, fn = sty writeZeroPageX\<rparr>),
     (0x8c, \<lparr>name = ''STY'', mode = Absolute, fn = sty writeAbsolute\<rparr>),
     (0x69, \<lparr>name = ''ADC'', mode = Immediate, fn = adc readImmediate\<rparr>),
     (0x65, \<lparr>name = ''ADC'', mode = ZeroPage, fn = adc readZeroPage\<rparr>),
     (0x75, \<lparr>name = ''ADC'', mode = ZeroPageX, fn = adc readZeroPageX\<rparr>),
     (0x6d, \<lparr>name = ''ADC'', mode = Absolute, fn = adc readAbsolute\<rparr>),
     (0x7d, \<lparr>name = ''ADC'', mode = AbsoluteX, fn = adc readAbsoluteX\<rparr>),
     (0x79, \<lparr>name = ''ADC'', mode = AbsoluteY, fn = adc readAbsoluteY\<rparr>),
     (0x61, \<lparr>name = ''ADC'', mode = ZeroPageXIndirect, fn = adc readZeroPageXIndirect\<rparr>),
     (0x71, \<lparr>name = ''ADC'', mode = ZeroPageIndirectY, fn = adc readZeroPageIndirectY\<rparr>),
     (0xe9, \<lparr>name = ''SBC'', mode = Immediate, fn = sbc readImmediate\<rparr>),
     (0xe5, \<lparr>name = ''SBC'', mode = ZeroPage, fn = sbc readZeroPage\<rparr>),
     (0xf5, \<lparr>name = ''SBC'', mode = ZeroPageX, fn = sbc readZeroPageX\<rparr>),
     (0xed, \<lparr>name = ''SBC'', mode = Absolute, fn = sbc readAbsolute\<rparr>),
     (0xfd, \<lparr>name = ''SBC'', mode = AbsoluteX, fn = sbc readAbsoluteX\<rparr>),
     (0xf9, \<lparr>name = ''SBC'', mode = AbsoluteY, fn = sbc readAbsoluteY\<rparr>),
     (0xe1, \<lparr>name = ''SBC'', mode = ZeroPageXIndirect, fn = sbc readZeroPageXIndirect\<rparr>),
     (0xf1, \<lparr>name = ''SBC'', mode = ZeroPageIndirectY, fn = sbc readZeroPageIndirectY\<rparr>),
     (0xe6, \<lparr>name = ''INC'', mode = ZeroPage, fn = inc readAddrZeroPage\<rparr>),
     (0xf6, \<lparr>name = ''INC'', mode = ZeroPageX, fn = inc readAddrZeroPageX\<rparr>),
     (0xee, \<lparr>name = ''INC'', mode = Absolute, fn = inc readAddrAbsolute\<rparr>),
     (0xfe, \<lparr>name = ''INC'', mode = AbsoluteX, fn = inc readAddrAbsoluteX\<rparr>),
     (0xe8, \<lparr>name = ''INX'', mode = Implied, fn = inx\<rparr>),
     (0xc8, \<lparr>name = ''INY'', mode = Implied, fn = iny\<rparr>),
     (0xc6, \<lparr>name = ''DEC'', mode = ZeroPage, fn = dec readAddrZeroPage\<rparr>),
     (0xd6, \<lparr>name = ''DEC'', mode = ZeroPageX, fn = dec readAddrZeroPageX\<rparr>),
     (0xce, \<lparr>name = ''DEC'', mode = Absolute, fn = dec readAddrAbsolute\<rparr>),
     (0xde, \<lparr>name = ''DEC'', mode = AbsoluteX, fn = dec readAddrAbsoluteX\<rparr>),
     (0xca, \<lparr>name = ''DEX'', mode = Implied, fn = dex\<rparr>),
     (0x88, \<lparr>name = ''DEY'', mode = Implied, fn = dey\<rparr>),
     (0x0a, \<lparr>name = ''ASL'', mode = Accumulator, fn = aslA\<rparr>),
     (0x06, \<lparr>name = ''ASL'', mode = ZeroPage, fn = asl readAddrZeroPage\<rparr>),
     (0x16, \<lparr>name = ''ASL'', mode = ZeroPageX, fn = asl readAddrZeroPageX\<rparr>),
     (0x0e, \<lparr>name = ''ASL'', mode = Absolute, fn = asl readAddrAbsolute\<rparr>),
     (0x1e, \<lparr>name = ''ASL'', mode = AbsoluteX, fn = asl readAddrAbsoluteX\<rparr>),
     (0x4a, \<lparr>name = ''LSR'', mode = Accumulator, fn = lsrA\<rparr>),
     (0x46, \<lparr>name = ''LSR'', mode = ZeroPage, fn = lsr readAddrZeroPage\<rparr>),
     (0x56, \<lparr>name = ''LSR'', mode = ZeroPageX, fn = lsr readAddrZeroPageX\<rparr>),
     (0x4e, \<lparr>name = ''LSR'', mode = Absolute, fn = lsr readAddrAbsolute\<rparr>),
     (0x5e, \<lparr>name = ''LSR'', mode = AbsoluteX, fn = lsr readAddrAbsoluteX\<rparr>),
     (0x2a, \<lparr>name = ''ROL'', mode = Accumulator, fn = rolA\<rparr>),
     (0x26, \<lparr>name = ''ROL'', mode = ZeroPage, fn = rol readAddrZeroPage\<rparr>),
     (0x36, \<lparr>name = ''ROL'', mode = ZeroPageX, fn = rol readAddrZeroPageX\<rparr>),
     (0x2e, \<lparr>name = ''ROL'', mode = Absolute, fn = rol readAddrAbsolute\<rparr>),
     (0x3e, \<lparr>name = ''ROL'', mode = AbsoluteX, fn = rol readAddrAbsoluteX\<rparr>),
     (0x6a, \<lparr>name = ''ROR'', mode = Accumulator, fn = rorA\<rparr>),
     (0x66, \<lparr>name = ''ROR'', mode = ZeroPage, fn = ror readAddrZeroPage\<rparr>),
     (0x76, \<lparr>name = ''ROR'', mode = ZeroPageX, fn = ror readAddrZeroPageX\<rparr>),
     (0x6e, \<lparr>name = ''ROR'', mode = Absolute, fn = ror readAddrAbsolute\<rparr>),
     (0x7e, \<lparr>name = ''ROR'', mode = AbsoluteX, fn = ror readAddrAbsoluteX\<rparr>),
     (0x29, \<lparr>name = ''AND'', mode = Immediate, fn = and_op readImmediate\<rparr>),
     (0x25, \<lparr>name = ''AND'', mode = ZeroPage, fn = and_op readZeroPage\<rparr>),
     (0x35, \<lparr>name = ''AND'', mode = ZeroPageX, fn = and_op readZeroPageX\<rparr>),
     (0x2d, \<lparr>name = ''AND'', mode = Absolute, fn = and_op readAbsolute\<rparr>),
     (0x3d, \<lparr>name = ''AND'', mode = AbsoluteX, fn = and_op readAbsoluteX\<rparr>),
     (0x39, \<lparr>name = ''AND'', mode = AbsoluteY, fn = and_op readAbsoluteY\<rparr>),
     (0x21, \<lparr>name = ''AND'', mode = ZeroPageXIndirect, fn = and_op readZeroPageXIndirect\<rparr>),
     (0x31, \<lparr>name = ''AND'', mode = ZeroPageIndirectY, fn = and_op readZeroPageIndirectY\<rparr>),
     (0x09, \<lparr>name = ''ORA'', mode = Immediate, fn = ora readImmediate\<rparr>),
     (0x05, \<lparr>name = ''ORA'', mode = ZeroPage, fn = ora readZeroPage\<rparr>),
     (0x15, \<lparr>name = ''ORA'', mode = ZeroPageX, fn = ora readZeroPageX\<rparr>),
     (0x0d, \<lparr>name = ''ORA'', mode = Absolute, fn = ora readAbsolute\<rparr>),
     (0x1d, \<lparr>name = ''ORA'', mode = AbsoluteX, fn = ora readAbsoluteX\<rparr>),
     (0x19, \<lparr>name = ''ORA'', mode = AbsoluteY, fn = ora readAbsoluteY\<rparr>),
     (0x01, \<lparr>name = ''ORA'', mode = ZeroPageXIndirect, fn = ora readZeroPageXIndirect\<rparr>),
     (0x11, \<lparr>name = ''ORA'', mode = ZeroPageIndirectY, fn = ora readZeroPageIndirectY\<rparr>),
     (0x49, \<lparr>name = ''EOR'', mode = Immediate, fn = eor readImmediate\<rparr>),
     (0x45, \<lparr>name = ''EOR'', mode = ZeroPage, fn = eor readZeroPage\<rparr>),
     (0x55, \<lparr>name = ''EOR'', mode = ZeroPageX, fn = eor readZeroPageX\<rparr>),
     (0x4d, \<lparr>name = ''EOR'', mode = Absolute, fn = eor readAbsolute\<rparr>),
     (0x5d, \<lparr>name = ''EOR'', mode = AbsoluteX, fn = eor readAbsoluteX\<rparr>),
     (0x59, \<lparr>name = ''EOR'', mode = AbsoluteY, fn = eor readAbsoluteY\<rparr>),
     (0x41, \<lparr>name = ''EOR'', mode = ZeroPageXIndirect, fn = eor readZeroPageXIndirect\<rparr>),
     (0x51, \<lparr>name = ''EOR'', mode = ZeroPageIndirectY, fn = eor readZeroPageIndirectY\<rparr>),
     (0xc9, \<lparr>name = ''CMP'', mode = Immediate, fn = cmp readImmediate\<rparr>),
     (0xc5, \<lparr>name = ''CMP'', mode = ZeroPage, fn = cmp readZeroPage\<rparr>),
     (0xd5, \<lparr>name = ''CMP'', mode = ZeroPageX, fn = cmp readZeroPageX\<rparr>),
     (0xcd, \<lparr>name = ''CMP'', mode = Absolute, fn = cmp readAbsolute\<rparr>),
     (0xdd, \<lparr>name = ''CMP'', mode = AbsoluteX, fn = cmp readAbsoluteX\<rparr>),
     (0xd9, \<lparr>name = ''CMP'', mode = AbsoluteY, fn = cmp readAbsoluteY\<rparr>),
     (0xc1, \<lparr>name = ''CMP'', mode = ZeroPageXIndirect, fn = cmp readZeroPageXIndirect\<rparr>),
     (0xd1, \<lparr>name = ''CMP'', mode = ZeroPageIndirectY, fn = cmp readZeroPageIndirectY\<rparr>),
     (0xe0, \<lparr>name = ''CPX'', mode = Immediate, fn = cpx readImmediate\<rparr>),
     (0xe4, \<lparr>name = ''CPX'', mode = ZeroPage, fn = cpx readZeroPage\<rparr>),
     (0xec, \<lparr>name = ''CPX'', mode = Absolute, fn = cpx readAbsolute\<rparr>),
     (0xc0, \<lparr>name = ''CPY'', mode = Immediate, fn = cpy readImmediate\<rparr>),
     (0xc4, \<lparr>name = ''CPY'', mode = ZeroPage, fn = cpy readZeroPage\<rparr>),
     (0xcc, \<lparr>name = ''CPY'', mode = Absolute, fn = cpy readAbsolute\<rparr>),
     (0x24, \<lparr>name = ''BIT'', mode = ZeroPage, fn = bit_op readZeroPage\<rparr>),
     (0x2c, \<lparr>name = ''BIT'', mode = Absolute, fn = bit_op readAbsolute\<rparr>),
     (0x90, \<lparr>name = ''BCC'', mode = Relative, fn = brc flags_C\<rparr>),
     (0xb0, \<lparr>name = ''BCS'', mode = Relative, fn = brs flags_C\<rparr>),
     (0xf0, \<lparr>name = ''BEQ'', mode = Relative, fn = brs flags_Z\<rparr>),
     (0x30, \<lparr>name = ''BMI'', mode = Relative, fn = brs flags_N\<rparr>),
     (0xd0, \<lparr>name = ''BNE'', mode = Relative, fn = brc flags_Z\<rparr>),
     (0x10, \<lparr>name = ''BPL'', mode = Relative, fn = brc flags_N\<rparr>),
     (0x50, \<lparr>name = ''BVC'', mode = Relative, fn = brc flags_V\<rparr>),
     (0x70, \<lparr>name = ''BVS'', mode = Relative, fn = brs flags_V\<rparr>),
     (0xaa, \<lparr>name = ''TAX'', mode = Implied, fn = tax\<rparr>),
     (0x8a, \<lparr>name = ''TXA'', mode = Implied, fn = txa\<rparr>),
     (0xa8, \<lparr>name = ''TAY'', mode = Implied, fn = tay\<rparr>),
     (0x98, \<lparr>name = ''TYA'', mode = Implied, fn = tya\<rparr>),
     (0xba, \<lparr>name = ''TSX'', mode = Implied, fn = tsx\<rparr>),
     (0x9a, \<lparr>name = ''TXS'', mode = Implied, fn = txs\<rparr>),
     (0x48, \<lparr>name = ''PHA'', mode = Implied, fn = pha\<rparr>),
     (0x68, \<lparr>name = ''PLA'', mode = Implied, fn = pla\<rparr>),
     (0x08, \<lparr>name = ''PHP'', mode = Implied, fn = php\<rparr>),
     (0x28, \<lparr>name = ''PLP'', mode = Implied, fn = plp\<rparr>),
     (0x4c, \<lparr>name = ''JMP'', mode = Absolute, fn = jmp readAddrAbsolute\<rparr>),
     (0x6c, \<lparr>name = ''JMP'', mode = AbsoluteIndirect, fn = jmp readAddrAbsoluteIndirectBug\<rparr>),
     (0x20, \<lparr>name = ''JSR'', mode = Absolute, fn = jsr\<rparr>),
     (0x60, \<lparr>name = ''RTS'', mode = Implied, fn = rts\<rparr>),
     (0x40, \<lparr>name = ''RTI'', mode = Implied, fn = rti\<rparr>),
     (0x38, \<lparr>name = ''SEC'', mode = Implied, fn = set_op flags_C\<rparr>),
     (0xf8, \<lparr>name = ''SED'', mode = Implied, fn = set_op flags_D\<rparr>),
     (0x78, \<lparr>name = ''SEI'', mode = Implied, fn = set_op flags_I\<rparr>),
     (0x18, \<lparr>name = ''CLC'', mode = Implied, fn = clr flags_C\<rparr>),
     (0xd8, \<lparr>name = ''CLD'', mode = Implied, fn = clr flags_D\<rparr>),
     (0x58, \<lparr>name = ''CLI'', mode = Implied, fn = clr flags_I\<rparr>),
     (0xb8, \<lparr>name = ''CLV'', mode = Implied, fn = clr flags_V\<rparr>),
     (0xea, \<lparr>name = ''NOP'', mode = Implied, fn = nop implied\<rparr>),
     (0x00, \<lparr>name = ''BRK'', mode = Immediate, fn = brk readImmediate\<rparr>)]"

definition OPS_65C02 :: "(int \<times> 'm Instruction) list" where
  "OPS_65C02 = [
     (0x1a, \<lparr>name = ''INC'', mode = Accumulator, fn = incA\<rparr>),
     (0x3a, \<lparr>name = ''DEC'', mode = Accumulator, fn = decA\<rparr>),
     (0x12, \<lparr>name = ''ORA'', mode = ZeroPageIndirect, fn = ora readZeroPageIndirect\<rparr>),
     (0x32, \<lparr>name = ''AND'', mode = ZeroPageIndirect, fn = and_op readZeroPageIndirect\<rparr>),
     (0x52, \<lparr>name = ''EOR'', mode = ZeroPageIndirect, fn = eor readZeroPageIndirect\<rparr>),
     (0x72, \<lparr>name = ''ADC'', mode = ZeroPageIndirect, fn = adc readZeroPageIndirect\<rparr>),
     (0x92, \<lparr>name = ''STA'', mode = ZeroPageIndirect, fn = sta writeZeroPageIndirect\<rparr>),
     (0xb2, \<lparr>name = ''LDA'', mode = ZeroPageIndirect, fn = lda readZeroPageIndirect\<rparr>),
     (0xd2, \<lparr>name = ''CMP'', mode = ZeroPageIndirect, fn = cmp readZeroPageIndirect\<rparr>),
     (0xf2, \<lparr>name = ''SBC'', mode = ZeroPageIndirect, fn = sbc readZeroPageIndirect\<rparr>),
     (0x34, \<lparr>name = ''BIT'', mode = ZeroPageX, fn = bit_op readZeroPageX\<rparr>),
     (0x3c, \<lparr>name = ''BIT'', mode = AbsoluteX, fn = bit_op readAbsoluteX\<rparr>),
     (0x89, \<lparr>name = ''BIT'', mode = Immediate, fn = bitI readImmediate\<rparr>),
     (0x6c, \<lparr>name = ''JMP'', mode = AbsoluteIndirect, fn = jmp readAddrAbsoluteIndirect\<rparr>),
     (0x7c, \<lparr>name = ''JMP'', mode = AbsoluteXIndirect, fn = jmp readAddrAbsoluteXIndirect\<rparr>),
     (0x0f, \<lparr>name = ''BBR0'', mode = ZeroPage_relative, fn = bbr 0\<rparr>),
     (0x1f, \<lparr>name = ''BBR1'', mode = ZeroPage_relative, fn = bbr 1\<rparr>),
     (0x2f, \<lparr>name = ''BBR2'', mode = ZeroPage_relative, fn = bbr 2\<rparr>),
     (0x3f, \<lparr>name = ''BBR3'', mode = ZeroPage_relative, fn = bbr 3\<rparr>),
     (0x4f, \<lparr>name = ''BBR4'', mode = ZeroPage_relative, fn = bbr 4\<rparr>),
     (0x5f, \<lparr>name = ''BBR5'', mode = ZeroPage_relative, fn = bbr 5\<rparr>),
     (0x6f, \<lparr>name = ''BBR6'', mode = ZeroPage_relative, fn = bbr 6\<rparr>),
     (0x7f, \<lparr>name = ''BBR7'', mode = ZeroPage_relative, fn = bbr 7\<rparr>),
     (0x8f, \<lparr>name = ''BBS0'', mode = ZeroPage_relative, fn = bbs 0\<rparr>),
     (0x9f, \<lparr>name = ''BBS1'', mode = ZeroPage_relative, fn = bbs 1\<rparr>),
     (0xaf, \<lparr>name = ''BBS2'', mode = ZeroPage_relative, fn = bbs 2\<rparr>),
     (0xbf, \<lparr>name = ''BBS3'', mode = ZeroPage_relative, fn = bbs 3\<rparr>),
     (0xcf, \<lparr>name = ''BBS4'', mode = ZeroPage_relative, fn = bbs 4\<rparr>),
     (0xdf, \<lparr>name = ''BBS5'', mode = ZeroPage_relative, fn = bbs 5\<rparr>),
     (0xef, \<lparr>name = ''BBS6'', mode = ZeroPage_relative, fn = bbs 6\<rparr>),
     (0xff, \<lparr>name = ''BBS7'', mode = ZeroPage_relative, fn = bbs 7\<rparr>),
     (0x80, \<lparr>name = ''BRA'', mode = Relative, fn = brc 0\<rparr>),
     (0x02, \<lparr>name = ''NOP'', mode = Immediate, fn = nop readImmediate\<rparr>),
     (0x22, \<lparr>name = ''NOP'', mode = Immediate, fn = nop readImmediate\<rparr>),
     (0x42, \<lparr>name = ''NOP'', mode = Immediate, fn = nop readImmediate\<rparr>),
     (0x44, \<lparr>name = ''NOP'', mode = Immediate, fn = nop readZeroPage\<rparr>),
     (0x54, \<lparr>name = ''NOP'', mode = Immediate, fn = nop readZeroPageX\<rparr>),
     (0x62, \<lparr>name = ''NOP'', mode = Immediate, fn = nop readImmediate\<rparr>),
     (0x82, \<lparr>name = ''NOP'', mode = Immediate, fn = nop readImmediate\<rparr>),
     (0xc2, \<lparr>name = ''NOP'', mode = Immediate, fn = nop readImmediate\<rparr>),
     (0xd4, \<lparr>name = ''NOP'', mode = Immediate, fn = nop readZeroPageX\<rparr>),
     (0xe2, \<lparr>name = ''NOP'', mode = Immediate, fn = nop readImmediate\<rparr>),
     (0xf4, \<lparr>name = ''NOP'', mode = Immediate, fn = nop readZeroPageX\<rparr>),
     (0x5c, \<lparr>name = ''NOP'', mode = Absolute, fn = nop readNop\<rparr>),
     (0xdc, \<lparr>name = ''NOP'', mode = Absolute, fn = nop readNop\<rparr>),
     (0xfc, \<lparr>name = ''NOP'', mode = Absolute, fn = nop readNop\<rparr>),
     (0xda, \<lparr>name = ''PHX'', mode = Implied, fn = phx\<rparr>),
     (0x5a, \<lparr>name = ''PHY'', mode = Implied, fn = phy\<rparr>),
     (0xfa, \<lparr>name = ''PLX'', mode = Implied, fn = plx\<rparr>),
     (0x7a, \<lparr>name = ''PLY'', mode = Implied, fn = ply\<rparr>),
     (0x07, \<lparr>name = ''RMB0'', mode = ZeroPage, fn = rmb 0\<rparr>),
     (0x17, \<lparr>name = ''RMB1'', mode = ZeroPage, fn = rmb 1\<rparr>),
     (0x27, \<lparr>name = ''RMB2'', mode = ZeroPage, fn = rmb 2\<rparr>),
     (0x37, \<lparr>name = ''RMB3'', mode = ZeroPage, fn = rmb 3\<rparr>),
     (0x47, \<lparr>name = ''RMB4'', mode = ZeroPage, fn = rmb 4\<rparr>),
     (0x57, \<lparr>name = ''RMB5'', mode = ZeroPage, fn = rmb 5\<rparr>),
     (0x67, \<lparr>name = ''RMB6'', mode = ZeroPage, fn = rmb 6\<rparr>),
     (0x77, \<lparr>name = ''RMB7'', mode = ZeroPage, fn = rmb 7\<rparr>),
     (0x87, \<lparr>name = ''SMB0'', mode = ZeroPage, fn = smb 0\<rparr>),
     (0x97, \<lparr>name = ''SMB1'', mode = ZeroPage, fn = smb 1\<rparr>),
     (0xa7, \<lparr>name = ''SMB2'', mode = ZeroPage, fn = smb 2\<rparr>),
     (0xb7, \<lparr>name = ''SMB3'', mode = ZeroPage, fn = smb 3\<rparr>),
     (0xc7, \<lparr>name = ''SMB4'', mode = ZeroPage, fn = smb 4\<rparr>),
     (0xd7, \<lparr>name = ''SMB5'', mode = ZeroPage, fn = smb 5\<rparr>),
     (0xe7, \<lparr>name = ''SMB6'', mode = ZeroPage, fn = smb 6\<rparr>),
     (0xf7, \<lparr>name = ''SMB7'', mode = ZeroPage, fn = smb 7\<rparr>),
     (0x64, \<lparr>name = ''STZ'', mode = ZeroPage, fn = stz writeZeroPage\<rparr>),
     (0x74, \<lparr>name = ''STZ'', mode = ZeroPageX, fn = stz writeZeroPageX\<rparr>),
     (0x9c, \<lparr>name = ''STZ'', mode = Absolute, fn = stz writeAbsolute\<rparr>),
     (0x9e, \<lparr>name = ''STZ'', mode = AbsoluteX, fn = stz writeAbsoluteX\<rparr>),
     (0x14, \<lparr>name = ''TRB'', mode = ZeroPage, fn = trb readAddrZeroPage\<rparr>),
     (0x1c, \<lparr>name = ''TRB'', mode = Absolute, fn = trb readAddrAbsolute\<rparr>),
     (0x04, \<lparr>name = ''TSB'', mode = ZeroPage, fn = tsb readAddrZeroPage\<rparr>),
     (0x0c, \<lparr>name = ''TSB'', mode = Absolute, fn = tsb readAddrAbsolute\<rparr>)]"

definition OPS_NMOS_6502 :: "(int \<times> 'm Instruction) list" where
  "OPS_NMOS_6502 = [
     (0x0f, \<lparr>name = ''ASO'', mode = Absolute, fn = aso readAddrAbsolute\<rparr>),
     (0x1f, \<lparr>name = ''ASO'', mode = AbsoluteX, fn = aso readAddrAbsoluteX\<rparr>),
     (0x1b, \<lparr>name = ''ASO'', mode = AbsoluteY, fn = aso readAddrAbsoluteY\<rparr>),
     (0x07, \<lparr>name = ''ASO'', mode = ZeroPage, fn = aso readAddrZeroPage\<rparr>),
     (0x17, \<lparr>name = ''ASO'', mode = ZeroPageX, fn = aso readAddrZeroPageX\<rparr>),
     (0x03, \<lparr>name = ''ASO'', mode = ZeroPageXIndirect, fn = aso readAddrZeroPageXIndirect\<rparr>),
     (0x13, \<lparr>name = ''ASO'', mode = ZeroPageIndirectY, fn = aso readAddrZeroPageIndirectY\<rparr>),
     (0x2f, \<lparr>name = ''RLA'', mode = Absolute, fn = rla readAddrAbsolute\<rparr>),
     (0x3f, \<lparr>name = ''RLA'', mode = AbsoluteX, fn = rla readAddrAbsoluteX\<rparr>),
     (0x3b, \<lparr>name = ''RLA'', mode = AbsoluteY, fn = rla readAddrAbsoluteY\<rparr>),
     (0x27, \<lparr>name = ''RLA'', mode = ZeroPage, fn = rla readAddrZeroPage\<rparr>),
     (0x37, \<lparr>name = ''RLA'', mode = ZeroPageX, fn = rla readAddrZeroPageX\<rparr>),
     (0x23, \<lparr>name = ''RLA'', mode = ZeroPageXIndirect, fn = rla readAddrZeroPageXIndirect\<rparr>),
     (0x33, \<lparr>name = ''RLA'', mode = ZeroPageIndirectY, fn = rla readAddrZeroPageIndirectY\<rparr>),
     (0x4f, \<lparr>name = ''LSE'', mode = Absolute, fn = lse readAddrAbsolute\<rparr>),
     (0x5f, \<lparr>name = ''LSE'', mode = AbsoluteX, fn = lse readAddrAbsoluteX\<rparr>),
     (0x5b, \<lparr>name = ''LSE'', mode = AbsoluteY, fn = lse readAddrAbsoluteY\<rparr>),
     (0x47, \<lparr>name = ''LSE'', mode = ZeroPage, fn = lse readAddrZeroPage\<rparr>),
     (0x57, \<lparr>name = ''LSE'', mode = ZeroPageX, fn = lse readAddrZeroPageX\<rparr>),
     (0x43, \<lparr>name = ''LSE'', mode = ZeroPageXIndirect, fn = lse readAddrZeroPageXIndirect\<rparr>),
     (0x53, \<lparr>name = ''LSE'', mode = ZeroPageIndirectY, fn = lse readAddrZeroPageIndirectY\<rparr>),
     (0x6f, \<lparr>name = ''RRA'', mode = Absolute, fn = rra readAddrAbsolute\<rparr>),
     (0x7f, \<lparr>name = ''RRA'', mode = AbsoluteX, fn = rra readAddrAbsoluteX\<rparr>),
     (0x7b, \<lparr>name = ''RRA'', mode = AbsoluteY, fn = rra readAddrAbsoluteY\<rparr>),
     (0x67, \<lparr>name = ''RRA'', mode = ZeroPage, fn = rra readAddrZeroPage\<rparr>),
     (0x77, \<lparr>name = ''RRA'', mode = ZeroPageX, fn = rra readAddrZeroPageX\<rparr>),
     (0x63, \<lparr>name = ''RRA'', mode = ZeroPageXIndirect, fn = rra readAddrZeroPageXIndirect\<rparr>),
     (0x73, \<lparr>name = ''RRA'', mode = ZeroPageIndirectY, fn = rra readAddrZeroPageIndirectY\<rparr>),
     (0x8f, \<lparr>name = ''AXS'', mode = Absolute, fn = axs writeAbsolute\<rparr>),
     (0x87, \<lparr>name = ''AXS'', mode = ZeroPage, fn = axs writeZeroPage\<rparr>),
     (0x97, \<lparr>name = ''AXS'', mode = ZeroPageY, fn = axs writeZeroPageY\<rparr>),
     (0x83, \<lparr>name = ''AXS'', mode = ZeroPageXIndirect, fn = axs writeZeroPageXIndirect\<rparr>),
     (0xaf, \<lparr>name = ''LAX'', mode = Absolute, fn = lax readAbsolute\<rparr>),
     (0xbf, \<lparr>name = ''LAX'', mode = AbsoluteY, fn = lax readAbsoluteY\<rparr>),
     (0xa7, \<lparr>name = ''LAX'', mode = ZeroPage, fn = lax readZeroPage\<rparr>),
     (0xb7, \<lparr>name = ''LAX'', mode = ZeroPageY, fn = lax readZeroPageY\<rparr>),
     (0xa3, \<lparr>name = ''LAX'', mode = ZeroPageXIndirect, fn = lax readZeroPageXIndirect\<rparr>),
     (0xb3, \<lparr>name = ''LAX'', mode = ZeroPageIndirectY, fn = lax readZeroPageIndirectY\<rparr>),
     (0xcf, \<lparr>name = ''DCM'', mode = Absolute, fn = dcm readAddrAbsolute\<rparr>),
     (0xdf, \<lparr>name = ''DCM'', mode = AbsoluteX, fn = dcm readAddrAbsoluteX\<rparr>),
     (0xdb, \<lparr>name = ''DCM'', mode = AbsoluteY, fn = dcm readAddrAbsoluteY\<rparr>),
     (0xc7, \<lparr>name = ''DCM'', mode = ZeroPage, fn = dcm readAddrZeroPage\<rparr>),
     (0xd7, \<lparr>name = ''DCM'', mode = ZeroPageX, fn = dcm readAddrZeroPageX\<rparr>),
     (0xc3, \<lparr>name = ''DCM'', mode = ZeroPageXIndirect, fn = dcm readAddrZeroPageXIndirect\<rparr>),
     (0xd3, \<lparr>name = ''DCM'', mode = ZeroPageIndirectY, fn = dcm readAddrZeroPageIndirectY\<rparr>),
     (0xef, \<lparr>name = ''INS'', mode = Absolute, fn = ins readAddrAbsolute\<rparr>),
     (0xff, \<lparr>name = ''INS'', mode = AbsoluteX, fn = ins readAddrAbsoluteX\<rparr>),
     (0xfb, \<lparr>name = ''INS'', mode = AbsoluteY, fn = ins readAddrAbsoluteY\<rparr>),
     (0xe7, \<lparr>name = ''INS'', mode = ZeroPage, fn = ins readAddrZeroPage\<rparr>),
     (0xf7, \<lparr>name = ''INS'', mode = ZeroPageX, fn = ins readAddrZeroPageX\<rparr>),
     (0xe3, \<lparr>name = ''INS'', mode = ZeroPageXIndirect, fn = ins readAddrZeroPageXIndirect\<rparr>),
     (0xf3, \<lparr>name = ''INS'', mode = ZeroPageIndirectY, fn = ins readAddrZeroPageIndirectY\<rparr>),
     (0x4b, \<lparr>name = ''ALR'', mode = Immediate, fn = alr readImmediate\<rparr>),
     (0x6b, \<lparr>name = ''ARR'', mode = Immediate, fn = arr readImmediate\<rparr>),
     (0x8b, \<lparr>name = ''XAA'', mode = Immediate, fn = xaa readImmediate\<rparr>),
     (0xab, \<lparr>name = ''OAL'', mode = Immediate, fn = oal readImmediate\<rparr>),
     (0xcb, \<lparr>name = ''SAX'', mode = Immediate, fn = sax readImmediate\<rparr>),
     (0x1a, \<lparr>name = ''NOP'', mode = Implied, fn = nop implied\<rparr>),
     (0x3a, \<lparr>name = ''NOP'', mode = Implied, fn = nop implied\<rparr>),
     (0x5a, \<lparr>name = ''NOP'', mode = Implied, fn = nop implied\<rparr>),
     (0x7a, \<lparr>name = ''NOP'', mode = Implied, fn = nop implied\<rparr>),
     (0xda, \<lparr>name = ''NOP'', mode = Implied, fn = nop implied\<rparr>),
     (0xfa, \<lparr>name = ''NOP'', mode = Implied, fn = nop implied\<rparr>),
     (0x80, \<lparr>name = ''SKB'', mode = Immediate, fn = skp readImmediate\<rparr>),
     (0x82, \<lparr>name = ''SKB'', mode = Immediate, fn = skp readImmediate\<rparr>),
     (0x89, \<lparr>name = ''SKB'', mode = Immediate, fn = skp readImmediate\<rparr>),
     (0xc2, \<lparr>name = ''SKB'', mode = Immediate, fn = skp readImmediate\<rparr>),
     (0xe2, \<lparr>name = ''SKB'', mode = Immediate, fn = skp readImmediate\<rparr>),
     (0x04, \<lparr>name = ''SKB'', mode = ZeroPage, fn = skp readZeroPage\<rparr>),
     (0x14, \<lparr>name = ''SKB'', mode = ZeroPageX, fn = skp readZeroPageX\<rparr>),
     (0x34, \<lparr>name = ''SKB'', mode = ZeroPageX, fn = skp readZeroPageX\<rparr>),
     (0x44, \<lparr>name = ''SKB'', mode = ZeroPage, fn = skp readZeroPage\<rparr>),
     (0x54, \<lparr>name = ''SKB'', mode = ZeroPageX, fn = skp readZeroPageX\<rparr>),
     (0x64, \<lparr>name = ''SKB'', mode = ZeroPage, fn = skp readZeroPage\<rparr>),
     (0x74, \<lparr>name = ''SKB'', mode = ZeroPageX, fn = skp readZeroPageX\<rparr>),
     (0xd4, \<lparr>name = ''SKB'', mode = ZeroPageX, fn = skp readZeroPageX\<rparr>),
     (0xf4, \<lparr>name = ''SKB'', mode = ZeroPageX, fn = skp readZeroPageX\<rparr>),
     (0x0c, \<lparr>name = ''SKW'', mode = Absolute, fn = skp (readAddrAbsolute None)\<rparr>),
     (0x1c, \<lparr>name = ''SKW'', mode = AbsoluteX, fn = skp (readAddrAbsoluteX None)\<rparr>),
     (0x3c, \<lparr>name = ''SKW'', mode = AbsoluteX, fn = skp (readAddrAbsoluteX None)\<rparr>),
     (0x5c, \<lparr>name = ''SKW'', mode = AbsoluteX, fn = skp (readAddrAbsoluteX None)\<rparr>),
     (0x7c, \<lparr>name = ''SKW'', mode = AbsoluteX, fn = skp (readAddrAbsoluteX None)\<rparr>),
     (0xdc, \<lparr>name = ''SKW'', mode = AbsoluteX, fn = skp (readAddrAbsoluteX None)\<rparr>),
     (0xfc, \<lparr>name = ''SKW'', mode = AbsoluteX, fn = skp (readAddrAbsoluteX None)\<rparr>),
     (0x02, \<lparr>name = ''HLT'', mode = Implied, fn = hlt readNopImplied\<rparr>),
     (0x12, \<lparr>name = ''HLT'', mode = Implied, fn = hlt readNopImplied\<rparr>),
     (0x22, \<lparr>name = ''HLT'', mode = Implied, fn = hlt readNopImplied\<rparr>),
     (0x32, \<lparr>name = ''HLT'', mode = Implied, fn = hlt readNopImplied\<rparr>),
     (0x42, \<lparr>name = ''HLT'', mode = Implied, fn = hlt readNopImplied\<rparr>),
     (0x52, \<lparr>name = ''HLT'', mode = Implied, fn = hlt readNopImplied\<rparr>),
     (0x62, \<lparr>name = ''HLT'', mode = Implied, fn = hlt readNopImplied\<rparr>),
     (0x72, \<lparr>name = ''HLT'', mode = Implied, fn = hlt readNopImplied\<rparr>),
     (0x92, \<lparr>name = ''HLT'', mode = Implied, fn = hlt readNopImplied\<rparr>),
     (0xb2, \<lparr>name = ''HLT'', mode = Implied, fn = hlt readNopImplied\<rparr>),
     (0xd2, \<lparr>name = ''HLT'', mode = Implied, fn = hlt readNopImplied\<rparr>),
     (0xf2, \<lparr>name = ''HLT'', mode = Implied, fn = hlt readNopImplied\<rparr>),
     (0x9b, \<lparr>name = ''TAS'', mode = AbsoluteY, fn = tas readAddrAbsoluteY\<rparr>),
     (0x9c, \<lparr>name = ''SAY'', mode = AbsoluteX, fn = say readAddrAbsoluteX\<rparr>),
     (0x9e, \<lparr>name = ''XAS'', mode = AbsoluteY, fn = xas readAddrAbsoluteY\<rparr>),
     (0x9f, \<lparr>name = ''AXA'', mode = AbsoluteY, fn = axa readAddrAbsoluteY\<rparr>),
     (0x93, \<lparr>name = ''AXA'', mode = ZeroPageIndirectY, fn = axa readAddrZeroPageIndirectY\<rparr>),
     (0x2b, \<lparr>name = ''ANC'', mode = Immediate, fn = anc readImmediate\<rparr>),
     (0x0b, \<lparr>name = ''ANC'', mode = Immediate, fn = anc readImmediate\<rparr>),
     (0xbb, \<lparr>name = ''LAS'', mode = AbsoluteY, fn = las readAbsoluteY\<rparr>),
     (0xeb, \<lparr>name = ''SBC'', mode = Immediate, fn = sbc readImmediate\<rparr>)]"

definition OPS_ROCKWELL_65C02 :: "(int \<times> 'm Instruction) list" where
  "OPS_ROCKWELL_65C02 = [
     (0xcb, \<lparr>name = ''NOP'', mode = Implied, fn = nop implied\<rparr>),
     (0xdb, \<lparr>name = ''NOP'', mode = Immediate, fn = nop readZeroPageX\<rparr>)]"

definition OPS_WDC_65C02 :: "(int \<times> 'm Instruction) list" where
  "OPS_WDC_65C02 = [
     (0xcb, \<lparr>name = ''WAI'', mode = Implied, fn = wai\<rparr>),
     (0xdb, \<lparr>name = ''STP'', mode = Implied, fn = stp\<rparr>)]"

type_synonym 'm Instructions = "int \<rightharpoonup> 'm Instruction"

section \<open>Construction\<close>

text \<open>
  \<open>toHex\<close> belongs to the module \<open>./util\<close>, which is not among the sources; it is a
  parameter of \<open>unknown\<close> and of the constructor.
\<close>

definition unknown :: "(int \<Rightarrow> string) \<Rightarrow> bool \<Rightarrow> int \<Rightarrow> error + 'm Instruction" where
  "unknown toHex c02 b =
     (if c02 then Inr \<lparr>name = ''NOP'', mode = Implied, fn = nop readNopImplied\<rparr>
      else Inl (Error (''Missing '' @ toHex b)))"

text \<open>The loop \<open>for (idx = 0; idx < 0x100; idx++) opary[idx] = ops[idx] || unknown(idx)\<close>.\<close>

primrec fill_opary ::
    "(int \<Rightarrow> string) \<Rightarrow> bool \<Rightarrow> 'm Instructions \<Rightarrow> int list \<Rightarrow> error + 'm Instruction list" where
  "fill_opary toHex c02 ops [] = Inr []"
| "fill_opary toHex c02 ops (idx # rest) =
     (case (case ops idx of Some i \<Rightarrow> Inr i | None \<Rightarrow> unknown toHex c02 idx) of
        Inl e \<Rightarrow> Inl e
      | Inr i \<Rightarrow>
          (case fill_opary toHex c02 ops rest of
             Inl e \<Rightarrow> Inl e
           | Inr is \<Rightarrow> Inr (i # is)))"

text \<open>
  The tables are fields of the object, initialised before the constructor's body runs;
  the body reads them through \<open>this\<close>.  The body is modelled as a function of the five
  fields, and \<open>class_tables\<close> holds the values the class gives them.
\<close>

record 'm OpTables =
  ops_6502 :: "'m Instructions"
  ops_65C02 :: "'m Instructions"
  ops_NMOS_6502 :: "'m Instructions"
  ops_ROCKWELL_65C02 :: "'m Instructions"
  ops_WDC_65C02 :: "'m Instructions"

definition class_tables :: "'m OpTables" where
  "class_tables = \<lparr> ops_6502 = map_of OPS_6502, ops_65C02 = map_of OPS_65C02,
     ops_NMOS_6502 = map_of OPS_NMOS_6502, ops_ROCKWELL_65C02 = map_of OPS_ROCKWELL_65C02,
     ops_WDC_65C02 = map_of OPS_WDC_65C02 \<rparr>"

definition compose_ops :: "'m OpTables \<Rightarrow> Flavor \<Rightarrow> 'm Instructions" where
  "compose_ops T fl =
     (case fl of
        FLAVOR_WDC_65C02 \<Rightarrow> ops_6502 T ++ ops_65C02 T ++ ops_WDC_65C02 T
      | FLAVOR_ROCKWELL_65C02 \<Rightarrow> ops_6502 T ++ ops_65C02 T ++ ops_ROCKWELL_65C02 T
      | FLAVOR_6502 \<Rightarrow> ops_6502 T ++ ops_NMOS_6502 T)"

definition build_opary ::
    "'m OpTables \<Rightarrow> (int \<Rightarrow> string) \<Rightarrow> Flavor option \<Rightarrow> error + 'm Instruction list" where
  "build_opary T toHex flavor_opt =
     (let fl = (case flavor_opt of None \<Rightarrow> FLAVOR_6502 | Some f \<Rightarrow> f);
          c02 = (case flavor_opt of None \<Rightarrow> False | Some f \<Rightarrow> f \<in> set FLAVORS_65C02)
      in fill_opary toHex c02 (compose_ops T fl) [0..255])"

text \<open>
  The constructor's body; \<open>m\<close> is the state of the host's objects at that moment.  It
  throws when \<open>unknown\<close> does.
\<close>

definition construct ::
    "'m OpTables \<Rightarrow> (int \<Rightarrow> string) \<Rightarrow> Flavor option \<Rightarrow> 'm \<Rightarrow> error + 'm CPU6502" where
  "construct T toHex flavor_opt m =
     (case build_opary T toHex flavor_opt of
        Inl e \<Rightarrow> Inl e
      | Inr tab \<Rightarrow>
          Inr \<lparr> flavor = (case flavor_opt of None \<Rightarrow> FLAVOR_6502 | Some f \<Rightarrow> f),
                is65C02 = (case flavor_opt of None \<Rightarrow> False | Some f \<Rightarrow> f \<in> set FLAVORS_65C02),
                pc = 0, sr = flags_X, ar = 0, xr = 0, yr = 0, sp = 0xff,
                op = None, addr = 0,
                memPages = (\<lambda>idx. if 0 \<le> idx \<and> idx < 0x100 then Some BLANK_PAGE else None),
                resetHandlers = [],
                cycles = 0, sync = False, wait = False, stop = False,
                host = m, bus = [] \<rparr>)"

definition new_CPU6502 :: "(int \<Rightarrow> string) \<Rightarrow> Flavor option \<Rightarrow> 'm \<Rightarrow> error + 'm CPU6502" where
  "new_CPU6502 toHex flavor_opt m = construct class_tables toHex flavor_opt m"

text \<open>
  The table of a constructed CPU.  Whether the constructor throws does not depend on
  \<open>toHex\<close>, so the table is recomputed here from the flavor alone.
\<close>

definition opary :: "Flavor \<Rightarrow> 'm Instruction list" where
  "opary fl = (case build_opary class_tables (\<lambda>b. []) (Some fl) of Inl e \<Rightarrow> [] | Inr tab \<Rightarrow> tab)"

definition opary_at :: "Flavor \<Rightarrow> int \<Rightarrow> 'm Instruction option" where
  "opary_at fl b = (if 0 \<le> b \<and> b < int (length (opary fl :: 'm Instruction list))
                    then Some (opary fl ! nat b) else None)"

section \<open>The step loop\<close>

text \<open>
  The four lines that \<open>step\<close>, \<open>stepN\<close>, \<open>stepCycles\<close> and \<open>stepCyclesDebug\<close> all repeat:
  raise \<open>sync\<close>, fetch the opcode, lower \<open>sync\<close>, run the instruction.  An opcode outside
  the table leaves \<open>op\<close> undefined, and calling its \<open>fn\<close> throws.
\<close>

definition fetch_execute :: "('m, unit) M" where
  "fetch_execute =
     thn (upd (\<lambda>s. s\<lparr>sync := True\<rparr>))
    (bnd readBytePC (\<lambda>b.
     bnd (get flavor) (\<lambda>fl.
     let ins = opary_at fl b in
     thn (upd (\<lambda>s. s\<lparr>op := map_option (\<lambda>i. (name i, mode i)) ins\<rparr>))
    (thn (upd (\<lambda>s. s\<lparr>sync := False\<rparr>))
         (case ins of None \<Rightarrow> throw TypeError | Some i \<Rightarrow> fn i)))))"

text \<open>A callback receives the CPU and may do to it whatever the public methods allow.\<close>

type_synonym 'm callback = "('m, bool) M"

definition step :: "'m callback option \<Rightarrow> ('m, unit) M" where
  "step cb =
     thn fetch_execute
         (case cb of None \<Rightarrow> ret () | Some c \<Rightarrow> thn c (ret ()))"

text \<open>
  The three loops need not end: the loop counter of \<open>stepN\<close> is a double, which \<open>idx++\<close> no
  longer changes from \<open>2^53\<close>; a callback may reset the cycle counter; a handler may be odd.
  \<open>None\<close> is a loop that runs forever.
\<close>

partial_function (option) stepN_loop ::
    "int \<Rightarrow> int \<Rightarrow> 'm callback option \<Rightarrow> 'm CPU6502 \<Rightarrow>
     ((error \<times> 'm CPU6502) + (unit \<times> 'm CPU6502)) option" where
  "stepN_loop idx n cb s =
     (if idx < n then
        (case fetch_execute s of
           Inl (e, s') \<Rightarrow> Some (Inl (e, s'))
         | Inr (u, s') \<Rightarrow>
             (case (case cb of None \<Rightarrow> ret False | Some c \<Rightarrow> c) s' of
                Inl (e, s'') \<Rightarrow> Some (Inl (e, s''))
              | Inr (halt, s'') \<Rightarrow>
                  if halt then Some (Inr ((), s'')) else stepN_loop (jadd idx 1) n cb s''))
      else Some (Inr ((), s)))"

definition stepN ::
    "int \<Rightarrow> 'm callback option \<Rightarrow> 'm CPU6502 \<Rightarrow> ((error \<times> 'm CPU6502) + (unit \<times> 'm CPU6502)) option" where
  "stepN n cb s = stepN_loop 0 n cb s"

partial_function (option) stepCycles_loop ::
    "int \<Rightarrow> 'm CPU6502 \<Rightarrow> ((error \<times> 'm CPU6502) + (unit \<times> 'm CPU6502)) option" where
  "stepCycles_loop end_cycles s =
     (if cycles s < end_cycles then
        (case fetch_execute s of
           Inl (e, s') \<Rightarrow> Some (Inl (e, s'))
         | Inr (u, s') \<Rightarrow> stepCycles_loop end_cycles s')
      else Some (Inr ((), s)))"

definition stepCycles :: "int \<Rightarrow> 'm CPU6502 \<Rightarrow> ((error \<times> 'm CPU6502) + (unit \<times> 'm CPU6502)) option" where
  "stepCycles c s = stepCycles_loop (jadd (cycles s) c) s"

partial_function (option) stepCyclesDebug_loop ::
    "int \<Rightarrow> 'm callback option \<Rightarrow> 'm CPU6502 \<Rightarrow> ((error \<times> 'm CPU6502) + (unit \<times> 'm CPU6502)) option" where
  "stepCyclesDebug_loop end_cycles cb s =
     (if cycles s < end_cycles then
        (case fetch_execute s of
           Inl (e, s') \<Rightarrow> Some (Inl (e, s'))
         | Inr (u, s') \<Rightarrow>
             (case (case cb of None \<Rightarrow> ret False | Some c \<Rightarrow> c) s' of
                Inl (e, s'') \<Rightarrow> Some (Inl (e, s''))
              | Inr (halt, s'') \<Rightarrow>
                  if halt then Some (Inr ((), s'')) else stepCyclesDebug_loop end_cycles cb s''))
      else Some (Inr ((), s)))"

definition stepCyclesDebug ::
    "int \<Rightarrow> 'm callback option \<Rightarrow> 'm CPU6502 \<Rightarrow> ((error \<times> 'm CPU6502) + (unit \<times> 'm CPU6502)) option" where
  "stepCyclesDebug c cb s = stepCyclesDebug_loop (jadd (cycles s) c) cb s"

section \<open>Page handlers, signals and introspection\<close>

definition addPageHandler :: "'m MemoryPages \<Rightarrow> ('m, unit) M" where
  "addPageHandler pageHandler =
     thn (upd (\<lambda>s. s\<lparr>memPages :=
            fold (\<lambda>idx mp. mp(idx \<mapsto> pageHandler)) [h_start pageHandler..h_end pageHandler] (memPages s)\<rparr>))
         (if isResettablePageHandler pageHandler
          then upd (\<lambda>s. s\<lparr>resetHandlers := resetHandlers s @ [pageHandler]\<rparr>)
          else ret ())"

primrec call_resets :: "'m MemoryPages list \<Rightarrow> ('m, unit) M" where
  "call_resets [] = ret ()"
| "call_resets (h # hs) =
     thn (case h_reset h of
            None \<Rightarrow> throw TypeError
          | Some r \<Rightarrow> upd (\<lambda>s. s\<lparr>host := r (host s), bus := bus s @ [Rs (h_id h)]\<rparr>))
         (call_resets hs)"

definition reset :: "('m, unit) M" where
  "reset =
     thn (upd (\<lambda>s. s\<lparr>sr := flags_X\<rparr>))
    (thn (upd (\<lambda>s. s\<lparr>sp := 0xff\<rparr>))
    (thn (upd (\<lambda>s. s\<lparr>ar := 0\<rparr>))
    (thn (upd (\<lambda>s. s\<lparr>yr := 0\<rparr>))
    (thn (upd (\<lambda>s. s\<lparr>xr := 0\<rparr>))
    (thn (bnd (readWord loc_RESET) (\<lambda>w. upd (\<lambda>s. s\<lparr>pc := w\<rparr>)))
    (thn (upd (\<lambda>s. s\<lparr>wait := False\<rparr>))
    (thn (upd (\<lambda>s. s\<lparr>stop := False\<rparr>))
         (bnd (get resetHandlers) call_resets))))))))"

definition irq :: "('m, unit) M" where
  "irq =
     bnd (get sr) (\<lambda>p.
     if band p flags_I = 0 then
       thn (bnd (get pc) pushWord)
      (thn (bnd (get sr) (\<lambda>p. pushByte (band p (bnot flags_B))))
      (thn (bnd (get is65C02) (\<lambda>c02. if c02 then setFlag flags_D False else ret ()))
      (thn (setFlag flags_I True)
      (thn (bnd (readWord loc_BRK) (\<lambda>w. upd (\<lambda>s. s\<lparr>pc := w\<rparr>)))
           (upd (\<lambda>s. s\<lparr>wait := False\<rparr>))))))
     else ret ())"

definition nmi :: "('m, unit) M" where
  "nmi =
     thn (bnd (get pc) pushWord)
    (thn (bnd (get sr) (\<lambda>p. pushByte (band p (bnot flags_B))))
    (thn (bnd (get is65C02) (\<lambda>c02. if c02 then setFlag flags_D False else ret ()))
    (thn (setFlag flags_I True)
    (thn (bnd (readWord loc_NMI) (\<lambda>w. upd (\<lambda>s. s\<lparr>pc := w\<rparr>)))
         (upd (\<lambda>s. s\<lparr>wait := False\<rparr>))))))"

definition getPC :: "('m, int) M" where
  "getPC = get pc"

definition setPC :: "int \<Rightarrow> ('m, unit) M" where
  "setPC v = upd (\<lambda>s. s\<lparr>pc := v\<rparr>)"

definition getSync :: "('m, bool) M" where
  "getSync = get sync"

definition getStop :: "('m, bool) M" where
  "getStop = get stop"

definition getWait :: "('m, bool) M" where
  "getWait = get wait"

definition getCycles :: "('m, int) M" where
  "getCycles = get cycles"

definition getOpInfo :: "int \<Rightarrow> ('m, 'm Instruction option) M" where
  "getOpInfo opcode = bnd (get flavor) (\<lambda>fl. ret (opary_at fl opcode))"

definition getState :: "('m, CpuState) M" where
  "getState = get (\<lambda>s. \<lparr> st_a = ar s, st_x = xr s, st_y = yr s, st_s = sr s,
                          st_pc = pc s, st_sp = sp s, st_cycles = cycles s \<rparr>)"

definition setState :: "CpuState \<Rightarrow> ('m, unit) M" where
  "setState state =
     thn (upd (\<lambda>s. s\<lparr>ar := st_a state\<rparr>))
    (thn (upd (\<lambda>s. s\<lparr>xr := st_x state\<rparr>))
    (thn (upd (\<lambda>s. s\<lparr>yr := st_y state\<rparr>))
    (thn (upd (\<lambda>s. s\<lparr>sr := st_s state\<rparr>))
    (thn (upd (\<lambda>s. s\<lparr>pc := st_pc state\<rparr>))
    (thn (upd (\<lambda>s. s\<lparr>sp := st_sp state\<rparr>))
         (upd (\<lambda>s. s\<lparr>cycles := st_cycles state\<rparr>)))))))"

text \<open>
  The public \<open>read\<close> and \<open>write\<close> (here \<open>cpu_read\<close> and \<open>cpu_write\<close>) are overloaded on
  the number of arguments: \<open>None\<close> for the last argument is the call that leaves it out.
\<close>

definition cpu_read :: "int \<Rightarrow> int option \<Rightarrow> ('m, int) M" where
  "cpu_read a b =
     (let (page, off) = (case b of Some b' \<Rightarrow> (band a 0xff, band b' 0xff)
                                 | None \<Rightarrow> (band (shr a 8) 0xff, band a 0xff)) in
      bnd (get memPages) (\<lambda>mp.
        case mp page of
          None \<Rightarrow> throw TypeError
        | Some h \<Rightarrow>
            bnd (get host) (\<lambda>m.
              let (result, m') = h_read h page off m in
              thn (upd (\<lambda>s. s\<lparr>host := m', bus := bus s @ [Rd (h_id h) page off result]\<rparr>))
                  (ret result))))"

definition cpu_write :: "int \<Rightarrow> int \<Rightarrow> int option \<Rightarrow> ('m, unit) M" where
  "cpu_write a b c =
     (let (page, off, val) = (case c of Some c' \<Rightarrow> (band a 0xff, band b 0xff, band c' 0xff)
                                      | None \<Rightarrow> (band (shr a 8) 0xff, band a 0xff, band b 0xff)) in
      bnd (get memPages) (\<lambda>mp.
        case mp page of
          None \<Rightarrow> throw TypeError
        | Some h \<Rightarrow>
            upd (\<lambda>s. s\<lparr>host := h_write h page off val (host s),
                        bus := bus s @ [Wr (h_id h) page off val]\<rparr>)))"

section \<open>Notions used in the statements\<close>

text \<open>The instruction that \<open>unknown\<close> returns on a 65C02.\<close>

definition NOP_implied :: "'m Instruction" where
  "NOP_implied = \<lparr>name = ''NOP'', mode = Implied, fn = nop readNopImplied\<rparr>"

subsection \<open>What an instruction can do to the bus and the cycle counter\<close>

fun is_read :: "access \<Rightarrow> bool" where
  "is_read (Rd h page off val) = True"
| "is_read (Wr h page off val) = False"
| "is_read (Rs h) = False"

fun is_write :: "access \<Rightarrow> bool" where
  "is_write (Rd h page off val) = False"
| "is_write (Wr h page off val) = True"
| "is_write (Rs h) = False"

definition is_access :: "access \<Rightarrow> bool" where
  "is_access ev = (is_read ev \<or> is_write ev)"

text \<open>\<open>ticks n c\<close>: the cycle counter after \<open>n\<close> executions of \<open>this.cycles++\<close> from \<open>c\<close>.\<close>

definition ticks :: "nat \<Rightarrow> int \<Rightarrow> int" where
  "ticks n c = ((\<lambda>c. jadd c 1) ^^ n) c"

text \<open>
  \<open>replay mp evs m\<close> calls the handlers of the memory map \<open>mp\<close> as the history \<open>evs\<close> says,
  in its order, from the host state \<open>m\<close>: for a read, \<open>read(page, off)\<close> of the handler of
  that page, for a write, \<open>write(page, off, val)\<close>.  It returns the host state after the
  last call, provided every call went to the handler the history names and every read
  returned the value the history gives.
\<close>

fun replay :: "(int \<rightharpoonup> 'm MemoryPages) \<Rightarrow> access list \<Rightarrow> 'm \<Rightarrow> 'm option" where
  "replay mp [] m = Some m"
| "replay mp (Rd i page off val # evs) m =
     (case mp page of
        None \<Rightarrow> None
      | Some h \<Rightarrow>
          (case h_read h page off m of
             (r, m') \<Rightarrow> if h_id h = i \<and> r = val then replay mp evs m' else None))"
| "replay mp (Wr i page off val # evs) m =
     (case mp page of
        None \<Rightarrow> None
      | Some h \<Rightarrow> if h_id h = i then replay mp evs (h_write h page off val m) else None)"
| "replay mp (Rs i # evs) m = None"

text \<open>
  \<open>bus_grows s s'\<close>: from \<open>s\<close> to \<open>s'\<close> the history of handler calls was extended by byte
  reads and byte writes only; the host state of \<open>s'\<close> is the one that exactly these calls
  produce from the host state of \<open>s\<close>; the cycle counter went through one \<open>cycles++\<close> for
  each of them; the wait latch was not lowered; and the flavor, the memory map and the
  reset registry are the same.
\<close>

definition bus_grows :: "'m CPU6502 \<Rightarrow> 'm CPU6502 \<Rightarrow> bool" where
  "bus_grows s s' =
     ((\<exists>evs. bus s' = bus s @ evs \<and> list_all is_access evs \<and>
             replay (memPages s) evs (host s) = Some (host s') \<and>
             cycles s' = ticks (length evs) (cycles s)) \<and>
      (wait s \<longrightarrow> wait s') \<and> flavor s' = flavor s \<and> is65C02 s' = is65C02 s \<and>
      memPages s' = memPages s \<and> resetHandlers s' = resetHandlers s)"

definition accounted :: "('m, 'a) M \<Rightarrow> bool" where
  "accounted m =
     (\<forall>s. case m s of Inl (e, s') \<Rightarrow> bus_grows s s' | Inr (x, s') \<Rightarrow> bus_grows s s')"

text \<open>
  \<open>ignores_wait m\<close>: with the wait latch set, the method \<open>m\<close> does what it does with the latch
  as it is, and leaves the latch set.
\<close>

definition ignores_wait :: "('m, 'a) M \<Rightarrow> bool" where
  "ignores_wait m =
     (\<forall>s. m (s\<lparr>wait := True\<rparr>) =
          (case m s of Inl (e, s') \<Rightarrow> Inl (e, s'\<lparr>wait := True\<rparr>)
                     | Inr (x, s') \<Rightarrow> Inr (x, s'\<lparr>wait := True\<rparr>)))"

text \<open>
  The same for a whole run \<open>r\<close> of \<open>stepCycles\<close> from \<open>s\<close> up to the cycle count
  \<open>end_cycles\<close>: a run that returns normally has reached that count.
\<close>

definition run_accounted ::
    "int \<Rightarrow> 'm CPU6502 \<Rightarrow> (error \<times> 'm CPU6502) + (unit \<times> 'm CPU6502) \<Rightarrow> bool" where
  "run_accounted end_cycles s r =
     (case r of Inl (e, s') \<Rightarrow> bus_grows s s'
              | Inr (u, s') \<Rightarrow> bus_grows s s' \<and> end_cycles \<le> cycles s')"

subsection \<open>A plain RAM and a configured CPU, for the scenarios\<close>

text \<open>
  The host of the scenarios owns one handler, a RAM over all 256 pages whose state is the
  memory content, a byte for every page and offset.
\<close>

type_synonym ram = "int \<times> int \<Rightarrow> int"

definition RAM :: "ram MemoryPages" where
  "RAM = \<lparr> h_id = 1, h_start = 0, h_end = 255,
     h_read = (\<lambda>page off m. (m (page, off), m)),
     h_write = (\<lambda>page off val m. m((page, off) := val)),
     h_reset = None \<rparr>"

text \<open>The object that the constructor returns for the tables of the class.\<close>

definition initial :: "Flavor option \<Rightarrow> 'm \<Rightarrow> 'm CPU6502" where
  "initial flavor_opt m =
     \<lparr> flavor = (case flavor_opt of None \<Rightarrow> FLAVOR_6502 | Some f \<Rightarrow> f),
       is65C02 = (case flavor_opt of None \<Rightarrow> False | Some f \<Rightarrow> f \<in> set FLAVORS_65C02),
       pc = 0, sr = flags_X, ar = 0, xr = 0, yr = 0, sp = 0xff,
       op = None, addr = 0,
       memPages = (\<lambda>idx. if 0 \<le> idx \<and> idx < 0x100 then Some BLANK_PAGE else None),
       resetHandlers = [],
       cycles = 0, sync = False, wait = False, stop = False,
       host = m, bus = [] \<rparr>"

text \<open>
  The CPU of a scenario: constructed, given the RAM by \<open>addPageHandler\<close>, and set to the
  registers \<open>st\<close> by \<open>setState\<close> (lemma \<open>scenario_built\<close> below).
\<close>

definition scenario :: "Flavor option \<Rightarrow> CpuState \<Rightarrow> ram \<Rightarrow> ram CPU6502" where
  "scenario flavor_opt st m =
     (initial flavor_opt m)
       \<lparr> pc := st_pc st, sr := st_s st, ar := st_a st, xr := st_x st, yr := st_y st,
         sp := st_sp st,
         memPages := (\<lambda>idx. if 0 \<le> idx \<and> idx \<le> 255 then Some RAM
                             else memPages (initial flavor_opt m) idx),
         cycles := st_cycles st \<rparr>"

text \<open>
  The CPU with the cycle count \<open>2^53\<close>, as \<open>setState\<close> stores it (lemma \<open>saturated_scenario\<close>
  below).
\<close>

definition saturated :: "'m CPU6502 \<Rightarrow> 'm CPU6502" where
  "saturated s = s\<lparr>cycles := 2 ^ 53\<rparr>"

definition DEFAULT_STATE :: CpuState where
  "DEFAULT_STATE = \<lparr> st_a = 0x00, st_x = 0x00, st_y = 0x00, st_s = flags_X,
     st_pc = 0x0400, st_sp = 0xff, st_cycles = 0 \<rparr>"

text \<open>Scenario 6 of the specification: decimal addition with a carry out.\<close>

definition bcd_scenario :: "ram CPU6502" where
  "bcd_scenario =
     scenario None (DEFAULT_STATE\<lparr>st_a := 0x91, st_s := 0x28\<rparr>)
       ((\<lambda>a. 0)((4, 0) := 0x69, (4, 1) := 0x10))"

text \<open>Scenario 5 of the specification: an indirect jump through a pointer at \<open>0x02FF\<close>.\<close>

definition jmp_scenario :: "Flavor option \<Rightarrow> ram CPU6502" where
  "jmp_scenario flavor_opt =
     scenario flavor_opt DEFAULT_STATE
       ((\<lambda>a. 0)((4, 0) := 0x6c, (4, 1) := 0xff, (4, 2) := 0x02,
                 (2, 0xff) := 0x34, (3, 0x00) := 0x12, (2, 0x00) := 0xff))"

text \<open>A WDC 65C02 about to fetch the unassigned opcode \<open>0x03\<close>.\<close>

definition unassigned_scenario :: "ram CPU6502" where
  "unassigned_scenario = scenario (Some FLAVOR_WDC_65C02) DEFAULT_STATE ((\<lambda>a. 0)((4, 0) := 0x03))"

text \<open>
  Scenario 8 of the specification: the CPU with status register \<open>p\<close> and the IRQ vector
  pointing to \<open>0xff00\<close>.
\<close>

definition irq_scenario :: "int \<Rightarrow> ram CPU6502" where
  "irq_scenario p =
     scenario None (DEFAULT_STATE\<lparr>st_s := p\<rparr>) ((\<lambda>a. 0)((255, 0xfe) := 0x00, (255, 0xff) := 0xff))"

text \<open>
  A stand-in for \<open>toHex\<close> of the module \<open>./util\<close>, used where a concrete function is needed:
  two lower-case hexadecimal digits.
\<close>

definition hex2 :: "int \<Rightarrow> string" where
  "hex2 b = [''0123456789abcdef'' ! nat (b div 16 mod 16), ''0123456789abcdef'' ! nat (b mod 16)]"

text \<open>
  A second handler over all pages that also implements \<open>reset()\<close> (as the identity), and
  the CPU after \<open>addPageHandler\<close> was called on it twice (lemma \<open>twice_registered_built\<close>).
\<close>

definition RESETTABLE :: "ram MemoryPages" where
  "RESETTABLE = \<lparr> h_id = 2, h_start = 0, h_end = 255,
     h_read = (\<lambda>page off m. (m (page, off), m)),
     h_write = (\<lambda>page off val m. m((page, off) := val)),
     h_reset = Some (\<lambda>m. m) \<rparr>"

definition twice_registered :: "ram CPU6502" where
  "twice_registered =
     (initial None (\<lambda>a. 0))
       \<lparr> memPages := (\<lambda>idx. if 0 \<le> idx \<and> idx \<le> 255 then Some RESETTABLE
                           else memPages (initial None (\<lambda>a. 0)) idx),
         resetHandlers := [RESETTABLE, RESETTABLE] \<rparr>"

text \<open>
  A WDC 65C02 with the program \<open>WAI; NOP\<close> at \<open>0x0400\<close>, and its state after the \<open>WAI\<close>
  (lemma \<open>wai_then_nop\<close>).
\<close>

definition wai_scenario :: "ram CPU6502" where
  "wai_scenario =
     scenario (Some FLAVOR_WDC_65C02) DEFAULT_STATE ((\<lambda>a. 0)((4, 0) := 0xcb, (4, 1) := 0xea))"

definition after_wai :: "ram CPU6502" where
  "after_wai =
     wai_scenario\<lparr> wait := True, pc := 0x0401, cycles := 3, addr := 0x0401,
                   op := Some (''WAI'', Implied),
                   bus := [Rd 1 4 0 0xcb, Rd 1 4 1 0xea, Rd 1 4 1 0xea] \<rparr>"

section \<open>Laws of the state transformers\<close>

lemma bnd_ret [simp]: "bnd (ret x) f = f x"
  by (simp add: bnd_def ret_def)

lemma bnd_get [simp]: "bnd (get g) f s = f (g s) s"
  by (simp add: bnd_def get_def)

lemma bnd_upd [simp]: "bnd (upd g) f s = f () (g s)"
  by (simp add: bnd_def upd_def)

lemma thn_upd [simp]: "thn (upd g) m s = m (g s)"
  by (simp add: thn_def)

lemma thn_ret [simp]: "thn (ret x) m = m"
  by (simp add: thn_def)

lemma bnd_throw [simp]: "bnd (throw e) f = throw e"
  by (simp add: bnd_def throw_def)

lemma thn_throw [simp]: "thn (throw e) m = throw e"
  by (simp add: thn_def)

lemma bnd_assoc [simp]: "bnd (bnd m f) g = bnd m (\<lambda>x. bnd (f x) g)"
  by (auto simp: bnd_def fun_eq_iff split: sum.splits prod.splits)

lemma thn_bnd [simp]: "thn (bnd m f) n = bnd m (\<lambda>x. thn (f x) n)"
  by (simp add: thn_def)

lemma thn_thn [simp]: "thn (thn m n) k = thn m (thn n k)"
  by (simp add: thn_def)

lemma bnd_thn [simp]: "bnd (thn m n) f = thn m (bnd n f)"
  by (simp add: thn_def)

lemma ret_apply [simp]: "ret x s = Inr (x, s)"
  by (simp add: ret_def)

lemma upd_apply [simp]: "upd g s = Inr ((), g s)"
  by (simp add: upd_def)

lemma get_apply [simp]: "get g s = Inr (g s, s)"
  by (simp add: get_def)

lemma throw_apply [simp]: "throw e s = Inl (e, s)"
  by (simp add: throw_def)

section \<open>Addition of doubles\<close>

lemma ulp_small: "m < 2 ^ 53 \<Longrightarrow> ulp m = 1"
  by (subst ulp.simps) simp

lemma to_double_exact: "- (2 ^ 53) \<le> n \<Longrightarrow> n \<le> 2 ^ 53 \<Longrightarrow> to_double n = n"
proof -
  assume n: "- (2 ^ 53) \<le> n" "n \<le> 2 ^ 53"
  show ?thesis
  proof (cases "\<bar>n\<bar> < 2 ^ 53")
    case True
    then have "ulp (nat \<bar>n\<bar>) = 1"
      by (intro ulp_small) (simp add: nat_less_iff)
    then show ?thesis
      by (simp add: to_double_def Let_def) (simp add: sgn_if)
  next
    case False
    with n have m: "\<bar>n\<bar> = 2 ^ 53" by simp
    have u: "ulp (nat (2 ^ 53)) = 2"
      by (subst ulp.simps, subst ulp.simps) (simp add: nat_power_eq)
    from m have "n = 2 ^ 53 \<or> n = - (2 ^ 53)" by (simp add: abs_if split: if_splits)
    then show ?thesis
      using u by (auto simp: to_double_def Let_def)
  qed
qed

lemma jadd_exact: "- (2 ^ 53) \<le> a + b \<Longrightarrow> a + b \<le> 2 ^ 53 \<Longrightarrow> jadd a b = a + b"
  by (simp add: jadd_def to_double_exact)

lemma jsub_exact: "- (2 ^ 53) \<le> a - b \<Longrightarrow> a - b \<le> 2 ^ 53 \<Longrightarrow> jsub a b = a - b"
  by (simp add: jsub_def to_double_exact)

lemma jadd_limit: "jadd (2 ^ 53) 1 = 2 ^ 53"
proof -
  have u: "ulp (nat (2 ^ 53 + 1)) = 2"
    by (subst ulp.simps, subst ulp.simps) (simp add: nat_add_distrib nat_power_eq)
  show ?thesis
    using u by (simp add: jadd_def to_double_def Let_def)
qed

lemma jadd_saturated: "jadd 9007199254740992 1 = 9007199254740992"
  using jadd_limit by simp

lemma ticks_0 [simp]: "ticks 0 c = c"
  by (simp add: ticks_def)

lemma ticks_Suc: "ticks (Suc n) c = ticks n (jadd c 1)"
  by (simp add: ticks_def funpow_Suc_right del: funpow.simps)

lemma ticks_1 [simp]: "ticks (Suc 0) c = jadd c 1"
  by (simp add: ticks_def)

lemma ticks_add: "ticks (m + n) c = ticks n (ticks m c)"
  by (simp add: ticks_def funpow_add add.commute [of m n])

lemma ticks_exact: "- (2 ^ 53) \<le> c \<Longrightarrow> c + int n \<le> 2 ^ 53 \<Longrightarrow> ticks n c = c + int n"
proof (induction n arbitrary: c)
  case 0
  show ?case by simp
next
  case (Suc n)
  have "jadd c 1 = c + 1"
    using Suc.prems by (intro jadd_exact) simp_all
  moreover have "ticks n (c + 1) = c + 1 + int n"
    using Suc.prems by (intro Suc.IH) simp_all
  ultimately show ?case
    by (simp add: ticks_Suc)
qed

lemma ticks_numeral: "ticks (numeral k) c = ticks (pred_numeral k) (jadd c 1)"
  by (simp add: numeral_eq_Suc ticks_Suc)

lemma ticks_limit: "ticks n (2 ^ 53) = 2 ^ 53"
proof (induction n)
  case 0
  show ?case by simp
next
  case (Suc n)
  then show ?case
    using jadd_limit by (simp add: ticks_Suc)
qed

section \<open>Masks and shifts\<close>

lemma band_byte: "band a 0xff = a mod 256"
proof -
  have "toInt32 a AND 255 = take_bit 8 (toInt32 a)"
    using take_bit_eq_mask [of 8 "toInt32 a"] by (simp add: mask_eq_exp_minus_1)
  also have "\<dots> = take_bit 8 a"
    by (simp add: toInt32_def take_bit_signed_take_bit)
  finally show ?thesis
    by (simp add: band_def toInt32_def take_bit_eq_mod)
qed

lemma band_word: "band a 0xffff = a mod 65536"
proof -
  have "toInt32 a AND 65535 = take_bit 16 (toInt32 a)"
    using take_bit_eq_mask [of 16 "toInt32 a"] by (simp add: mask_eq_exp_minus_1)
  also have "\<dots> = take_bit 16 a"
    by (simp add: toInt32_def take_bit_signed_take_bit)
  finally show ?thesis
    by (simp add: band_def toInt32_def take_bit_eq_mod)
qed

lemma shr8_byte: "band (shr a 8) 0xff = a mod 65536 div 256"
proof -
  have "take_bit 8 (drop_bit 8 (signed_take_bit 31 a)) = take_bit 8 (drop_bit 8 a)"
    by (rule bit_eqI) (auto simp: bit_simps)
  moreover have "a div 2 ^ 8 mod 2 ^ 8 = a mod 2 ^ (8 + 8) div 2 ^ 8"
    by (rule div_exp_mod_exp_eq)
  ultimately show ?thesis
    by (simp add: band_byte shr_def toInt32_def take_bit_eq_mod drop_bit_eq_div)
qed

lemma shr8_mod: "shr a 8 mod 256 = a mod 65536 div 256"
  using shr8_byte [of a] by (simp add: band_byte)

lemma toInt32_small: "0 \<le> a \<Longrightarrow> a < 2 ^ 31 \<Longrightarrow> toInt32 a = a"
  by (simp add: toInt32_def signed_take_bit_int_eq_self)

lemma shr8_word: "0 \<le> a \<Longrightarrow> a < 65536 \<Longrightarrow> shr a 8 = a div 256"
  by (simp add: shr_def toInt32_small drop_bit_eq_div)

lemma bnd_apply: "bnd m f s = (case m s of Inl (e, s') \<Rightarrow> Inl (e, s') | Inr (x, s') \<Rightarrow> f x s')"
  by (simp add: bnd_def)

lemma thn_apply: "thn m n s = (case m s of Inl (e, s') \<Rightarrow> Inl (e, s') | Inr (x, s') \<Rightarrow> n s')"
  by (simp add: thn_def bnd_def)

lemmas run = bnd_apply thn_apply

section \<open>Evaluating the operators on literals\<close>

lemma toInt32_lit: "- (2 ^ 31) \<le> a \<Longrightarrow> a < 2 ^ 31 \<Longrightarrow> toInt32 a = a"
  by (simp add: toInt32_def signed_take_bit_int_eq_self)

lemma band_lit:
  "- (2 ^ 31) \<le> a \<Longrightarrow> a < 2 ^ 31 \<Longrightarrow> - (2 ^ 31) \<le> b \<Longrightarrow> b < 2 ^ 31 \<Longrightarrow> band a b = a AND b"
  by (simp add: band_def toInt32_lit)

lemma bor_lit:
  "- (2 ^ 31) \<le> a \<Longrightarrow> a < 2 ^ 31 \<Longrightarrow> - (2 ^ 31) \<le> b \<Longrightarrow> b < 2 ^ 31 \<Longrightarrow> bor a b = a OR b"
  by (simp add: bor_def toInt32_lit)

lemma bxor_lit:
  "- (2 ^ 31) \<le> a \<Longrightarrow> a < 2 ^ 31 \<Longrightarrow> - (2 ^ 31) \<le> b \<Longrightarrow> b < 2 ^ 31 \<Longrightarrow> bxor a b = a XOR b"
  by (simp add: bxor_def toInt32_lit)

lemma bnot_lit: "- (2 ^ 31) \<le> a \<Longrightarrow> a < 2 ^ 31 \<Longrightarrow> bnot a = NOT a"
  by (simp add: bnot_def toInt32_lit)

lemma shr_lit: "- (2 ^ 31) \<le> a \<Longrightarrow> a < 2 ^ 31 \<Longrightarrow> n < 32 \<Longrightarrow> shr a n = drop_bit n a"
  by (simp add: shr_def toInt32_lit)

lemma shl_lit:
  "- (2 ^ 31) \<le> a \<Longrightarrow> a < 2 ^ 31 \<Longrightarrow> n < 32 \<Longrightarrow>
   - (2 ^ 31) \<le> push_bit n a \<Longrightarrow> push_bit n a < 2 ^ 31 \<Longrightarrow> shl a n = push_bit n a"
  by (simp add: shl_def toInt32_lit)

lemmas jadd_lit =
  jadd_exact [of "numeral a" "numeral b"] jadd_exact [of "numeral a" 1]
  jadd_exact [of "numeral a" 0] jadd_exact [of 1 "numeral b"] jadd_exact [of 0 "numeral b"]
  jadd_exact [of 0 0] jadd_exact [of 0 1] jadd_exact [of 1 0] jadd_exact [of 1 1]
  for a b

lemmas jsub_lit =
  jsub_exact [of "numeral a" "numeral b"] jsub_exact [of "numeral a" 1]
  jsub_exact [of "numeral a" 0] jsub_exact [of 1 "numeral b"] jsub_exact [of 0 "numeral b"]
  jsub_exact [of 0 0] jsub_exact [of 0 1] jsub_exact [of 1 0] jsub_exact [of 1 1]
  for a b

lemmas js_lit = band_lit bor_lit bxor_lit bnot_lit shr_lit shl_lit jadd_lit jsub_lit

lemma stack_or: "0 \<le> p \<Longrightarrow> p < 256 \<Longrightarrow> bor 0x100 p = 256 + p"
proof -
  assume p: "0 \<le> p" "p < 256"
  then have tp: "take_bit 8 p = p"
    by (simp add: take_bit_int_eq_self)
  have "p = p AND 255"
    using tp take_bit_eq_mask [of 8 p] by (simp add: mask_eq_exp_minus_1)
  then have "256 AND p = 256 AND (p AND 255)"
    by simp
  also have "\<dots> = (256 AND 255) AND p"
    by (simp add: ac_simps)
  finally have "(256::int) AND p = 0"
    by simp
  then have "256 + p = 256 OR p"
    by (rule disjunctive_add_eq_or)
  moreover have "toInt32 p = p"
    using p by (simp add: toInt32_lit)
  ultimately show ?thesis
    by (simp add: bor_def toInt32_lit)
qed

lemma stack_page: "0 \<le> p \<Longrightarrow> p < 256 \<Longrightarrow> shr (bor 0x100 p) 8 = 1"
  by (simp add: stack_or shr_lit drop_bit_eq_div)

lemma stack_off: "0 \<le> p \<Longrightarrow> p < 256 \<Longrightarrow> band (bor 0x100 p) 0xff = p"
  by (simp add: stack_or band_byte)

section \<open>Construction always succeeds for the tables of the class\<close>

lemma keys_OPS_6502: "map fst (OPS_6502 :: (int \<times> 'm Instruction) list) = [0xa9, 0xa5, 0xb5, 0xad, 0xbd, 0xb9, 0xa1, 0xb1, 0xa2, 0xa6, 0xb6, 0xae, 0xbe, 0xa0, 0xa4, 0xb4, 0xac, 0xbc, 0x85, 0x95, 0x8d, 0x9d, 0x99, 0x81, 0x91, 0x86, 0x96, 0x8e, 0x84, 0x94, 0x8c, 0x69, 0x65, 0x75, 0x6d, 0x7d, 0x79, 0x61, 0x71, 0xe9, 0xe5, 0xf5, 0xed, 0xfd, 0xf9, 0xe1, 0xf1, 0xe6, 0xf6, 0xee, 0xfe, 0xe8, 0xc8, 0xc6, 0xd6, 0xce, 0xde, 0xca, 0x88, 0x0a, 0x06, 0x16, 0x0e, 0x1e, 0x4a, 0x46, 0x56, 0x4e, 0x5e, 0x2a, 0x26, 0x36, 0x2e, 0x3e, 0x6a, 0x66, 0x76, 0x6e, 0x7e, 0x29, 0x25, 0x35, 0x2d, 0x3d, 0x39, 0x21, 0x31, 0x09, 0x05, 0x15, 0x0d, 0x1d, 0x19, 0x01, 0x11, 0x49, 0x45, 0x55, 0x4d, 0x5d, 0x59, 0x41, 0x51, 0xc9, 0xc5, 0xd5, 0xcd, 0xdd, 0xd9, 0xc1, 0xd1, 0xe0, 0xe4, 0xec, 0xc0, 0xc4, 0xcc, 0x24, 0x2c, 0x90, 0xb0, 0xf0, 0x30, 0xd0, 0x10, 0x50, 0x70, 0xaa, 0x8a, 0xa8, 0x98, 0xba, 0x9a, 0x48, 0x68, 0x08, 0x28, 0x4c, 0x6c, 0x20, 0x60, 0x40, 0x38, 0xf8, 0x78, 0x18, 0xd8, 0x58, 0xb8, 0xea, 0x00]"
  by (simp add: OPS_6502_def)

lemma keys_OPS_65C02: "map fst (OPS_65C02 :: (int \<times> 'm Instruction) list) = [0x1a, 0x3a, 0x12, 0x32, 0x52, 0x72, 0x92, 0xb2, 0xd2, 0xf2, 0x34, 0x3c, 0x89, 0x6c, 0x7c, 0x0f, 0x1f, 0x2f, 0x3f, 0x4f, 0x5f, 0x6f, 0x7f, 0x8f, 0x9f, 0xaf, 0xbf, 0xcf, 0xdf, 0xef, 0xff, 0x80, 0x02, 0x22, 0x42, 0x44, 0x54, 0x62, 0x82, 0xc2, 0xd4, 0xe2, 0xf4, 0x5c, 0xdc, 0xfc, 0xda, 0x5a, 0xfa, 0x7a, 0x07, 0x17, 0x27, 0x37, 0x47, 0x57, 0x67, 0x77, 0x87, 0x97, 0xa7, 0xb7, 0xc7, 0xd7, 0xe7, 0xf7, 0x64, 0x74, 0x9c, 0x9e, 0x14, 0x1c, 0x04, 0x0c]"
  by (simp add: OPS_65C02_def)

lemma keys_OPS_NMOS_6502: "map fst (OPS_NMOS_6502 :: (int \<times> 'm Instruction) list) = [0x0f, 0x1f, 0x1b, 0x07, 0x17, 0x03, 0x13, 0x2f, 0x3f, 0x3b, 0x27, 0x37, 0x23, 0x33, 0x4f, 0x5f, 0x5b, 0x47, 0x57, 0x43, 0x53, 0x6f, 0x7f, 0x7b, 0x67, 0x77, 0x63, 0x73, 0x8f, 0x87, 0x97, 0x83, 0xaf, 0xbf, 0xa7, 0xb7, 0xa3, 0xb3, 0xcf, 0xdf, 0xdb, 0xc7, 0xd7, 0xc3, 0xd3, 0xef, 0xff, 0xfb, 0xe7, 0xf7, 0xe3, 0xf3, 0x4b, 0x6b, 0x8b, 0xab, 0xcb, 0x1a, 0x3a, 0x5a, 0x7a, 0xda, 0xfa, 0x80, 0x82, 0x89, 0xc2, 0xe2, 0x04, 0x14, 0x34, 0x44, 0x54, 0x64, 0x74, 0xd4, 0xf4, 0x0c, 0x1c, 0x3c, 0x5c, 0x7c, 0xdc, 0xfc, 0x02, 0x12, 0x22, 0x32, 0x42, 0x52, 0x62, 0x72, 0x92, 0xb2, 0xd2, 0xf2, 0x9b, 0x9c, 0x9e, 0x9f, 0x93, 0x2b, 0x0b, 0xbb, 0xeb]"
  by (simp add: OPS_NMOS_6502_def)

lemma keys_OPS_ROCKWELL_65C02: "map fst (OPS_ROCKWELL_65C02 :: (int \<times> 'm Instruction) list) = [0xcb, 0xdb]"
  by (simp add: OPS_ROCKWELL_65C02_def)

lemma keys_OPS_WDC_65C02: "map fst (OPS_WDC_65C02 :: (int \<times> 'm Instruction) list) = [0xcb, 0xdb]"
  by (simp add: OPS_WDC_65C02_def)

lemma fill_opary_populated:
  "\<forall>idx \<in> set idxs. c02 \<or> ops idx \<noteq> None \<Longrightarrow>
   fill_opary toHex c02 ops idxs =
     Inr (map (\<lambda>idx. case ops idx of Some i \<Rightarrow> i | None \<Rightarrow> NOP_implied) idxs)"
  by (induction idxs) (auto simp: unknown_def NOP_implied_def split: option.splits)

lemma fill_opary_missing:
  "\<forall>idx \<in> set pre. ops idx \<noteq> None \<Longrightarrow> ops b = None \<Longrightarrow>
   fill_opary toHex False ops (pre @ b # post) = Inl (Error (''Missing '' @ toHex b))"
  by (induction pre) (auto simp: unknown_def split: option.splits)

lemma nmos_keys_full:
  "\<forall>idx \<in> set [0..255].
     idx \<in> set (map fst (OPS_6502 :: (int \<times> 'm Instruction) list) @
                map fst (OPS_NMOS_6502 :: (int \<times> 'm Instruction) list))"
  unfolding keys_OPS_6502 keys_OPS_NMOS_6502 by code_simp

lemma class_nmos_populated:
  assumes "idx \<in> set [0..255]"
  shows "compose_ops (class_tables :: 'm OpTables) FLAVOR_6502 idx \<noteq> None"
proof -
  have "idx \<in> fst ` set (OPS_6502 :: (int \<times> 'm Instruction) list) \<union>
              fst ` set (OPS_NMOS_6502 :: (int \<times> 'm Instruction) list)"
    using nmos_keys_full [where 'm = 'm] assms by (simp only: set_map set_append)
  then have "idx \<in> dom (map_of (OPS_6502 :: (int \<times> 'm Instruction) list) ++
                         map_of (OPS_NMOS_6502 :: (int \<times> 'm Instruction) list))"
    by (simp only: dom_map_add dom_map_of_conv_image_fst) blast
  then show ?thesis
    by (auto simp: compose_ops_def class_tables_def)
qed

lemma build_opary_class:
  "build_opary (class_tables :: 'm OpTables) toHex flavor_opt =
     Inr (map (\<lambda>idx. case compose_ops class_tables
                         (case flavor_opt of None \<Rightarrow> FLAVOR_6502 | Some f \<Rightarrow> f) idx of
                       Some i \<Rightarrow> i | None \<Rightarrow> NOP_implied) [0..255])"
proof -
  have "\<forall>idx \<in> set [0..255].
          (case flavor_opt of None \<Rightarrow> False | Some f \<Rightarrow> f \<in> set FLAVORS_65C02) \<or>
          compose_ops (class_tables :: 'm OpTables)
            (case flavor_opt of None \<Rightarrow> FLAVOR_6502 | Some f \<Rightarrow> f) idx \<noteq> None"
  proof (cases flavor_opt)
    case None
    then show ?thesis using class_nmos_populated [where 'm = 'm] by auto
  next
    case (Some f)
    then show ?thesis using class_nmos_populated [where 'm = 'm]
      by (cases f) (auto simp: FLAVORS_65C02_def)
  qed
  then show ?thesis
    unfolding build_opary_def Let_def by (rule fill_opary_populated)
qed

lemma opary_at_class:
  assumes "0 \<le> b" and "b < 256"
  shows "opary_at fl b =
           Some (case compose_ops class_tables fl b of Some i \<Rightarrow> i | None \<Rightarrow> NOP_implied)"
proof -
  have len: "length [0..255::int] = 256"
    by simp
  have "[0..255] ! nat b = 0 + int (nat b)"
    using assms by (intro nth_upto) simp
  then have nth: "[0..255] ! nat b = b"
    using assms by simp
  have "nat b < length [0..255::int]"
    using assms len by simp
  then show ?thesis
    using assms nth by (simp add: opary_at_def opary_def build_opary_class)
qed

lemma opary_at_outside: "b < 0 \<or> 256 \<le> b \<Longrightarrow> opary_at fl b = None"
  by (auto simp: opary_at_def opary_def build_opary_class)

lemma new_CPU6502_initial: "new_CPU6502 toHex flavor_opt m = Inr (initial flavor_opt m)"
  by (simp add: new_CPU6502_def construct_def build_opary_class initial_def)

lemma fold_page_update:
  "fold (\<lambda>idx mp. mp(idx \<mapsto> h)) idxs mp = (\<lambda>i. if i \<in> set idxs then Some h else mp i)"
  by (induction idxs arbitrary: mp) (auto simp: fun_eq_iff)

lemma scenario_built:
  "new_CPU6502 toHex flavor_opt m = Inr (initial flavor_opt m) \<and>
   thn (addPageHandler RAM) (setState st) (initial flavor_opt m) = Inr ((), scenario flavor_opt st m)"
  by (simp add: new_CPU6502_initial addPageHandler_def setState_def fold_page_update
        isResettablePageHandler_def RAM_def scenario_def initial_def fun_eq_iff)

lemma saturated_scenario:
  "thn (addPageHandler RAM) (setState (st\<lparr>st_cycles := 2 ^ 53\<rparr>)) (initial flavor_opt m) =
     Inr ((), saturated (scenario flavor_opt st m))"
  by (simp add: addPageHandler_def setState_def fold_page_update isResettablePageHandler_def
        RAM_def scenario_def initial_def saturated_def fun_eq_iff)

lemma opary_at_lookup:
  "compose_ops class_tables fl b = Some i \<Longrightarrow> 0 \<le> b \<Longrightarrow> b < 256 \<Longrightarrow> opary_at fl b = Some i"
  by (simp add: opary_at_class)

lemma build_opary_nmos:
  "flavor_opt = None \<or> flavor_opt = Some FLAVOR_6502 \<Longrightarrow>
   build_opary T toHex flavor_opt =
     fill_opary toHex False (ops_6502 T ++ ops_NMOS_6502 T) [0..255]"
  by (auto simp: build_opary_def compose_ops_def FLAVORS_65C02_def)

lemma fill_opary_Inr_populated:
  "fill_opary toHex False ops idxs = Inr tab \<Longrightarrow> \<forall>idx \<in> set idxs. ops idx \<noteq> None"
  by (induction idxs arbitrary: tab) (auto simp: unknown_def split: option.splits sum.splits)

lemma base_table_low:
  "map_of (OPS_6502 :: (int \<times> 'm Instruction) list) 0 \<noteq> None"
  "map_of (OPS_6502 :: (int \<times> 'm Instruction) list) 1 \<noteq> None"
  "map_of (OPS_6502 :: (int \<times> 'm Instruction) list) 2 = None"
  by (simp_all add: OPS_6502_def)

section \<open>Entries of the composed tables\<close>

lemma op_6502_69: "compose_ops class_tables FLAVOR_6502 0x69 = Some \<lparr>name = ''ADC'', mode = Immediate, fn = adc readImmediate\<rparr>"
  by (simp add: compose_ops_def class_tables_def OPS_6502_def OPS_NMOS_6502_def map_add_def)

lemma op_6502_6c:
  "compose_ops class_tables FLAVOR_6502 0x6c =
     Some \<lparr>name = ''JMP'', mode = AbsoluteIndirect, fn = jmp readAddrAbsoluteIndirectBug\<rparr>"
  by (simp add: compose_ops_def class_tables_def OPS_6502_def OPS_NMOS_6502_def map_add_def)

lemma op_rockwell_6c:
  "compose_ops class_tables FLAVOR_ROCKWELL_65C02 0x6c =
     Some \<lparr>name = ''JMP'', mode = AbsoluteIndirect, fn = jmp readAddrAbsoluteIndirect\<rparr>"
  by (simp add: compose_ops_def class_tables_def OPS_6502_def OPS_65C02_def
        OPS_ROCKWELL_65C02_def map_add_def)

lemma op_wdc_6c:
  "compose_ops class_tables FLAVOR_WDC_65C02 0x6c =
     Some \<lparr>name = ''JMP'', mode = AbsoluteIndirect, fn = jmp readAddrAbsoluteIndirect\<rparr>"
  by (simp add: compose_ops_def class_tables_def OPS_6502_def OPS_65C02_def
        OPS_WDC_65C02_def map_add_def)

lemma op_wdc_03: "compose_ops class_tables FLAVOR_WDC_65C02 0x03 = None"
  by (simp add: compose_ops_def class_tables_def OPS_6502_def OPS_65C02_def
        OPS_WDC_65C02_def map_add_def)

lemma op_wdc_cb:
  "compose_ops class_tables FLAVOR_WDC_65C02 0xcb = Some \<lparr>name = ''WAI'', mode = Implied, fn = wai\<rparr>"
  by (simp add: compose_ops_def class_tables_def OPS_6502_def OPS_65C02_def
        OPS_WDC_65C02_def map_add_def)

lemma op_wdc_ea:
  "compose_ops class_tables FLAVOR_WDC_65C02 0xea =
     Some \<lparr>name = ''NOP'', mode = Implied, fn = nop implied\<rparr>"
  by (simp add: compose_ops_def class_tables_def OPS_6502_def OPS_65C02_def
        OPS_WDC_65C02_def map_add_def)

section \<open>Every method of the instruction set keeps the account\<close>

lemma bus_grows_refl [simp]: "bus_grows s s"
  by (simp add: bus_grows_def)

lemma replay_append:
  "replay mp (evs @ evs') m =
     (case replay mp evs m of None \<Rightarrow> None | Some m' \<Rightarrow> replay mp evs' m')"
proof (induction evs arbitrary: m)
  case Nil
  show ?case by simp
next
  case (Cons ev evs)
  then show ?case
    by (cases ev) (simp_all split: option.splits prod.splits)
qed

lemma bus_grows_trans:
  assumes "bus_grows s t" and "bus_grows t u"
  shows "bus_grows s u"
proof -
  from assms(1) obtain evs where 1: "bus t = bus s @ evs" "list_all is_access evs"
      "replay (memPages s) evs (host s) = Some (host t)"
      "cycles t = ticks (length evs) (cycles s)"
    and same1: "wait s \<longrightarrow> wait t" "flavor t = flavor s" "is65C02 t = is65C02 s"
      "memPages t = memPages s" "resetHandlers t = resetHandlers s"
    unfolding bus_grows_def by blast
  from assms(2) obtain evs' where 2: "bus u = bus t @ evs'" "list_all is_access evs'"
      "replay (memPages t) evs' (host t) = Some (host u)"
      "cycles u = ticks (length evs') (cycles t)"
    and same2: "wait t \<longrightarrow> wait u" "flavor u = flavor t" "is65C02 u = is65C02 t"
      "memPages u = memPages t" "resetHandlers u = resetHandlers t"
    unfolding bus_grows_def by blast
  have "bus u = bus s @ (evs @ evs')" "list_all is_access (evs @ evs')"
      "replay (memPages s) (evs @ evs') (host s) = Some (host u)"
      "cycles u = ticks (length (evs @ evs')) (cycles s)"
    using 1 2 same1 by (simp_all add: replay_append ticks_add)
  then show ?thesis
    unfolding bus_grows_def using same1 same2 by (intro conjI exI [of _ "evs @ evs'"]) simp_all
qed

lemma accounted_ret [simp, intro!]: "accounted (ret x)"
  by (simp add: accounted_def)

lemma accounted_throw [simp, intro!]: "accounted (throw e)"
  by (simp add: accounted_def)

lemma accounted_get [simp, intro!]: "accounted (get g)"
  by (simp add: accounted_def)

lemma accounted_upd [simp]: "accounted (upd g) = (\<forall>s. bus_grows s (g s))"
  by (simp add: accounted_def)

lemma accounted_Inl: "accounted m \<Longrightarrow> m s = Inl (e, s') \<Longrightarrow> bus_grows s s'"
  unfolding accounted_def by (drule spec [of _ s]) simp

lemma accounted_Inr: "accounted m \<Longrightarrow> m s = Inr (x, s') \<Longrightarrow> bus_grows s s'"
  unfolding accounted_def by (drule spec [of _ s]) simp

lemma accounted_bnd [simp, intro!]:
  assumes "accounted m" and "\<And>x. accounted (f x)"
  shows "accounted (bnd m f)"
  unfolding accounted_def
proof
  fix s
  show "case bnd m f s of Inl (e, s') \<Rightarrow> bus_grows s s' | Inr (x, s') \<Rightarrow> bus_grows s s'"
  proof (cases "m s")
    case (Inl es)
    obtain e t where "es = (e, t)" by (cases es)
    with Inl show ?thesis
      using accounted_Inl [OF assms(1)] by (simp add: bnd_def)
  next
    case (Inr xs)
    obtain x t where xs: "xs = (x, t)" by (cases xs)
    have st: "bus_grows s t"
      using accounted_Inr [OF assms(1)] Inr xs by simp
    show ?thesis
    proof (cases "f x t")
      case (Inl es)
      obtain e u where "es = (e, u)" by (cases es)
      with Inl Inr xs st show ?thesis
        using accounted_Inl [OF assms(2)] by (auto simp: bnd_def intro: bus_grows_trans)
    next
      case (Inr ys)
      obtain y u where "ys = (y, u)" by (cases ys)
      with Inr \<open>m s = Inr xs\<close> xs st show ?thesis
        using accounted_Inr [OF assms(2)] by (auto simp: bnd_def intro: bus_grows_trans)
    qed
  qed
qed

lemma accounted_thn [simp, intro!]: "accounted m \<Longrightarrow> accounted n \<Longrightarrow> accounted (thn m n)"
  by (simp add: thn_def)

lemma bus_grows_update [simp]:
  "bus_grows s (s\<lparr>pc := v1\<rparr>)" "bus_grows s (s\<lparr>sr := v2\<rparr>)" "bus_grows s (s\<lparr>ar := v3\<rparr>)"
  "bus_grows s (s\<lparr>xr := v4\<rparr>)" "bus_grows s (s\<lparr>yr := v5\<rparr>)" "bus_grows s (s\<lparr>sp := v6\<rparr>)"
  "bus_grows s (s\<lparr>addr := v7\<rparr>)" "bus_grows s (s\<lparr>op := v8\<rparr>)" "bus_grows s (s\<lparr>sync := v9\<rparr>)"
  "bus_grows s (s\<lparr>stop := v10\<rparr>)" "bus_grows s (s\<lparr>wait := True\<rparr>)"
  by (simp_all add: bus_grows_def)

lemma accounted_readByte [simp, intro!]: "accounted (readByte a)"
  by (auto simp: accounted_def readByte_def Let_def bus_grows_def is_access_def
           split: option.splits prod.splits)

lemma accounted_writeByte [simp, intro!]: "accounted (writeByte a v)"
  by (auto simp: accounted_def writeByte_def Let_def bus_grows_def is_access_def
           split: option.splits prod.splits)

lemma accounted_setFlag [simp, intro!]: "accounted (setFlag f on)"
  by (simp add: setFlag_def Let_def split: prod.splits)

lemma accounted_testNZ [simp, intro!]: "accounted (testNZ val)"
  by (simp add: testNZ_def Let_def split: prod.splits)

lemma accounted_testZ [simp, intro!]: "accounted (testZ val)"
  by (simp add: testZ_def Let_def split: prod.splits)

lemma accounted_readBytePC [simp, intro!]: "accounted readBytePC"
  by (simp add: readBytePC_def Let_def split: prod.splits)

lemma accounted_readWord [simp, intro!]: "accounted (readWord a)"
  by (simp add: readWord_def Let_def split: prod.splits)

lemma accounted_readWordPC [simp, intro!]: "accounted readWordPC"
  by (simp add: readWordPC_def Let_def split: prod.splits)

lemma accounted_readZPWord [simp, intro!]: "accounted (readZPWord a)"
  by (simp add: readZPWord_def Let_def split: prod.splits)

lemma accounted_pushByte [simp, intro!]: "accounted (pushByte val)"
  by (simp add: pushByte_def Let_def split: prod.splits)

lemma accounted_pushWord [simp, intro!]: "accounted (pushWord val)"
  by (simp add: pushWord_def Let_def split: prod.splits)

lemma accounted_pullByte [simp, intro!]: "accounted pullByte"
  by (simp add: pullByte_def Let_def split: prod.splits)

lemma accounted_pullWordRaw [simp, intro!]: "accounted pullWordRaw"
  by (simp add: pullWordRaw_def Let_def split: prod.splits)

lemma accounted_updateBCDFlags [simp, intro!]: "accounted (updateBCDFlags sub c nvz)"
  by (simp add: updateBCDFlags_def Let_def split: prod.splits)

lemma accounted_add [simp, intro!]: "accounted (add a b sub)"
  by (simp add: add_def Let_def split: prod.splits)

lemma accounted_increment [simp, intro!]: "accounted (increment a)"
  by (simp add: increment_def Let_def split: prod.splits)

lemma accounted_decrement [simp, intro!]: "accounted (decrement a)"
  by (simp add: decrement_def Let_def split: prod.splits)

lemma accounted_workCycle [simp, intro!]: "accounted (workCycle a val)"
  by (simp add: workCycle_def Let_def split: prod.splits)

lemma accounted_workCycleIndexedWrite [simp, intro!]: "accounted (workCycleIndexedWrite pc0 a addrIdx)"
  by (simp add: workCycleIndexedWrite_def Let_def split: prod.splits)

lemma accounted_workCycleIndexedRead [simp, intro!]: "accounted (workCycleIndexedRead pc0 a addrIdx)"
  by (simp add: workCycleIndexedRead_def Let_def split: prod.splits)

lemma accounted_implied [simp, intro!]: "accounted implied"
  by (simp add: implied_def Let_def split: prod.splits)

lemma accounted_readImmediate [simp, intro!]: "accounted readImmediate"
  by (simp add: readImmediate_def Let_def split: prod.splits)

lemma accounted_readAbsolute [simp, intro!]: "accounted readAbsolute"
  by (simp add: readAbsolute_def Let_def split: prod.splits)

lemma accounted_readZeroPage [simp, intro!]: "accounted readZeroPage"
  by (simp add: readZeroPage_def Let_def split: prod.splits)

lemma accounted_readAbsoluteX [simp, intro!]: "accounted readAbsoluteX"
  by (simp add: readAbsoluteX_def Let_def split: prod.splits)

lemma accounted_readAbsoluteY [simp, intro!]: "accounted readAbsoluteY"
  by (simp add: readAbsoluteY_def Let_def split: prod.splits)

lemma accounted_readZeroPageX [simp, intro!]: "accounted readZeroPageX"
  by (simp add: readZeroPageX_def Let_def split: prod.splits)

lemma accounted_readZeroPageY [simp, intro!]: "accounted readZeroPageY"
  by (simp add: readZeroPageY_def Let_def split: prod.splits)

lemma accounted_readZeroPageXIndirect [simp, intro!]: "accounted readZeroPageXIndirect"
  by (simp add: readZeroPageXIndirect_def Let_def split: prod.splits)

lemma accounted_readZeroPageIndirectY [simp, intro!]: "accounted readZeroPageIndirectY"
  by (simp add: readZeroPageIndirectY_def Let_def split: prod.splits)

lemma accounted_readZeroPageIndirect [simp, intro!]: "accounted readZeroPageIndirect"
  by (simp add: readZeroPageIndirect_def Let_def split: prod.splits)

lemma accounted_writeAbsolute [simp, intro!]: "accounted (writeAbsolute val)"
  by (simp add: writeAbsolute_def Let_def split: prod.splits)

lemma accounted_writeZeroPage [simp, intro!]: "accounted (writeZeroPage val)"
  by (simp add: writeZeroPage_def Let_def split: prod.splits)

lemma accounted_writeAbsoluteX [simp, intro!]: "accounted (writeAbsoluteX val)"
  by (simp add: writeAbsoluteX_def Let_def split: prod.splits)

lemma accounted_writeAbsoluteY [simp, intro!]: "accounted (writeAbsoluteY val)"
  by (simp add: writeAbsoluteY_def Let_def split: prod.splits)

lemma accounted_writeZeroPageX [simp, intro!]: "accounted (writeZeroPageX val)"
  by (simp add: writeZeroPageX_def Let_def split: prod.splits)

lemma accounted_writeZeroPageY [simp, intro!]: "accounted (writeZeroPageY val)"
  by (simp add: writeZeroPageY_def Let_def split: prod.splits)

lemma accounted_writeZeroPageXIndirect [simp, intro!]: "accounted (writeZeroPageXIndirect val)"
  by (simp add: writeZeroPageXIndirect_def Let_def split: prod.splits)

lemma accounted_writeZeroPageIndirectY [simp, intro!]: "accounted (writeZeroPageIndirectY val)"
  by (simp add: writeZeroPageIndirectY_def Let_def split: prod.splits)

lemma accounted_writeZeroPageIndirect [simp, intro!]: "accounted (writeZeroPageIndirect val)"
  by (simp add: writeZeroPageIndirect_def Let_def split: prod.splits)

lemma accounted_readAddrZeroPage [simp, intro!]: "accounted (readAddrZeroPage opts)"
  by (simp add: readAddrZeroPage_def Let_def split: prod.splits)

lemma accounted_readAddrZeroPageX [simp, intro!]: "accounted (readAddrZeroPageX opts)"
  by (simp add: readAddrZeroPageX_def Let_def split: prod.splits)

lemma accounted_readAddrAbsolute [simp, intro!]: "accounted (readAddrAbsolute opts)"
  by (simp add: readAddrAbsolute_def Let_def split: prod.splits)

lemma accounted_readAddrAbsoluteIndirectBug [simp, intro!]: "accounted (readAddrAbsoluteIndirectBug opts)"
  by (simp add: readAddrAbsoluteIndirectBug_def Let_def split: prod.splits)

lemma accounted_readAddrAbsoluteIndirect [simp, intro!]: "accounted (readAddrAbsoluteIndirect opts)"
  by (simp add: readAddrAbsoluteIndirect_def Let_def split: prod.splits)

lemma accounted_readAddrAbsoluteX [simp, intro!]: "accounted (readAddrAbsoluteX opts)"
  by (simp add: readAddrAbsoluteX_def Let_def split: prod.splits)

lemma accounted_readAddrAbsoluteY [simp, intro!]: "accounted (readAddrAbsoluteY opts)"
  by (simp add: readAddrAbsoluteY_def Let_def split: prod.splits)

lemma accounted_readAddrZeroPageXIndirect [simp, intro!]: "accounted (readAddrZeroPageXIndirect opts)"
  by (simp add: readAddrZeroPageXIndirect_def Let_def split: prod.splits)

lemma accounted_readAddrZeroPageIndirectY [simp, intro!]: "accounted (readAddrZeroPageIndirectY opts)"
  by (simp add: readAddrZeroPageIndirectY_def Let_def split: prod.splits)

lemma accounted_readAddrAbsoluteXIndirect [simp, intro!]: "accounted (readAddrAbsoluteXIndirect opts)"
  by (simp add: readAddrAbsoluteXIndirect_def Let_def split: prod.splits)

lemma accounted_readNop [simp, intro!]: "accounted readNop"
  by (simp add: readNop_def Let_def split: prod.splits)

lemma accounted_readNopImplied [simp, intro!]: "accounted readNopImplied"
  by (simp add: readNopImplied_def Let_def split: prod.splits)

lemma accounted_brk [simp, intro!]: "accounted readFn \<Longrightarrow> accounted (brk readFn)"
  by (simp add: brk_def Let_def split: prod.splits)

lemma accounted_stp [simp, intro!]: "accounted stp"
  by (simp add: stp_def Let_def split: prod.splits)

lemma accounted_wai [simp, intro!]: "accounted wai"
  by (simp add: wai_def Let_def split: prod.splits)

lemma accounted_lda [simp, intro!]: "accounted readFn \<Longrightarrow> accounted (lda readFn)"
  by (simp add: lda_def Let_def split: prod.splits)

lemma accounted_ldx [simp, intro!]: "accounted readFn \<Longrightarrow> accounted (ldx readFn)"
  by (simp add: ldx_def Let_def split: prod.splits)

lemma accounted_ldy [simp, intro!]: "accounted readFn \<Longrightarrow> accounted (ldy readFn)"
  by (simp add: ldy_def Let_def split: prod.splits)

lemma accounted_sta [simp, intro!]: "(\<And>v. accounted (writeFn v)) \<Longrightarrow> accounted (sta writeFn)"
  by (simp add: sta_def Let_def split: prod.splits)

lemma accounted_stx [simp, intro!]: "(\<And>v. accounted (writeFn v)) \<Longrightarrow> accounted (stx writeFn)"
  by (simp add: stx_def Let_def split: prod.splits)

lemma accounted_sty [simp, intro!]: "(\<And>v. accounted (writeFn v)) \<Longrightarrow> accounted (sty writeFn)"
  by (simp add: sty_def Let_def split: prod.splits)

lemma accounted_stz [simp, intro!]: "(\<And>v. accounted (writeFn v)) \<Longrightarrow> accounted (stz writeFn)"
  by (simp add: stz_def Let_def split: prod.splits)

lemma accounted_adc [simp, intro!]: "accounted readFn \<Longrightarrow> accounted (adc readFn)"
  by (simp add: adc_def Let_def split: prod.splits)

lemma accounted_sbc [simp, intro!]: "accounted readFn \<Longrightarrow> accounted (sbc readFn)"
  by (simp add: sbc_def Let_def split: prod.splits)

lemma accounted_incA [simp, intro!]: "accounted incA"
  by (simp add: incA_def Let_def split: prod.splits)

lemma accounted_inc [simp, intro!]: "(\<And>v. accounted (readAddrFn v)) \<Longrightarrow> accounted (inc readAddrFn)"
  by (simp add: inc_def Let_def split: prod.splits)

lemma accounted_inx [simp, intro!]: "accounted inx"
  by (simp add: inx_def Let_def split: prod.splits)

lemma accounted_iny [simp, intro!]: "accounted iny"
  by (simp add: iny_def Let_def split: prod.splits)

lemma accounted_decA [simp, intro!]: "accounted decA"
  by (simp add: decA_def Let_def split: prod.splits)

lemma accounted_dec [simp, intro!]: "(\<And>v. accounted (readAddrFn v)) \<Longrightarrow> accounted (dec readAddrFn)"
  by (simp add: dec_def Let_def split: prod.splits)

lemma accounted_dex [simp, intro!]: "accounted dex"
  by (simp add: dex_def Let_def split: prod.splits)

lemma accounted_dey [simp, intro!]: "accounted dey"
  by (simp add: dey_def Let_def split: prod.splits)

lemma accounted_shiftLeft [simp, intro!]: "accounted (shiftLeft val)"
  by (simp add: shiftLeft_def Let_def split: prod.splits)

lemma accounted_aslA [simp, intro!]: "accounted aslA"
  by (simp add: aslA_def Let_def split: prod.splits)

lemma accounted_asl [simp, intro!]: "(\<And>v. accounted (readAddrFn v)) \<Longrightarrow> accounted (asl readAddrFn)"
  by (simp add: asl_def Let_def split: prod.splits)

lemma accounted_shiftRight [simp, intro!]: "accounted (shiftRight val)"
  by (simp add: shiftRight_def Let_def split: prod.splits)

lemma accounted_lsrA [simp, intro!]: "accounted lsrA"
  by (simp add: lsrA_def Let_def split: prod.splits)

lemma accounted_lsr [simp, intro!]: "(\<And>v. accounted (readAddrFn v)) \<Longrightarrow> accounted (lsr readAddrFn)"
  by (simp add: lsr_def Let_def split: prod.splits)

lemma accounted_rotateLeft [simp, intro!]: "accounted (rotateLeft val)"
  by (simp add: rotateLeft_def Let_def split: prod.splits)

lemma accounted_rolA [simp, intro!]: "accounted rolA"
  by (simp add: rolA_def Let_def split: prod.splits)

lemma accounted_rol [simp, intro!]: "(\<And>v. accounted (readAddrFn v)) \<Longrightarrow> accounted (rol readAddrFn)"
  by (simp add: rol_def Let_def split: prod.splits)

lemma accounted_rotateRight [simp, intro!]: "accounted (rotateRight a)"
  by (simp add: rotateRight_def Let_def split: prod.splits)

lemma accounted_rorA [simp, intro!]: "accounted rorA"
  by (simp add: rorA_def Let_def split: prod.splits)

lemma accounted_ror [simp, intro!]: "(\<And>v. accounted (readAddrFn v)) \<Longrightarrow> accounted (ror readAddrFn)"
  by (simp add: ror_def Let_def split: prod.splits)

lemma accounted_and_op [simp, intro!]: "accounted readFn \<Longrightarrow> accounted (and_op readFn)"
  by (simp add: and_op_def Let_def split: prod.splits)

lemma accounted_ora [simp, intro!]: "accounted readFn \<Longrightarrow> accounted (ora readFn)"
  by (simp add: ora_def Let_def split: prod.splits)

lemma accounted_eor [simp, intro!]: "accounted readFn \<Longrightarrow> accounted (eor readFn)"
  by (simp add: eor_def Let_def split: prod.splits)

lemma accounted_rmb [simp, intro!]: "accounted (rmb b)"
  by (simp add: rmb_def Let_def split: prod.splits)

lemma accounted_smb [simp, intro!]: "accounted (smb b)"
  by (simp add: smb_def Let_def split: prod.splits)

lemma accounted_trb [simp, intro!]: "(\<And>v. accounted (readAddrFn v)) \<Longrightarrow> accounted (trb readAddrFn)"
  by (simp add: trb_def Let_def split: prod.splits)

lemma accounted_tsb [simp, intro!]: "(\<And>v. accounted (readAddrFn v)) \<Longrightarrow> accounted (tsb readAddrFn)"
  by (simp add: tsb_def Let_def split: prod.splits)

lemma accounted_bit_op [simp, intro!]: "accounted readFn \<Longrightarrow> accounted (bit_op readFn)"
  by (simp add: bit_op_def Let_def split: prod.splits)

lemma accounted_bitI [simp, intro!]: "accounted readFn \<Longrightarrow> accounted (bitI readFn)"
  by (simp add: bitI_def Let_def split: prod.splits)

lemma accounted_compare [simp, intro!]: "accounted (compare a b0)"
  by (simp add: compare_def Let_def split: prod.splits)

lemma accounted_cmp [simp, intro!]: "accounted readFn \<Longrightarrow> accounted (cmp readFn)"
  by (simp add: cmp_def Let_def split: prod.splits)

lemma accounted_cpx [simp, intro!]: "accounted readFn \<Longrightarrow> accounted (cpx readFn)"
  by (simp add: cpx_def Let_def split: prod.splits)

lemma accounted_cpy [simp, intro!]: "accounted readFn \<Longrightarrow> accounted (cpy readFn)"
  by (simp add: cpy_def Let_def split: prod.splits)

lemma accounted_branch_taken [simp, intro!]: "accounted (branch_taken off)"
  by (simp add: branch_taken_def Let_def split: prod.splits)

lemma accounted_brs [simp, intro!]: "accounted (brs f)"
  by (simp add: brs_def Let_def split: prod.splits)

lemma accounted_brc [simp, intro!]: "accounted (brc f)"
  by (simp add: brc_def Let_def split: prod.splits)

lemma accounted_bbr [simp, intro!]: "accounted (bbr b)"
  by (simp add: bbr_def Let_def split: prod.splits)

lemma accounted_bbs [simp, intro!]: "accounted (bbs b)"
  by (simp add: bbs_def Let_def split: prod.splits)

lemma accounted_tax [simp, intro!]: "accounted tax"
  by (simp add: tax_def Let_def split: prod.splits)

lemma accounted_txa [simp, intro!]: "accounted txa"
  by (simp add: txa_def Let_def split: prod.splits)

lemma accounted_tay [simp, intro!]: "accounted tay"
  by (simp add: tay_def Let_def split: prod.splits)

lemma accounted_tya [simp, intro!]: "accounted tya"
  by (simp add: tya_def Let_def split: prod.splits)

lemma accounted_tsx [simp, intro!]: "accounted tsx"
  by (simp add: tsx_def Let_def split: prod.splits)

lemma accounted_txs [simp, intro!]: "accounted txs"
  by (simp add: txs_def Let_def split: prod.splits)

lemma accounted_pha [simp, intro!]: "accounted pha"
  by (simp add: pha_def Let_def split: prod.splits)

lemma accounted_pla [simp, intro!]: "accounted pla"
  by (simp add: pla_def Let_def split: prod.splits)

lemma accounted_phx [simp, intro!]: "accounted phx"
  by (simp add: phx_def Let_def split: prod.splits)

lemma accounted_plx [simp, intro!]: "accounted plx"
  by (simp add: plx_def Let_def split: prod.splits)

lemma accounted_phy [simp, intro!]: "accounted phy"
  by (simp add: phy_def Let_def split: prod.splits)

lemma accounted_ply [simp, intro!]: "accounted ply"
  by (simp add: ply_def Let_def split: prod.splits)

lemma accounted_php [simp, intro!]: "accounted php"
  by (simp add: php_def Let_def split: prod.splits)

lemma accounted_plp [simp, intro!]: "accounted plp"
  by (simp add: plp_def Let_def split: prod.splits)

lemma accounted_jmp [simp, intro!]: "(\<And>v. accounted (readAddrFn v)) \<Longrightarrow> accounted (jmp readAddrFn)"
  by (simp add: jmp_def Let_def split: prod.splits)

lemma accounted_jsr [simp, intro!]: "accounted jsr"
  by (simp add: jsr_def Let_def split: prod.splits)

lemma accounted_rts [simp, intro!]: "accounted rts"
  by (simp add: rts_def Let_def split: prod.splits)

lemma accounted_rti [simp, intro!]: "accounted rti"
  by (simp add: rti_def Let_def split: prod.splits)

lemma accounted_set_op [simp, intro!]: "accounted (set_op flag)"
  by (simp add: set_op_def Let_def split: prod.splits)

lemma accounted_clr [simp, intro!]: "accounted (clr flag)"
  by (simp add: clr_def Let_def split: prod.splits)

lemma accounted_nop [simp, intro!]: "accounted readFn \<Longrightarrow> accounted (nop readFn)"
  by (simp add: nop_def Let_def split: prod.splits)

lemma accounted_aso [simp, intro!]: "(\<And>v. accounted (readAddrFn v)) \<Longrightarrow> accounted (aso readAddrFn)"
  by (simp add: aso_def Let_def split: prod.splits)

lemma accounted_rla [simp, intro!]: "(\<And>v. accounted (readAddrFn v)) \<Longrightarrow> accounted (rla readAddrFn)"
  by (simp add: rla_def Let_def split: prod.splits)

lemma accounted_lse [simp, intro!]: "(\<And>v. accounted (readAddrFn v)) \<Longrightarrow> accounted (lse readAddrFn)"
  by (simp add: lse_def Let_def split: prod.splits)

lemma accounted_rra [simp, intro!]: "(\<And>v. accounted (readAddrFn v)) \<Longrightarrow> accounted (rra readAddrFn)"
  by (simp add: rra_def Let_def split: prod.splits)

lemma accounted_axs [simp, intro!]: "(\<And>v. accounted (writeFn v)) \<Longrightarrow> accounted (axs writeFn)"
  by (simp add: axs_def Let_def split: prod.splits)

lemma accounted_lax [simp, intro!]: "accounted readFn \<Longrightarrow> accounted (lax readFn)"
  by (simp add: lax_def Let_def split: prod.splits)

lemma accounted_dcm [simp, intro!]: "(\<And>v. accounted (readAddrFn v)) \<Longrightarrow> accounted (dcm readAddrFn)"
  by (simp add: dcm_def Let_def split: prod.splits)

lemma accounted_ins [simp, intro!]: "(\<And>v. accounted (readAddrFn v)) \<Longrightarrow> accounted (ins readAddrFn)"
  by (simp add: ins_def Let_def split: prod.splits)

lemma accounted_alr [simp, intro!]: "accounted readFn \<Longrightarrow> accounted (alr readFn)"
  by (simp add: alr_def Let_def split: prod.splits)

lemma accounted_arr [simp, intro!]: "accounted readFn \<Longrightarrow> accounted (arr readFn)"
  by (simp add: arr_def Let_def split: prod.splits)

lemma accounted_xaa [simp, intro!]: "accounted readFn \<Longrightarrow> accounted (xaa readFn)"
  by (simp add: xaa_def Let_def split: prod.splits)

lemma accounted_oal [simp, intro!]: "accounted readFn \<Longrightarrow> accounted (oal readFn)"
  by (simp add: oal_def Let_def split: prod.splits)

lemma accounted_sax [simp, intro!]: "accounted readFn \<Longrightarrow> accounted (sax readFn)"
  by (simp add: sax_def Let_def split: prod.splits)

lemma accounted_tas [simp, intro!]: "(\<And>v. accounted (readAddrFn v)) \<Longrightarrow> accounted (tas readAddrFn)"
  by (simp add: tas_def Let_def split: prod.splits)

lemma accounted_say [simp, intro!]: "(\<And>v. accounted (readAddrFn v)) \<Longrightarrow> accounted (say readAddrFn)"
  by (simp add: say_def Let_def split: prod.splits)

lemma accounted_xas [simp, intro!]: "(\<And>v. accounted (readAddrFn v)) \<Longrightarrow> accounted (xas readAddrFn)"
  by (simp add: xas_def Let_def split: prod.splits)

lemma accounted_axa [simp, intro!]: "(\<And>v. accounted (readAddrFn v)) \<Longrightarrow> accounted (axa readAddrFn)"
  by (simp add: axa_def Let_def split: prod.splits)

lemma accounted_anc [simp, intro!]: "accounted readFn \<Longrightarrow> accounted (anc readFn)"
  by (simp add: anc_def Let_def split: prod.splits)

lemma accounted_las [simp, intro!]: "accounted readFn \<Longrightarrow> accounted (las readFn)"
  by (simp add: las_def Let_def split: prod.splits)

lemma accounted_skp [simp, intro!]: "accounted readFn \<Longrightarrow> accounted (skp readFn)"
  by (simp add: skp_def Let_def split: prod.splits)

lemma accounted_hlt [simp, intro!]: "accounted impliedFn \<Longrightarrow> accounted (hlt impliedFn)"
  by (simp add: hlt_def Let_def split: prod.splits)

lemma accounted_OPS_6502: "\<forall>e \<in> set OPS_6502. accounted (fn (snd e))"
  by (simp add: OPS_6502_def)

lemma accounted_OPS_65C02: "\<forall>e \<in> set OPS_65C02. accounted (fn (snd e))"
  by (simp add: OPS_65C02_def)

lemma accounted_OPS_NMOS_6502: "\<forall>e \<in> set OPS_NMOS_6502. accounted (fn (snd e))"
  by (simp add: OPS_NMOS_6502_def)

lemma accounted_OPS_ROCKWELL_65C02: "\<forall>e \<in> set OPS_ROCKWELL_65C02. accounted (fn (snd e))"
  by (simp add: OPS_ROCKWELL_65C02_def)

lemma accounted_OPS_WDC_65C02: "\<forall>e \<in> set OPS_WDC_65C02. accounted (fn (snd e))"
  by (simp add: OPS_WDC_65C02_def)

lemma accounted_map_of:
  assumes "\<forall>e \<in> set tab. accounted (fn (snd e))" and "map_of tab b = Some i"
  shows "accounted (fn i)"
proof -
  have "(b, i) \<in> set tab"
    using assms(2) by (rule map_of_SomeD)
  with assms(1) have "accounted (fn (snd (b, i)))"
    by (rule bspec)
  then show ?thesis by simp
qed

lemma accounted_compose_ops:
  assumes "compose_ops class_tables fl b = Some i"
  shows "accounted (fn i)"
proof (cases fl)
  case FLAVOR_6502
  with assms consider "map_of OPS_6502 b = Some i" | "map_of OPS_NMOS_6502 b = Some i"
    by (auto simp: compose_ops_def class_tables_def map_add_Some_iff)
  then show ?thesis
    by cases (erule accounted_map_of [OF accounted_OPS_6502]
                    accounted_map_of [OF accounted_OPS_NMOS_6502])+
next
  case FLAVOR_ROCKWELL_65C02
  with assms consider "map_of OPS_6502 b = Some i" | "map_of OPS_65C02 b = Some i"
    | "map_of OPS_ROCKWELL_65C02 b = Some i"
    by (auto simp: compose_ops_def class_tables_def map_add_Some_iff)
  then show ?thesis
    by cases (erule accounted_map_of [OF accounted_OPS_6502]
                    accounted_map_of [OF accounted_OPS_65C02]
                    accounted_map_of [OF accounted_OPS_ROCKWELL_65C02])+
next
  case FLAVOR_WDC_65C02
  with assms consider "map_of OPS_6502 b = Some i" | "map_of OPS_65C02 b = Some i"
    | "map_of OPS_WDC_65C02 b = Some i"
    by (auto simp: compose_ops_def class_tables_def map_add_Some_iff)
  then show ?thesis
    by cases (erule accounted_map_of [OF accounted_OPS_6502]
                    accounted_map_of [OF accounted_OPS_65C02]
                    accounted_map_of [OF accounted_OPS_WDC_65C02])+
qed

lemma accounted_NOP_implied: "accounted (fn NOP_implied)"
  by (simp add: NOP_implied_def)

lemma accounted_opary_at:
  fixes i :: "'m Instruction"
  assumes "opary_at fl b = Some i"
  shows "accounted (fn i)"
proof (cases "0 \<le> b \<and> b < 256")
  case True
  then have i: "i = (case compose_ops class_tables fl b of Some j \<Rightarrow> j | None \<Rightarrow> NOP_implied)"
    using assms by (simp add: opary_at_class)
  show ?thesis
  proof (cases "compose_ops (class_tables :: 'm OpTables) fl b")
    case None
    with i show ?thesis by (simp add: accounted_NOP_implied)
  next
    case (Some j)
    with i show ?thesis using accounted_compose_ops [OF Some] by simp
  qed
next
  case False
  then have "opary_at fl b = (None :: 'm Instruction option)"
    by (intro opary_at_outside) auto
  with assms show ?thesis by simp
qed

lemma accounted_fetch_execute: "accounted fetch_execute"
  unfolding fetch_execute_def Let_def
  by (intro accounted_thn accounted_bnd accounted_readBytePC accounted_get)
     (auto simp: accounted_opary_at split: option.splits)

section \<open>No method of the instruction set reads the wait latch\<close>

lemma ignores_wait_ret [simp, intro!]: "ignores_wait (ret x)"
  by (simp add: ignores_wait_def)

lemma ignores_wait_throw [simp, intro!]: "ignores_wait (throw e)"
  by (simp add: ignores_wait_def)

lemma ignores_wait_get [simp]: "ignores_wait (get g) = (\<forall>s. g (s\<lparr>wait := True\<rparr>) = g s)"
  by (simp add: ignores_wait_def)

lemma ignores_wait_upd [simp]:
  "ignores_wait (upd g) = (\<forall>s. g (s\<lparr>wait := True\<rparr>) = (g s)\<lparr>wait := True\<rparr>)"
  by (simp add: ignores_wait_def)

lemma ignores_wait_bnd [simp, intro!]:
  assumes "ignores_wait m" and "\<And>x. ignores_wait (f x)"
  shows "ignores_wait (bnd m f)"
  unfolding ignores_wait_def
proof
  fix s
  have m: "m (s\<lparr>wait := True\<rparr>) =
          (case m s of Inl (e, s') \<Rightarrow> Inl (e, s'\<lparr>wait := True\<rparr>)
                     | Inr (x, s') \<Rightarrow> Inr (x, s'\<lparr>wait := True\<rparr>))"
    using assms(1) unfolding ignores_wait_def by (rule spec)
  have f: "f x (t\<lparr>wait := True\<rparr>) =
          (case f x t of Inl (e, s') \<Rightarrow> Inl (e, s'\<lparr>wait := True\<rparr>)
                     | Inr (y, s') \<Rightarrow> Inr (y, s'\<lparr>wait := True\<rparr>))" for x t
    using assms(2) [of x] unfolding ignores_wait_def by (rule spec)
  show "bnd m f (s\<lparr>wait := True\<rparr>) =
          (case bnd m f s of Inl (e, s') \<Rightarrow> Inl (e, s'\<lparr>wait := True\<rparr>)
                     | Inr (x, s') \<Rightarrow> Inr (x, s'\<lparr>wait := True\<rparr>))"
    by (simp add: bnd_def m f split: sum.splits prod.splits)
qed

lemma ignores_wait_thn [simp, intro!]: "ignores_wait m \<Longrightarrow> ignores_wait n \<Longrightarrow> ignores_wait (thn m n)"
  by (simp add: thn_def)

lemma ignores_wait_readByte [simp, intro!]: "ignores_wait (readByte a)"
  by (simp add: ignores_wait_def readByte_def Let_def run split: option.splits prod.splits)

lemma ignores_wait_writeByte [simp, intro!]: "ignores_wait (writeByte a v)"
  by (simp add: ignores_wait_def writeByte_def Let_def run split: option.splits prod.splits)

lemma ignores_wait_setFlag [simp, intro!]: "ignores_wait (setFlag f on)"
  by (simp add: setFlag_def Let_def split: prod.splits)

lemma ignores_wait_testNZ [simp, intro!]: "ignores_wait (testNZ val)"
  by (simp add: testNZ_def Let_def split: prod.splits)

lemma ignores_wait_testZ [simp, intro!]: "ignores_wait (testZ val)"
  by (simp add: testZ_def Let_def split: prod.splits)

lemma ignores_wait_readBytePC [simp, intro!]: "ignores_wait readBytePC"
  by (simp add: readBytePC_def Let_def split: prod.splits)

lemma ignores_wait_readWord [simp, intro!]: "ignores_wait (readWord a)"
  by (simp add: readWord_def Let_def split: prod.splits)

lemma ignores_wait_readWordPC [simp, intro!]: "ignores_wait readWordPC"
  by (simp add: readWordPC_def Let_def split: prod.splits)

lemma ignores_wait_readZPWord [simp, intro!]: "ignores_wait (readZPWord a)"
  by (simp add: readZPWord_def Let_def split: prod.splits)

lemma ignores_wait_pushByte [simp, intro!]: "ignores_wait (pushByte val)"
  by (simp add: pushByte_def Let_def split: prod.splits)

lemma ignores_wait_pushWord [simp, intro!]: "ignores_wait (pushWord val)"
  by (simp add: pushWord_def Let_def split: prod.splits)

lemma ignores_wait_pullByte [simp, intro!]: "ignores_wait pullByte"
  by (simp add: pullByte_def Let_def split: prod.splits)

lemma ignores_wait_pullWordRaw [simp, intro!]: "ignores_wait pullWordRaw"
  by (simp add: pullWordRaw_def Let_def split: prod.splits)

lemma ignores_wait_updateBCDFlags [simp, intro!]: "ignores_wait (updateBCDFlags sub c nvz)"
  by (simp add: updateBCDFlags_def Let_def split: prod.splits)

lemma ignores_wait_add [simp, intro!]: "ignores_wait (add a b sub)"
  by (simp add: add_def Let_def split: prod.splits)

lemma ignores_wait_increment [simp, intro!]: "ignores_wait (increment a)"
  by (simp add: increment_def Let_def split: prod.splits)

lemma ignores_wait_decrement [simp, intro!]: "ignores_wait (decrement a)"
  by (simp add: decrement_def Let_def split: prod.splits)

lemma ignores_wait_workCycle [simp, intro!]: "ignores_wait (workCycle a val)"
  by (simp add: workCycle_def Let_def split: prod.splits)

lemma ignores_wait_workCycleIndexedWrite [simp, intro!]: "ignores_wait (workCycleIndexedWrite pc0 a addrIdx)"
  by (simp add: workCycleIndexedWrite_def Let_def split: prod.splits)

lemma ignores_wait_workCycleIndexedRead [simp, intro!]: "ignores_wait (workCycleIndexedRead pc0 a addrIdx)"
  by (simp add: workCycleIndexedRead_def Let_def split: prod.splits)

lemma ignores_wait_implied [simp, intro!]: "ignores_wait implied"
  by (simp add: implied_def Let_def split: prod.splits)

lemma ignores_wait_readImmediate [simp, intro!]: "ignores_wait readImmediate"
  by (simp add: readImmediate_def Let_def split: prod.splits)

lemma ignores_wait_readAbsolute [simp, intro!]: "ignores_wait readAbsolute"
  by (simp add: readAbsolute_def Let_def split: prod.splits)

lemma ignores_wait_readZeroPage [simp, intro!]: "ignores_wait readZeroPage"
  by (simp add: readZeroPage_def Let_def split: prod.splits)

lemma ignores_wait_readAbsoluteX [simp, intro!]: "ignores_wait readAbsoluteX"
  by (simp add: readAbsoluteX_def Let_def split: prod.splits)

lemma ignores_wait_readAbsoluteY [simp, intro!]: "ignores_wait readAbsoluteY"
  by (simp add: readAbsoluteY_def Let_def split: prod.splits)

lemma ignores_wait_readZeroPageX [simp, intro!]: "ignores_wait readZeroPageX"
  by (simp add: readZeroPageX_def Let_def split: prod.splits)

lemma ignores_wait_readZeroPageY [simp, intro!]: "ignores_wait readZeroPageY"
  by (simp add: readZeroPageY_def Let_def split: prod.splits)

lemma ignores_wait_readZeroPageXIndirect [simp, intro!]: "ignores_wait readZeroPageXIndirect"
  by (simp add: readZeroPageXIndirect_def Let_def split: prod.splits)

lemma ignores_wait_readZeroPageIndirectY [simp, intro!]: "ignores_wait readZeroPageIndirectY"
  by (simp add: readZeroPageIndirectY_def Let_def split: prod.splits)

lemma ignores_wait_readZeroPageIndirect [simp, intro!]: "ignores_wait readZeroPageIndirect"
  by (simp add: readZeroPageIndirect_def Let_def split: prod.splits)

lemma ignores_wait_writeAbsolute [simp, intro!]: "ignores_wait (writeAbsolute val)"
  by (simp add: writeAbsolute_def Let_def split: prod.splits)

lemma ignores_wait_writeZeroPage [simp, intro!]: "ignores_wait (writeZeroPage val)"
  by (simp add: writeZeroPage_def Let_def split: prod.splits)

lemma ignores_wait_writeAbsoluteX [simp, intro!]: "ignores_wait (writeAbsoluteX val)"
  by (simp add: writeAbsoluteX_def Let_def split: prod.splits)

lemma ignores_wait_writeAbsoluteY [simp, intro!]: "ignores_wait (writeAbsoluteY val)"
  by (simp add: writeAbsoluteY_def Let_def split: prod.splits)

lemma ignores_wait_writeZeroPageX [simp, intro!]: "ignores_wait (writeZeroPageX val)"
  by (simp add: writeZeroPageX_def Let_def split: prod.splits)

lemma ignores_wait_writeZeroPageY [simp, intro!]: "ignores_wait (writeZeroPageY val)"
  by (simp add: writeZeroPageY_def Let_def split: prod.splits)

lemma ignores_wait_writeZeroPageXIndirect [simp, intro!]: "ignores_wait (writeZeroPageXIndirect val)"
  by (simp add: writeZeroPageXIndirect_def Let_def split: prod.splits)

lemma ignores_wait_writeZeroPageIndirectY [simp, intro!]: "ignores_wait (writeZeroPageIndirectY val)"
  by (simp add: writeZeroPageIndirectY_def Let_def split: prod.splits)

lemma ignores_wait_writeZeroPageIndirect [simp, intro!]: "ignores_wait (writeZeroPageIndirect val)"
  by (simp add: writeZeroPageIndirect_def Let_def split: prod.splits)

lemma ignores_wait_readAddrZeroPage [simp, intro!]: "ignores_wait (readAddrZeroPage opts)"
  by (simp add: readAddrZeroPage_def Let_def split: prod.splits)

lemma ignores_wait_readAddrZeroPageX [simp, intro!]: "ignores_wait (readAddrZeroPageX opts)"
  by (simp add: readAddrZeroPageX_def Let_def split: prod.splits)

lemma ignores_wait_readAddrAbsolute [simp, intro!]: "ignores_wait (readAddrAbsolute opts)"
  by (simp add: readAddrAbsolute_def Let_def split: prod.splits)

lemma ignores_wait_readAddrAbsoluteIndirectBug [simp, intro!]: "ignores_wait (readAddrAbsoluteIndirectBug opts)"
  by (simp add: readAddrAbsoluteIndirectBug_def Let_def split: prod.splits)

lemma ignores_wait_readAddrAbsoluteIndirect [simp, intro!]: "ignores_wait (readAddrAbsoluteIndirect opts)"
  by (simp add: readAddrAbsoluteIndirect_def Let_def split: prod.splits)

lemma ignores_wait_readAddrAbsoluteX [simp, intro!]: "ignores_wait (readAddrAbsoluteX opts)"
  by (simp add: readAddrAbsoluteX_def Let_def split: prod.splits)

lemma ignores_wait_readAddrAbsoluteY [simp, intro!]: "ignores_wait (readAddrAbsoluteY opts)"
  by (simp add: readAddrAbsoluteY_def Let_def split: prod.splits)

lemma ignores_wait_readAddrZeroPageXIndirect [simp, intro!]: "ignores_wait (readAddrZeroPageXIndirect opts)"
  by (simp add: readAddrZeroPageXIndirect_def Let_def split: prod.splits)

lemma ignores_wait_readAddrZeroPageIndirectY [simp, intro!]: "ignores_wait (readAddrZeroPageIndirectY opts)"
  by (simp add: readAddrZeroPageIndirectY_def Let_def split: prod.splits)

lemma ignores_wait_readAddrAbsoluteXIndirect [simp, intro!]: "ignores_wait (readAddrAbsoluteXIndirect opts)"
  by (simp add: readAddrAbsoluteXIndirect_def Let_def split: prod.splits)

lemma ignores_wait_readNop [simp, intro!]: "ignores_wait readNop"
  by (simp add: readNop_def Let_def split: prod.splits)

lemma ignores_wait_readNopImplied [simp, intro!]: "ignores_wait readNopImplied"
  by (simp add: readNopImplied_def Let_def split: prod.splits)

lemma ignores_wait_brk [simp, intro!]: "ignores_wait readFn \<Longrightarrow> ignores_wait (brk readFn)"
  by (simp add: brk_def Let_def split: prod.splits)

lemma ignores_wait_stp [simp, intro!]: "ignores_wait stp"
  by (simp add: stp_def Let_def split: prod.splits)

lemma ignores_wait_wai [simp, intro!]: "ignores_wait wai"
  by (simp add: wai_def Let_def split: prod.splits)

lemma ignores_wait_lda [simp, intro!]: "ignores_wait readFn \<Longrightarrow> ignores_wait (lda readFn)"
  by (simp add: lda_def Let_def split: prod.splits)

lemma ignores_wait_ldx [simp, intro!]: "ignores_wait readFn \<Longrightarrow> ignores_wait (ldx readFn)"
  by (simp add: ldx_def Let_def split: prod.splits)

lemma ignores_wait_ldy [simp, intro!]: "ignores_wait readFn \<Longrightarrow> ignores_wait (ldy readFn)"
  by (simp add: ldy_def Let_def split: prod.splits)

lemma ignores_wait_sta [simp, intro!]: "(\<And>v. ignores_wait (writeFn v)) \<Longrightarrow> ignores_wait (sta writeFn)"
  by (simp add: sta_def Let_def split: prod.splits)

lemma ignores_wait_stx [simp, intro!]: "(\<And>v. ignores_wait (writeFn v)) \<Longrightarrow> ignores_wait (stx writeFn)"
  by (simp add: stx_def Let_def split: prod.splits)

lemma ignores_wait_sty [simp, intro!]: "(\<And>v. ignores_wait (writeFn v)) \<Longrightarrow> ignores_wait (sty writeFn)"
  by (simp add: sty_def Let_def split: prod.splits)

lemma ignores_wait_stz [simp, intro!]: "(\<And>v. ignores_wait (writeFn v)) \<Longrightarrow> ignores_wait (stz writeFn)"
  by (simp add: stz_def Let_def split: prod.splits)

lemma ignores_wait_adc [simp, intro!]: "ignores_wait readFn \<Longrightarrow> ignores_wait (adc readFn)"
  by (simp add: adc_def Let_def split: prod.splits)

lemma ignores_wait_sbc [simp, intro!]: "ignores_wait readFn \<Longrightarrow> ignores_wait (sbc readFn)"
  by (simp add: sbc_def Let_def split: prod.splits)

lemma ignores_wait_incA [simp, intro!]: "ignores_wait incA"
  by (simp add: incA_def Let_def split: prod.splits)

lemma ignores_wait_inc [simp, intro!]: "(\<And>v. ignores_wait (readAddrFn v)) \<Longrightarrow> ignores_wait (inc readAddrFn)"
  by (simp add: inc_def Let_def split: prod.splits)

lemma ignores_wait_inx [simp, intro!]: "ignores_wait inx"
  by (simp add: inx_def Let_def split: prod.splits)

lemma ignores_wait_iny [simp, intro!]: "ignores_wait iny"
  by (simp add: iny_def Let_def split: prod.splits)

lemma ignores_wait_decA [simp, intro!]: "ignores_wait decA"
  by (simp add: decA_def Let_def split: prod.splits)

lemma ignores_wait_dec [simp, intro!]: "(\<And>v. ignores_wait (readAddrFn v)) \<Longrightarrow> ignores_wait (dec readAddrFn)"
  by (simp add: dec_def Let_def split: prod.splits)

lemma ignores_wait_dex [simp, intro!]: "ignores_wait dex"
  by (simp add: dex_def Let_def split: prod.splits)

lemma ignores_wait_dey [simp, intro!]: "ignores_wait dey"
  by (simp add: dey_def Let_def split: prod.splits)

lemma ignores_wait_shiftLeft [simp, intro!]: "ignores_wait (shiftLeft val)"
  by (simp add: shiftLeft_def Let_def split: prod.splits)

lemma ignores_wait_aslA [simp, intro!]: "ignores_wait aslA"
  by (simp add: aslA_def Let_def split: prod.splits)

lemma ignores_wait_asl [simp, intro!]: "(\<And>v. ignores_wait (readAddrFn v)) \<Longrightarrow> ignores_wait (asl readAddrFn)"
  by (simp add: asl_def Let_def split: prod.splits)

lemma ignores_wait_shiftRight [simp, intro!]: "ignores_wait (shiftRight val)"
  by (simp add: shiftRight_def Let_def split: prod.splits)

lemma ignores_wait_lsrA [simp, intro!]: "ignores_wait lsrA"
  by (simp add: lsrA_def Let_def split: prod.splits)

lemma ignores_wait_lsr [simp, intro!]: "(\<And>v. ignores_wait (readAddrFn v)) \<Longrightarrow> ignores_wait (lsr readAddrFn)"
  by (simp add: lsr_def Let_def split: prod.splits)

lemma ignores_wait_rotateLeft [simp, intro!]: "ignores_wait (rotateLeft val)"
  by (simp add: rotateLeft_def Let_def split: prod.splits)

lemma ignores_wait_rolA [simp, intro!]: "ignores_wait rolA"
  by (simp add: rolA_def Let_def split: prod.splits)

lemma ignores_wait_rol [simp, intro!]: "(\<And>v. ignores_wait (readAddrFn v)) \<Longrightarrow> ignores_wait (rol readAddrFn)"
  by (simp add: rol_def Let_def split: prod.splits)

lemma ignores_wait_rotateRight [simp, intro!]: "ignores_wait (rotateRight a)"
  by (simp add: rotateRight_def Let_def split: prod.splits)

lemma ignores_wait_rorA [simp, intro!]: "ignores_wait rorA"
  by (simp add: rorA_def Let_def split: prod.splits)

lemma ignores_wait_ror [simp, intro!]: "(\<And>v. ignores_wait (readAddrFn v)) \<Longrightarrow> ignores_wait (ror readAddrFn)"
  by (simp add: ror_def Let_def split: prod.splits)

lemma ignores_wait_and_op [simp, intro!]: "ignores_wait readFn \<Longrightarrow> ignores_wait (and_op readFn)"
  by (simp add: and_op_def Let_def split: prod.splits)

lemma ignores_wait_ora [simp, intro!]: "ignores_wait readFn \<Longrightarrow> ignores_wait (ora readFn)"
  by (simp add: ora_def Let_def split: prod.splits)

lemma ignores_wait_eor [simp, intro!]: "ignores_wait readFn \<Longrightarrow> ignores_wait (eor readFn)"
  by (simp add: eor_def Let_def split: prod.splits)

lemma ignores_wait_rmb [simp, intro!]: "ignores_wait (rmb b)"
  by (simp add: rmb_def Let_def split: prod.splits)

lemma ignores_wait_smb [simp, intro!]: "ignores_wait (smb b)"
  by (simp add: smb_def Let_def split: prod.splits)

lemma ignores_wait_trb [simp, intro!]: "(\<And>v. ignores_wait (readAddrFn v)) \<Longrightarrow> ignores_wait (trb readAddrFn)"
  by (simp add: trb_def Let_def split: prod.splits)

lemma ignores_wait_tsb [simp, intro!]: "(\<And>v. ignores_wait (readAddrFn v)) \<Longrightarrow> ignores_wait (tsb readAddrFn)"
  by (simp add: tsb_def Let_def split: prod.splits)

lemma ignores_wait_bit_op [simp, intro!]: "ignores_wait readFn \<Longrightarrow> ignores_wait (bit_op readFn)"
  by (simp add: bit_op_def Let_def split: prod.splits)

lemma ignores_wait_bitI [simp, intro!]: "ignores_wait readFn \<Longrightarrow> ignores_wait (bitI readFn)"
  by (simp add: bitI_def Let_def split: prod.splits)

lemma ignores_wait_compare [simp, intro!]: "ignores_wait (compare a b0)"
  by (simp add: compare_def Let_def split: prod.splits)

lemma ignores_wait_cmp [simp, intro!]: "ignores_wait readFn \<Longrightarrow> ignores_wait (cmp readFn)"
  by (simp add: cmp_def Let_def split: prod.splits)

lemma ignores_wait_cpx [simp, intro!]: "ignores_wait readFn \<Longrightarrow> ignores_wait (cpx readFn)"
  by (simp add: cpx_def Let_def split: prod.splits)

lemma ignores_wait_cpy [simp, intro!]: "ignores_wait readFn \<Longrightarrow> ignores_wait (cpy readFn)"
  by (simp add: cpy_def Let_def split: prod.splits)

lemma ignores_wait_branch_taken [simp, intro!]: "ignores_wait (branch_taken off)"
  by (simp add: branch_taken_def Let_def split: prod.splits)

lemma ignores_wait_brs [simp, intro!]: "ignores_wait (brs f)"
  by (simp add: brs_def Let_def split: prod.splits)

lemma ignores_wait_brc [simp, intro!]: "ignores_wait (brc f)"
  by (simp add: brc_def Let_def split: prod.splits)

lemma ignores_wait_bbr [simp, intro!]: "ignores_wait (bbr b)"
  by (simp add: bbr_def Let_def split: prod.splits)

lemma ignores_wait_bbs [simp, intro!]: "ignores_wait (bbs b)"
  by (simp add: bbs_def Let_def split: prod.splits)

lemma ignores_wait_tax [simp, intro!]: "ignores_wait tax"
  by (simp add: tax_def Let_def split: prod.splits)

lemma ignores_wait_txa [simp, intro!]: "ignores_wait txa"
  by (simp add: txa_def Let_def split: prod.splits)

lemma ignores_wait_tay [simp, intro!]: "ignores_wait tay"
  by (simp add: tay_def Let_def split: prod.splits)

lemma ignores_wait_tya [simp, intro!]: "ignores_wait tya"
  by (simp add: tya_def Let_def split: prod.splits)

lemma ignores_wait_tsx [simp, intro!]: "ignores_wait tsx"
  by (simp add: tsx_def Let_def split: prod.splits)

lemma ignores_wait_txs [simp, intro!]: "ignores_wait txs"
  by (simp add: txs_def Let_def split: prod.splits)

lemma ignores_wait_pha [simp, intro!]: "ignores_wait pha"
  by (simp add: pha_def Let_def split: prod.splits)

lemma ignores_wait_pla [simp, intro!]: "ignores_wait pla"
  by (simp add: pla_def Let_def split: prod.splits)

lemma ignores_wait_phx [simp, intro!]: "ignores_wait phx"
  by (simp add: phx_def Let_def split: prod.splits)

lemma ignores_wait_plx [simp, intro!]: "ignores_wait plx"
  by (simp add: plx_def Let_def split: prod.splits)

lemma ignores_wait_phy [simp, intro!]: "ignores_wait phy"
  by (simp add: phy_def Let_def split: prod.splits)

lemma ignores_wait_ply [simp, intro!]: "ignores_wait ply"
  by (simp add: ply_def Let_def split: prod.splits)

lemma ignores_wait_php [simp, intro!]: "ignores_wait php"
  by (simp add: php_def Let_def split: prod.splits)

lemma ignores_wait_plp [simp, intro!]: "ignores_wait plp"
  by (simp add: plp_def Let_def split: prod.splits)

lemma ignores_wait_jmp [simp, intro!]: "(\<And>v. ignores_wait (readAddrFn v)) \<Longrightarrow> ignores_wait (jmp readAddrFn)"
  by (simp add: jmp_def Let_def split: prod.splits)

lemma ignores_wait_jsr [simp, intro!]: "ignores_wait jsr"
  by (simp add: jsr_def Let_def split: prod.splits)

lemma ignores_wait_rts [simp, intro!]: "ignores_wait rts"
  by (simp add: rts_def Let_def split: prod.splits)

lemma ignores_wait_rti [simp, intro!]: "ignores_wait rti"
  by (simp add: rti_def Let_def split: prod.splits)

lemma ignores_wait_set_op [simp, intro!]: "ignores_wait (set_op flag)"
  by (simp add: set_op_def Let_def split: prod.splits)

lemma ignores_wait_clr [simp, intro!]: "ignores_wait (clr flag)"
  by (simp add: clr_def Let_def split: prod.splits)

lemma ignores_wait_nop [simp, intro!]: "ignores_wait readFn \<Longrightarrow> ignores_wait (nop readFn)"
  by (simp add: nop_def Let_def split: prod.splits)

lemma ignores_wait_aso [simp, intro!]: "(\<And>v. ignores_wait (readAddrFn v)) \<Longrightarrow> ignores_wait (aso readAddrFn)"
  by (simp add: aso_def Let_def split: prod.splits)

lemma ignores_wait_rla [simp, intro!]: "(\<And>v. ignores_wait (readAddrFn v)) \<Longrightarrow> ignores_wait (rla readAddrFn)"
  by (simp add: rla_def Let_def split: prod.splits)

lemma ignores_wait_lse [simp, intro!]: "(\<And>v. ignores_wait (readAddrFn v)) \<Longrightarrow> ignores_wait (lse readAddrFn)"
  by (simp add: lse_def Let_def split: prod.splits)

lemma ignores_wait_rra [simp, intro!]: "(\<And>v. ignores_wait (readAddrFn v)) \<Longrightarrow> ignores_wait (rra readAddrFn)"
  by (simp add: rra_def Let_def split: prod.splits)

lemma ignores_wait_axs [simp, intro!]: "(\<And>v. ignores_wait (writeFn v)) \<Longrightarrow> ignores_wait (axs writeFn)"
  by (simp add: axs_def Let_def split: prod.splits)

lemma ignores_wait_lax [simp, intro!]: "ignores_wait readFn \<Longrightarrow> ignores_wait (lax readFn)"
  by (simp add: lax_def Let_def split: prod.splits)

lemma ignores_wait_dcm [simp, intro!]: "(\<And>v. ignores_wait (readAddrFn v)) \<Longrightarrow> ignores_wait (dcm readAddrFn)"
  by (simp add: dcm_def Let_def split: prod.splits)

lemma ignores_wait_ins [simp, intro!]: "(\<And>v. ignores_wait (readAddrFn v)) \<Longrightarrow> ignores_wait (ins readAddrFn)"
  by (simp add: ins_def Let_def split: prod.splits)

lemma ignores_wait_alr [simp, intro!]: "ignores_wait readFn \<Longrightarrow> ignores_wait (alr readFn)"
  by (simp add: alr_def Let_def split: prod.splits)

lemma ignores_wait_arr [simp, intro!]: "ignores_wait readFn \<Longrightarrow> ignores_wait (arr readFn)"
  by (simp add: arr_def Let_def split: prod.splits)

lemma ignores_wait_xaa [simp, intro!]: "ignores_wait readFn \<Longrightarrow> ignores_wait (xaa readFn)"
  by (simp add: xaa_def Let_def split: prod.splits)

lemma ignores_wait_oal [simp, intro!]: "ignores_wait readFn \<Longrightarrow> ignores_wait (oal readFn)"
  by (simp add: oal_def Let_def split: prod.splits)

lemma ignores_wait_sax [simp, intro!]: "ignores_wait readFn \<Longrightarrow> ignores_wait (sax readFn)"
  by (simp add: sax_def Let_def split: prod.splits)

lemma ignores_wait_tas [simp, intro!]: "(\<And>v. ignores_wait (readAddrFn v)) \<Longrightarrow> ignores_wait (tas readAddrFn)"
  by (simp add: tas_def Let_def split: prod.splits)

lemma ignores_wait_say [simp, intro!]: "(\<And>v. ignores_wait (readAddrFn v)) \<Longrightarrow> ignores_wait (say readAddrFn)"
  by (simp add: say_def Let_def split: prod.splits)

lemma ignores_wait_xas [simp, intro!]: "(\<And>v. ignores_wait (readAddrFn v)) \<Longrightarrow> ignores_wait (xas readAddrFn)"
  by (simp add: xas_def Let_def split: prod.splits)

lemma ignores_wait_axa [simp, intro!]: "(\<And>v. ignores_wait (readAddrFn v)) \<Longrightarrow> ignores_wait (axa readAddrFn)"
  by (simp add: axa_def Let_def split: prod.splits)

lemma ignores_wait_anc [simp, intro!]: "ignores_wait readFn \<Longrightarrow> ignores_wait (anc readFn)"
  by (simp add: anc_def Let_def split: prod.splits)

lemma ignores_wait_las [simp, intro!]: "ignores_wait readFn \<Longrightarrow> ignores_wait (las readFn)"
  by (simp add: las_def Let_def split: prod.splits)

lemma ignores_wait_skp [simp, intro!]: "ignores_wait readFn \<Longrightarrow> ignores_wait (skp readFn)"
  by (simp add: skp_def Let_def split: prod.splits)

lemma ignores_wait_hlt [simp, intro!]: "ignores_wait impliedFn \<Longrightarrow> ignores_wait (hlt impliedFn)"
  by (simp add: hlt_def Let_def split: prod.splits)

lemma ignores_wait_OPS_6502: "\<forall>e \<in> set OPS_6502. ignores_wait (fn (snd e))"
  by (simp add: OPS_6502_def)

lemma ignores_wait_OPS_65C02: "\<forall>e \<in> set OPS_65C02. ignores_wait (fn (snd e))"
  by (simp add: OPS_65C02_def)

lemma ignores_wait_OPS_NMOS_6502: "\<forall>e \<in> set OPS_NMOS_6502. ignores_wait (fn (snd e))"
  by (simp add: OPS_NMOS_6502_def)

lemma ignores_wait_OPS_ROCKWELL_65C02: "\<forall>e \<in> set OPS_ROCKWELL_65C02. ignores_wait (fn (snd e))"
  by (simp add: OPS_ROCKWELL_65C02_def)

lemma ignores_wait_OPS_WDC_65C02: "\<forall>e \<in> set OPS_WDC_65C02. ignores_wait (fn (snd e))"
  by (simp add: OPS_WDC_65C02_def)

lemma ignores_wait_map_of:
  assumes "\<forall>e \<in> set tab. ignores_wait (fn (snd e))" and "map_of tab b = Some i"
  shows "ignores_wait (fn i)"
proof -
  have "(b, i) \<in> set tab"
    using assms(2) by (rule map_of_SomeD)
  with assms(1) have "ignores_wait (fn (snd (b, i)))"
    by (rule bspec)
  then show ?thesis by simp
qed

lemma ignores_wait_compose_ops:
  assumes "compose_ops class_tables fl b = Some i"
  shows "ignores_wait (fn i)"
proof (cases fl)
  case FLAVOR_6502
  with assms consider "map_of OPS_6502 b = Some i" | "map_of OPS_NMOS_6502 b = Some i"
    by (auto simp: compose_ops_def class_tables_def map_add_Some_iff)
  then show ?thesis
    by cases (erule ignores_wait_map_of [OF ignores_wait_OPS_6502]
                    ignores_wait_map_of [OF ignores_wait_OPS_NMOS_6502])+
next
  case FLAVOR_ROCKWELL_65C02
  with assms consider "map_of OPS_6502 b = Some i" | "map_of OPS_65C02 b = Some i"
    | "map_of OPS_ROCKWELL_65C02 b = Some i"
    by (auto simp: compose_ops_def class_tables_def map_add_Some_iff)
  then show ?thesis
    by cases (erule ignores_wait_map_of [OF ignores_wait_OPS_6502]
                    ignores_wait_map_of [OF ignores_wait_OPS_65C02]
                    ignores_wait_map_of [OF ignores_wait_OPS_ROCKWELL_65C02])+
next
  case FLAVOR_WDC_65C02
  with assms consider "map_of OPS_6502 b = Some i" | "map_of OPS_65C02 b = Some i"
    | "map_of OPS_WDC_65C02 b = Some i"
    by (auto simp: compose_ops_def class_tables_def map_add_Some_iff)
  then show ?thesis
    by cases (erule ignores_wait_map_of [OF ignores_wait_OPS_6502]
                    ignores_wait_map_of [OF ignores_wait_OPS_65C02]
                    ignores_wait_map_of [OF ignores_wait_OPS_WDC_65C02])+
qed

lemma ignores_wait_NOP_implied: "ignores_wait (fn NOP_implied)"
  by (simp add: NOP_implied_def)

lemma ignores_wait_opary_at:
  fixes i :: "'m Instruction"
  assumes "opary_at fl b = Some i"
  shows "ignores_wait (fn i)"
proof (cases "0 \<le> b \<and> b < 256")
  case True
  then have i: "i = (case compose_ops class_tables fl b of Some j \<Rightarrow> j | None \<Rightarrow> NOP_implied)"
    using assms by (simp add: opary_at_class)
  show ?thesis
  proof (cases "compose_ops (class_tables :: 'm OpTables) fl b")
    case None
    with i show ?thesis by (simp add: ignores_wait_NOP_implied)
  next
    case (Some j)
    with i show ?thesis using ignores_wait_compose_ops [OF Some] by simp
  qed
next
  case False
  then have "opary_at fl b = (None :: 'm Instruction option)"
    by (intro opary_at_outside) auto
  with assms show ?thesis by simp
qed

lemma ignores_wait_fetch_execute: "ignores_wait fetch_execute"
  unfolding fetch_execute_def Let_def
  by (intro ignores_wait_thn ignores_wait_bnd ignores_wait_readBytePC ignores_wait_get)
     (auto simp: ignores_wait_opary_at split: option.splits)

section \<open>Cycle accounting\<close>

lemma stepN_loop_accounted:
  assumes "stepN_loop idx n (None :: 'm callback option) s = Some r"
  shows "case r of Inl (e, s') \<Rightarrow> bus_grows s s' | Inr (u, s') \<Rightarrow> bus_grows s s'"
proof -
  let ?P = "\<lambda>(idx :: int) (n :: int) (cb :: 'm callback option) s r.
      cb = None \<longrightarrow> (case r of Inl (e, s') \<Rightarrow> bus_grows s s' | Inr (u :: unit, s') \<Rightarrow> bus_grows s s')"
  have "?P idx n None s r"
  proof (rule stepN_loop.raw_induct [where P = ?P, OF _ assms])
    fix loop :: "int \<Rightarrow> int \<Rightarrow> 'm callback option \<Rightarrow> 'm CPU6502 \<Rightarrow>
        ((error \<times> 'm CPU6502) + (unit \<times> 'm CPU6502)) option"
    fix idx n cb s r
    assume IH: "\<And>idx n cb s y. loop idx n cb s = Some y \<Longrightarrow> ?P idx n cb s y"
      and body: "(if idx < n
                  then case fetch_execute s of Inl (e, s') \<Rightarrow> Some (Inl (e, s'))
                       | Inr (u, s') \<Rightarrow>
                           (case (case cb of None \<Rightarrow> ret False | Some c \<Rightarrow> c) s' of
                              Inl (e, s'') \<Rightarrow> Some (Inl (e, s''))
                            | Inr (halt, s'') \<Rightarrow>
                                if halt then Some (Inr ((), s'')) else loop (jadd idx 1) n cb s'')
                  else Some (Inr ((), s))) = Some r"
    show "?P idx n cb s r"
    proof
      assume cb: "cb = None"
      show "case r of Inl (e, s') \<Rightarrow> bus_grows s s' | Inr (u, s') \<Rightarrow> bus_grows s s'"
      proof (cases "idx < n")
        case False
        with body show ?thesis by auto
      next
        case True
        show ?thesis
        proof (cases "fetch_execute s")
          case (Inl es)
          obtain e t where es: "es = (e, t)" by (cases es)
          have f: "fetch_execute s = Inl (e, t)"
            using Inl es by simp
          have "r = Inl (e, t)"
            using body True f by simp
          with accounted_Inl [OF accounted_fetch_execute f]
          show ?thesis by simp
        next
          case (Inr us)
          obtain u t where us: "us = (u, t)" by (cases us)
          have f: "fetch_execute s = Inr (u, t)"
            using Inr us by simp
          have "loop (jadd idx 1) n cb t = Some r"
            using body True f cb by simp
          from IH [OF this] cb accounted_Inr [OF accounted_fetch_execute f]
          show ?thesis
            by (auto split: sum.splits prod.splits intro: bus_grows_trans)
        qed
      qed
    qed
  qed
  then show ?thesis by simp
qed

lemma stepCycles_loop_accounted:
  assumes "stepCycles_loop end_cycles s = Some r"
  shows "run_accounted end_cycles s r"
proof (rule stepCycles_loop.raw_induct [where P = run_accounted, OF _ assms])
  fix loop :: "int \<Rightarrow> 'a CPU6502 \<Rightarrow> ((error \<times> 'a CPU6502) + (unit \<times> 'a CPU6502)) option"
  fix end_cycles s r
  assume IH: "\<And>e s y. loop e s = Some y \<Longrightarrow> run_accounted e s y"
    and body: "(if cycles s < end_cycles
                then case fetch_execute s of Inl (e, s') \<Rightarrow> Some (Inl (e, s'))
                     | Inr (u, s') \<Rightarrow> loop end_cycles s'
                else Some (Inr ((), s))) = Some r"
  show "run_accounted end_cycles s r"
  proof (cases "cycles s < end_cycles")
    case False
    with body show ?thesis by (auto simp: run_accounted_def)
  next
    case True
    show ?thesis
    proof (cases "fetch_execute s")
      case (Inl es)
      obtain e t where es: "es = (e, t)" by (cases es)
      have f: "fetch_execute s = Inl (e, t)"
        using Inl es by simp
      have "r = Inl (e, t)"
        using body True f by simp
      with accounted_Inl [OF accounted_fetch_execute f]
      show ?thesis by (simp add: run_accounted_def)
    next
      case (Inr us)
      obtain u t where us: "us = (u, t)" by (cases us)
      have f: "fetch_execute s = Inr (u, t)"
        using Inr us by simp
      have "loop end_cycles t = Some r"
        using body True f by simp
      from IH [OF this] accounted_Inr [OF accounted_fetch_execute f]
      show ?thesis
        by (auto simp: run_accounted_def split: sum.splits prod.splits intro: bus_grows_trans)
    qed
  qed
qed

lemma stepCycles_accounted:
  "stepCycles c s = Some r \<Longrightarrow> run_accounted (jadd (cycles s) c) s r"
  unfolding stepCycles_def by (rule stepCycles_loop_accounted)

lemma accesses_split:
  "list_all is_access evs \<Longrightarrow>
   length evs = length (filter is_read evs) + length (filter is_write evs)"
proof (induction evs)
  case Nil
  then show ?case by simp
next
  case (Cons ev evs)
  then show ?case by (cases ev) (simp_all add: is_access_def)
qed


lemma nmos_jmp_run:
  "\<exists>s'. fetch_execute (jmp_scenario None) = Inr ((), s') \<and> cycles s' = 5 \<and>
         bus s' = [Rd 1 4 0 0x6c, Rd 1 4 1 0xff, Rd 1 4 2 0x02, Rd 1 2 0xff 0x34, Rd 1 2 0x00 0xff]"
  by (simp add: run fetch_execute_def readBytePC_def readByte_def js_lit Let_def RAM_def
        opary_at_lookup [OF op_6502_6c] jmp_def readAddrAbsoluteIndirectBug_def
        readWordPC_def jmp_scenario_def scenario_def initial_def DEFAULT_STATE_def)



section \<open>Snapshots\<close>

text \<open>
  Claim C8.  For every state of the CPU, reachable or not, \<open>setState(getState())\<close> returns
  normally and leaves the object exactly as it was: the accumulator, X, Y, the status
  register, PC, SP and the cycle counter keep their values, and so do the memory map, the
  host's memory, the latches and every other field.
\<close>

theorem setState_getState_identity: "bnd getState setState s = Inr ((), s)"
  by (simp add: getState_def setState_def)

section \<open>Decimal addition\<close>

text \<open>
  Claim C9.  On the NMOS 6502 (flavor \<open>6502\<close>, \<open>is65C02\<close> false), at PC = \<open>0x0400\<close> with the
  program \<open>[0x69, 0x10]\<close> there, A = \<open>0x91\<close>, D set and C clear: one instruction leaves
  A = \<open>0x01\<close>, sets N, clears V, clears Z and sets C in P, leaves the other bits of P (D, X,
  B, I) as they were, and makes two accesses, with one \<open>cycles++\<close> each: the cycle counter
  advances by exactly 2 (as it does wherever it does not pass \<open>2^53\<close>).  The handler of page 4
  may be any handler that answers \<open>0x69\<close> and then \<open>0x10\<close>.  From P = X|D the result is
  P = \<open>0xa9\<close> = N|X|D|C (the witness).
\<close>

theorem adc_bcd_carry_out:
  assumes "flavor s = FLAVOR_6502" and "is65C02 s = False"
    and "pc s = 0x0400"
    and "memPages s 4 = Some h"
    and "h_read h 4 0 (host s) = (0x69, m1)" and "h_read h 4 1 m1 = (0x10, m2)"
    and "ar s = 0x91" and "band (sr s) flags_D \<noteq> 0" and "band (sr s) flags_C = 0"
  shows "\<exists>s'. fetch_execute s = Inr ((), s') \<and> ar s' = 0x01 \<and> cycles s' = ticks 2 (cycles s) \<and>
           (- (2 ^ 53) \<le> cycles s \<and> cycles s + 2 \<le> 2 ^ 53 \<longrightarrow> cycles s' = cycles s + 2) \<and>
           sr s' = bor (band (band (bor (sr s) flags_N) (bnot flags_V)) (bnot flags_Z)) flags_C \<and>
           pc s' = 0x0402"
proof -
  have two: "ticks 2 c = jadd (jadd c 1) 1" for c
    by (simp add: ticks_numeral)
  have "\<exists>s'. fetch_execute s = Inr ((), s') \<and> ar s' = 0x01 \<and> cycles s' = ticks 2 (cycles s) \<and>
           sr s' = bor (band (band (bor (sr s) flags_N) (bnot flags_V)) (bnot flags_Z)) flags_C \<and>
           pc s' = 0x0402"
    using assms
    by (simp add: fetch_execute_def readBytePC_def readByte_def js_lit Let_def
          opary_at_lookup [OF op_6502_69] adc_def readImmediate_def add_def updateFlags_def
          updateBCDFlags_def setFlag_def two)
  then obtain s' where s': "fetch_execute s = Inr ((), s')" "ar s' = 0x01"
      "cycles s' = ticks 2 (cycles s)"
      "sr s' = bor (band (band (bor (sr s) flags_N) (bnot flags_V)) (bnot flags_Z)) flags_C"
      "pc s' = 0x0402"
    by blast
  have "cycles s' = cycles s + 2" if "- (2 ^ 53) \<le> cycles s \<and> cycles s + 2 \<le> 2 ^ 53"
    using that s'(3) ticks_exact [of "cycles s" 2] by simp
  with s' show ?thesis by blast
qed

theorem adc_bcd_carry_out_witness:
  "\<exists>s'. fetch_execute bcd_scenario = Inr ((), s') \<and> ar s' = 0x01 \<and> cycles s' = 2 \<and>
         sr s' = 0xa9 \<and> pc s' = 0x0402"
  using adc_bcd_carry_out [of bcd_scenario RAM "host bcd_scenario" "host bcd_scenario"]
  by (simp add: bcd_scenario_def scenario_def initial_def RAM_def DEFAULT_STATE_def js_lit
        ticks_exact)

section \<open>The indirect jump\<close>

text \<open>
  Claim C4.  The program \<open>[0x6c, 0xff, 0x02]\<close> at \<open>0x0400\<close> in RAM, with \<open>0x34\<close> at \<open>0x02ff\<close>,
  \<open>0x12\<close> at \<open>0x0300\<close> and \<open>0xff\<close> at \<open>0x0200\<close>.  On the NMOS 6502 one instruction reads the
  high byte of the destination from \<open>0x0200\<close>, so PC = \<open>0xff34\<close>, in 5 cycles.  On either
  65C02 it reads the high byte from \<open>0x0300\<close>, reads that address once more, so
  PC = \<open>0x1234\<close>, in 6 cycles.  A cycle is an access to memory, with one \<open>cycles++\<close> each:
  the cycle counter advances by 5 and by 6 (as it does wherever it does not pass \<open>2^53\<close>).
\<close>

theorem jmp_indirect_page_wrap:
  assumes "pc s = 0x0400"
    and "memPages s 4 = Some RAM" and "memPages s 2 = Some RAM" and "memPages s 3 = Some RAM"
    and "host s (4, 0) = 0x6c" and "host s (4, 1) = 0xff" and "host s (4, 2) = 0x02"
    and "host s (2, 0xff) = 0x34" and "host s (3, 0x00) = 0x12" and "host s (2, 0x00) = 0xff"
  shows "(flavor s = FLAVOR_6502 \<longrightarrow>
            (\<exists>s'. fetch_execute s = Inr ((), s') \<and> pc s' = 0xff34 \<and> cycles s' = ticks 5 (cycles s) \<and>
                  (- (2 ^ 53) \<le> cycles s \<and> cycles s + 5 \<le> 2 ^ 53 \<longrightarrow> cycles s' = cycles s + 5) \<and>
                  bus s' = bus s @ [Rd 1 4 0 0x6c, Rd 1 4 1 0xff, Rd 1 4 2 0x02,
                                    Rd 1 2 0xff 0x34, Rd 1 2 0x00 0xff])) \<and>
         (flavor s = FLAVOR_ROCKWELL_65C02 \<or> flavor s = FLAVOR_WDC_65C02 \<longrightarrow>
            (\<exists>s'. fetch_execute s = Inr ((), s') \<and> pc s' = 0x1234 \<and> cycles s' = ticks 6 (cycles s) \<and>
                  (- (2 ^ 53) \<le> cycles s \<and> cycles s + 6 \<le> 2 ^ 53 \<longrightarrow> cycles s' = cycles s + 6) \<and>
                  bus s' = bus s @ [Rd 1 4 0 0x6c, Rd 1 4 1 0xff, Rd 1 4 2 0x02,
                                    Rd 1 2 0xff 0x34, Rd 1 3 0x00 0x12, Rd 1 3 0x00 0x12]))"
proof (intro conjI impI)
  have five: "ticks 5 c = jadd (jadd (jadd (jadd (jadd c 1) 1) 1) 1) 1" for c
    by (simp add: ticks_numeral)
  assume "flavor s = FLAVOR_6502"
  then have "\<exists>s'. fetch_execute s = Inr ((), s') \<and> pc s' = 0xff34 \<and>
                cycles s' = ticks 5 (cycles s) \<and>
                bus s' = bus s @ [Rd 1 4 0 0x6c, Rd 1 4 1 0xff, Rd 1 4 2 0x02,
                                  Rd 1 2 0xff 0x34, Rd 1 2 0x00 0xff]"
    using assms
    by (simp add: run fetch_execute_def readBytePC_def readByte_def js_lit Let_def RAM_def
          opary_at_lookup [OF op_6502_6c] jmp_def readAddrAbsoluteIndirectBug_def
          readWordPC_def five)
  then obtain s' where s': "fetch_execute s = Inr ((), s')" "pc s' = 0xff34"
      "cycles s' = ticks 5 (cycles s)"
      "bus s' = bus s @ [Rd 1 4 0 0x6c, Rd 1 4 1 0xff, Rd 1 4 2 0x02,
                         Rd 1 2 0xff 0x34, Rd 1 2 0x00 0xff]"
    by blast
  have "cycles s' = cycles s + 5" if "- (2 ^ 53) \<le> cycles s \<and> cycles s + 5 \<le> 2 ^ 53"
    using that s'(3) ticks_exact [of "cycles s" 5] by simp
  with s' show "\<exists>s'. fetch_execute s = Inr ((), s') \<and> pc s' = 0xff34 \<and>
                cycles s' = ticks 5 (cycles s) \<and>
                (- (2 ^ 53) \<le> cycles s \<and> cycles s + 5 \<le> 2 ^ 53 \<longrightarrow> cycles s' = cycles s + 5) \<and>
                bus s' = bus s @ [Rd 1 4 0 0x6c, Rd 1 4 1 0xff, Rd 1 4 2 0x02,
                                  Rd 1 2 0xff 0x34, Rd 1 2 0x00 0xff]"
    by blast
next
  have six: "ticks 6 c = jadd (jadd (jadd (jadd (jadd (jadd c 1) 1) 1) 1) 1) 1" for c
    by (simp add: ticks_numeral)
  assume "flavor s = FLAVOR_ROCKWELL_65C02 \<or> flavor s = FLAVOR_WDC_65C02"
  then have "\<exists>s'. fetch_execute s = Inr ((), s') \<and> pc s' = 0x1234 \<and>
                cycles s' = ticks 6 (cycles s) \<and>
                bus s' = bus s @ [Rd 1 4 0 0x6c, Rd 1 4 1 0xff, Rd 1 4 2 0x02,
                                  Rd 1 2 0xff 0x34, Rd 1 3 0x00 0x12, Rd 1 3 0x00 0x12]"
    using assms
    by (elim disjE)
       (simp_all add: run fetch_execute_def readBytePC_def readByte_def js_lit Let_def RAM_def
          opary_at_lookup [OF op_rockwell_6c] opary_at_lookup [OF op_wdc_6c] jmp_def
          readAddrAbsoluteIndirect_def readWordPC_def readWord_def six)
  then obtain s' where s': "fetch_execute s = Inr ((), s')" "pc s' = 0x1234"
      "cycles s' = ticks 6 (cycles s)"
      "bus s' = bus s @ [Rd 1 4 0 0x6c, Rd 1 4 1 0xff, Rd 1 4 2 0x02,
                         Rd 1 2 0xff 0x34, Rd 1 3 0x00 0x12, Rd 1 3 0x00 0x12]"
    by blast
  have "cycles s' = cycles s + 6" if "- (2 ^ 53) \<le> cycles s \<and> cycles s + 6 \<le> 2 ^ 53"
    using that s'(3) ticks_exact [of "cycles s" 6] by simp
  with s' show "\<exists>s'. fetch_execute s = Inr ((), s') \<and> pc s' = 0x1234 \<and>
                cycles s' = ticks 6 (cycles s) \<and>
                (- (2 ^ 53) \<le> cycles s \<and> cycles s + 6 \<le> 2 ^ 53 \<longrightarrow> cycles s' = cycles s + 6) \<and>
                bus s' = bus s @ [Rd 1 4 0 0x6c, Rd 1 4 1 0xff, Rd 1 4 2 0x02,
                                  Rd 1 2 0xff 0x34, Rd 1 3 0x00 0x12, Rd 1 3 0x00 0x12]"
    by blast
qed

theorem jmp_indirect_page_wrap_witness:
  "(\<exists>s'. fetch_execute (jmp_scenario None) = Inr ((), s') \<and> pc s' = 0xff34 \<and> cycles s' = 5) \<and>
   (\<exists>s'. fetch_execute (jmp_scenario (Some FLAVOR_ROCKWELL_65C02)) = Inr ((), s') \<and>
         pc s' = 0x1234 \<and> cycles s' = 6) \<and>
   (\<exists>s'. fetch_execute (jmp_scenario (Some FLAVOR_WDC_65C02)) = Inr ((), s') \<and>
         pc s' = 0x1234 \<and> cycles s' = 6)"
  using jmp_indirect_page_wrap [of "jmp_scenario None"]
    jmp_indirect_page_wrap [of "jmp_scenario (Some FLAVOR_ROCKWELL_65C02)"]
    jmp_indirect_page_wrap [of "jmp_scenario (Some FLAVOR_WDC_65C02)"]
  by (auto simp: jmp_scenario_def scenario_def initial_def DEFAULT_STATE_def ticks_exact)

section \<open>Unassigned opcodes of the 65C02\<close>

text \<open>
  The thirty opcodes that neither 65C02 flavor assigns: the columns \<open>3\<close> and \<open>b\<close> of the
  opcode matrix, except \<open>0xcb\<close> and \<open>0xdb\<close>, which both flavors assign.
\<close>

lemma cmos_keys_unassigned:
  "\<forall>b \<in> set [0..255].
     (b \<in> set (map fst (OPS_6502 :: (int \<times> 'm Instruction) list) @
                 map fst (OPS_65C02 :: (int \<times> 'm Instruction) list) @ [0xcb, 0xdb])) =
     (b \<notin> set [0x03, 0x0b, 0x13, 0x1b, 0x23, 0x2b, 0x33, 0x3b, 0x43, 0x4b, 0x53, 0x5b,
                  0x63, 0x6b, 0x73, 0x7b, 0x83, 0x8b, 0x93, 0x9b, 0xa3, 0xab, 0xb3, 0xbb,
                  0xc3, 0xd3, 0xe3, 0xeb, 0xf3, 0xfb])"
  unfolding keys_OPS_6502 keys_OPS_65C02 by code_simp

lemma unassigned_65C02_opcodes:
  fixes fl :: Flavor
  assumes "fl = FLAVOR_ROCKWELL_65C02 \<or> fl = FLAVOR_WDC_65C02" and "0 \<le> b" and "b < 256"
  shows "(compose_ops (class_tables :: 'm OpTables) fl b = None) =
         (b \<in> {0x03, 0x0b, 0x13, 0x1b, 0x23, 0x2b, 0x33, 0x3b, 0x43, 0x4b, 0x53, 0x5b,
                0x63, 0x6b, 0x73, 0x7b, 0x83, 0x8b, 0x93, 0x9b, 0xa3, 0xab, 0xb3, 0xbb,
                0xc3, 0xd3, 0xe3, 0xeb, 0xf3, 0xfb})"
proof -
  have small: "fst ` set (OPS_ROCKWELL_65C02 :: (int \<times> 'm Instruction) list) = {0xcb, 0xdb}"
      "fst ` set (OPS_WDC_65C02 :: (int \<times> 'm Instruction) list) = {0xcb, 0xdb}"
    using keys_OPS_ROCKWELL_65C02 [where 'm = 'm] keys_OPS_WDC_65C02 [where 'm = 'm]
    by (simp_all only: set_map [symmetric]) simp_all
  have dom: "dom (compose_ops (class_tables :: 'm OpTables) fl) =
      set (map fst (OPS_6502 :: (int \<times> 'm Instruction) list) @
           map fst (OPS_65C02 :: (int \<times> 'm Instruction) list) @ [0xcb, 0xdb])"
    using assms(1)
    by (elim disjE)
       (simp_all add: compose_ops_def class_tables_def dom_map_of_conv_image_fst small Un_ac)
  have "b \<in> set [0..255]"
    using assms by simp
  with cmos_keys_unassigned [where 'm = 'm]
  have "(b \<in> dom (compose_ops (class_tables :: 'm OpTables) fl)) =
        (b \<notin> set [0x03, 0x0b, 0x13, 0x1b, 0x23, 0x2b, 0x33, 0x3b, 0x43, 0x4b, 0x53, 0x5b,
                  0x63, 0x6b, 0x73, 0x7b, 0x83, 0x8b, 0x93, 0x9b, 0xa3, 0xab, 0xb3, 0xbb,
                  0xc3, 0xd3, 0xe3, 0xeb, 0xf3, 0xfb])"
    unfolding dom by blast
  then show ?thesis
    by (auto simp: domIff)
qed




section \<open>Interrupt request\<close>




section \<open>Peek and poke\<close>

text \<open>
  The 256 entries of the memory map hold a handler from construction on: \<open>addPageHandler\<close>
  only replaces entries, and no instruction touches the map.
\<close>

lemma initial_pages_filled: "0 \<le> p \<and> p < 256 \<longrightarrow> memPages (initial flavor_opt m) p \<noteq> None"
  by (simp add: initial_def)

lemma addPageHandler_pages_filled:
  "addPageHandler h s = Inr ((), s') \<Longrightarrow> memPages s p \<noteq> None \<Longrightarrow> memPages s' p \<noteq> None"
  by (auto simp: addPageHandler_def run fold_page_update split: if_splits)

lemma instruction_keeps_pages:
  "fetch_execute s = Inr (u, s') \<Longrightarrow> memPages s' = memPages s"
  using accounted_Inr [OF accounted_fetch_execute] by (auto simp: bus_grows_def)

text \<open>
  Claim C10.  As long as the 256 entries of the memory map hold a handler (they do from
  construction on), \<open>read(addr)\<close> and \<open>write(addr, val)\<close> succeed for every integer
  \<open>addr\<close> and \<open>val\<close>: the handler is the one of page \<open>addr mod 65536 div 256\<close>, a page between
  0 and 255, it is called with offset \<open>addr mod 256\<close> and value \<open>val mod 256\<close>, and nothing
  of the CPU changes, the cycle counter included; only the host's state and the history
  of handler calls do.
\<close>

theorem peek_poke_total:
  assumes "\<forall>p. 0 \<le> p \<and> p < 256 \<longrightarrow> memPages s p \<noteq> None"
  shows "\<exists>h r m'.
           0 \<le> a mod 65536 div 256 \<and> a mod 65536 div 256 < 256 \<and>
           memPages s (a mod 65536 div 256) = Some h \<and>
           h_read h (a mod 65536 div 256) (a mod 256) (host s) = (r, m') \<and>
           cpu_read a None s =
             Inr (r, s\<lparr>host := m', bus := bus s @ [Rd (h_id h) (a mod 65536 div 256) (a mod 256) r]\<rparr>) \<and>
           cpu_write a v None s =
             Inr ((), s\<lparr>host := h_write h (a mod 65536 div 256) (a mod 256) (v mod 256) (host s),
                         bus := bus s @ [Wr (h_id h) (a mod 65536 div 256) (a mod 256) (v mod 256)]\<rparr>)"
proof -
  have "a mod 2 ^ (8 + 8) div 2 ^ 8 = a div 2 ^ 8 mod 2 ^ 8"
    by (rule div_exp_mod_exp_eq [symmetric])
  then have "a mod 65536 div 256 = a div 256 mod 256"
    by simp
  then have range: "0 \<le> a mod 65536 div 256 \<and> a mod 65536 div 256 < 256"
    by simp
  with assms obtain h where h: "memPages s (a mod 65536 div 256) = Some h"
    by blast
  obtain r m' where r: "h_read h (a mod 65536 div 256) (a mod 256) (host s) = (r, m')"
    by (cases "h_read h (a mod 65536 div 256) (a mod 256) (host s)")
  show ?thesis
    using h r range by (simp add: cpu_read_def cpu_write_def shr8_mod band_byte)
qed

theorem peek_poke_total_witness:
  "cpu_read 0x12345 None unassigned_scenario =
     Inr (0, unassigned_scenario\<lparr>bus := [Rd 1 0x23 0x45 0]\<rparr>) \<and>
   cpu_write (- 1) 0x1ff None unassigned_scenario =
     Inr ((), unassigned_scenario\<lparr>host := (host unassigned_scenario)((255, 255) := 0xff),
                 bus := [Wr 1 255 255 0xff]\<rparr>)"
  using peek_poke_total [of unassigned_scenario "0x12345" "0"]
    peek_poke_total [of unassigned_scenario "- 1" "0x1ff"]
  by (simp add: unassigned_scenario_def scenario_def initial_def DEFAULT_STATE_def RAM_def)

section \<open>A gap in the NMOS table is fatal\<close>

text \<open>
  Claim C3.  For the NMOS 6502 (no flavor given, or flavor \<open>6502\<close>) and whatever the tables
  hold: the constructor returns an object exactly when each of the slots 0 to 255 is set
  in the base table overlaid with the undocumented NMOS table; when a slot is unset it
  throws an error whose message is \<open>Missing\<close> followed by \<open>toHex\<close> of the first unset
  opcode.  With the tables the class really has, no slot is unset and the constructor
  returns.
\<close>

theorem nmos_table_must_be_full:
  fixes T :: "'m OpTables"
  assumes "flavor_opt = None \<or> flavor_opt = Some FLAVOR_6502"
  shows "((\<exists>c. construct T toHex flavor_opt m = Inr c) \<longleftrightarrow>
            (\<forall>idx. 0 \<le> idx \<and> idx \<le> 255 \<longrightarrow> (ops_6502 T ++ ops_NMOS_6502 T) idx \<noteq> None)) \<and>
         (\<forall>b. 0 \<le> b \<and> b \<le> 255 \<and> (ops_6502 T ++ ops_NMOS_6502 T) b = None \<and>
               (\<forall>j. 0 \<le> j \<and> j < b \<longrightarrow> (ops_6502 T ++ ops_NMOS_6502 T) j \<noteq> None) \<longrightarrow>
            construct T toHex flavor_opt m = Inl (Error (''Missing '' @ toHex b))) \<and>
         (\<exists>c. new_CPU6502 toHex flavor_opt m = Inr c)"
proof (intro conjI)
  show "(\<exists>c. construct T toHex flavor_opt m = Inr c) \<longleftrightarrow>
        (\<forall>idx. 0 \<le> idx \<and> idx \<le> 255 \<longrightarrow> (ops_6502 T ++ ops_NMOS_6502 T) idx \<noteq> None)"
  proof
    assume "\<exists>c. construct T toHex flavor_opt m = Inr c"
    then obtain tab where
        "fill_opary toHex False (ops_6502 T ++ ops_NMOS_6502 T) [0..255] = Inr tab"
      by (auto simp: construct_def build_opary_nmos [OF assms] split: sum.splits)
    from fill_opary_Inr_populated [OF this]
    show "\<forall>idx. 0 \<le> idx \<and> idx \<le> 255 \<longrightarrow> (ops_6502 T ++ ops_NMOS_6502 T) idx \<noteq> None"
      by simp
  next
    assume "\<forall>idx. 0 \<le> idx \<and> idx \<le> 255 \<longrightarrow> (ops_6502 T ++ ops_NMOS_6502 T) idx \<noteq> None"
    then have "\<forall>idx \<in> set [0..255]. False \<or> (ops_6502 T ++ ops_NMOS_6502 T) idx \<noteq> None"
      by simp
    from fill_opary_populated [OF this, of toHex]
    show "\<exists>c. construct T toHex flavor_opt m = Inr c"
      by (simp add: construct_def build_opary_nmos [OF assms])
  qed
next
  show "\<forall>b. 0 \<le> b \<and> b \<le> 255 \<and> (ops_6502 T ++ ops_NMOS_6502 T) b = None \<and>
             (\<forall>j. 0 \<le> j \<and> j < b \<longrightarrow> (ops_6502 T ++ ops_NMOS_6502 T) j \<noteq> None) \<longrightarrow>
          construct T toHex flavor_opt m = Inl (Error (''Missing '' @ toHex b))"
  proof (intro allI impI)
    fix b
    assume b: "0 \<le> b \<and> b \<le> 255 \<and> (ops_6502 T ++ ops_NMOS_6502 T) b = None \<and>
      (\<forall>j. 0 \<le> j \<and> j < b \<longrightarrow> (ops_6502 T ++ ops_NMOS_6502 T) j \<noteq> None)"
    then have split: "[0..255] = [0..b - 1] @ b # [b + 1..255]"
      by (intro upto_split3) simp_all
    have "\<forall>idx \<in> set [0..b - 1]. (ops_6502 T ++ ops_NMOS_6502 T) idx \<noteq> None"
      using b by simp
    from fill_opary_missing [OF this, of b toHex "[b + 1..255]"] b
    show "construct T toHex flavor_opt m = Inl (Error (''Missing '' @ toHex b))"
      by (simp add: construct_def build_opary_nmos [OF assms] split [symmetric])
  qed
next
  show "\<exists>c. new_CPU6502 toHex flavor_opt m = Inr c"
    by (simp add: new_CPU6502_initial)
qed

theorem nmos_table_must_be_full_witness:
  "construct (class_tables\<lparr>ops_NMOS_6502 := Map.empty\<rparr> :: ram OpTables) hex2 None (\<lambda>a. 0) =
     Inl (Error ''Missing 02'') \<and>
   new_CPU6502 hex2 None (\<lambda>a. 0 :: int) = Inr (initial None (\<lambda>a. 0 :: int) :: ram CPU6502)"
proof -
  let ?T = "class_tables\<lparr>ops_NMOS_6502 := Map.empty\<rparr> :: ram OpTables"
  have low: "\<forall>j. 0 \<le> j \<and> j < 2 \<longrightarrow> (ops_6502 ?T ++ ops_NMOS_6502 ?T) j \<noteq> None"
  proof (intro allI impI)
    fix j :: int
    assume "0 \<le> j \<and> j < 2"
    then have "j = 0 \<or> j = 1" by arith
    then show "(ops_6502 ?T ++ ops_NMOS_6502 ?T) j \<noteq> None"
      using base_table_low(1,2) [where 'm = ram] by (auto simp: class_tables_def)
  qed
  have gap: "(ops_6502 ?T ++ ops_NMOS_6502 ?T) 2 = None"
    using base_table_low(3) [where 'm = ram] by (simp add: class_tables_def)
  from nmos_table_must_be_full [of None ?T hex2 "\<lambda>a. 0"] low gap
  have "construct ?T hex2 None (\<lambda>a. 0) = Inl (Error (''Missing '' @ hex2 2))"
    by simp
  then show ?thesis
    by (simp add: hex2_def new_CPU6502_initial)
qed

section \<open>The reset registry\<close>

lemma call_resets_run:
  "\<forall>h \<in> set hs. h_reset h \<noteq> None \<Longrightarrow>
   call_resets hs s =
     Inr ((), s\<lparr>host := fold (\<lambda>h. the (h_reset h)) hs (host s),
                bus := bus s @ map (\<lambda>h. Rs (h_id h)) hs\<rparr>)"
  by (induction hs arbitrary: s) (auto simp: run)

lemma twice_registered_built:
  "thn (addPageHandler RESETTABLE) (addPageHandler RESETTABLE) (initial None (\<lambda>a. 0)) =
     Inr ((), twice_registered)"
  by (simp add: run addPageHandler_def isResettablePageHandler_def fold_page_update
        RESETTABLE_def initial_def twice_registered_def fun_eq_iff)

text \<open>
  Claim C7, as the code has it.  \<open>addPageHandler\<close> appends the handler to the registry at
  every call on a handler that implements \<open>reset()\<close>, whether or not it is listed already,
  and never otherwise.  \<open>reset\<close> reads the vector at \<open>0xfffc\<close> and \<open>0xfffd\<close> (two cycles) and then
  calls \<open>reset()\<close> on every entry of the registry, once per entry and in the order of the
  registry: a handler passed to \<open>addPageHandler\<close> \<open>k\<close> times is reset \<open>k\<close> times.
\<close>

theorem reset_registry:
  assumes "memPages s 255 = Some hv"
    and "h_read hv 255 0xfc (host s) = (lo, m1)" and "h_read hv 255 0xfd m1 = (hi, m2)"
    and "\<forall>h \<in> set (resetHandlers s). h_reset h \<noteq> None"
  shows "(\<exists>s'. addPageHandler pageHandler s = Inr ((), s') \<and>
               resetHandlers s' =
                 resetHandlers s @ (if h_reset pageHandler \<noteq> None then [pageHandler] else []) \<and>
               (\<forall>h \<in> set (resetHandlers s'). h_reset h \<noteq> None)) \<and>
         (\<exists>s'. reset s = Inr ((), s') \<and>
               bus s' = bus s @ [Rd (h_id hv) 255 0xfc lo, Rd (h_id hv) 255 0xfd hi] @
                                map (\<lambda>h. Rs (h_id h)) (resetHandlers s) \<and>
               host s' = fold (\<lambda>h. the (h_reset h)) (resetHandlers s) m2 \<and>
               resetHandlers s' = resetHandlers s \<and> cycles s' = ticks 2 (cycles s))"
proof -
  have lits: "shr 0xfffc 8 = 255" "band 0xfffc 0xff = 0xfc" "shr 0xfffd 8 = 255"
      "band 0xfffd 0xff = 0xfd" "jadd 0xfffc 1 = 0xfffd"
    by (simp_all add: js_lit)
  show ?thesis
    using assms
    by (auto simp: run addPageHandler_def isResettablePageHandler_def reset_def readWord_def
          readByte_def Let_def lits call_resets_run ticks_numeral)
qed

theorem reset_registry_witness:
  "(\<exists>s'. addPageHandler RESETTABLE twice_registered = Inr ((), s') \<and>
         resetHandlers s' = [RESETTABLE, RESETTABLE, RESETTABLE]) \<and>
   (\<exists>s'. reset twice_registered = Inr ((), s') \<and>
         bus s' = [Rd 2 255 0xfc 0, Rd 2 255 0xfd 0, Rs 2, Rs 2] \<and> cycles s' = 2)"
  using reset_registry [of twice_registered RESETTABLE 0 "\<lambda>a. 0" 0 "\<lambda>a. 0" RESETTABLE]
  by (auto simp: twice_registered_def initial_def RESETTABLE_def ticks_exact)

text \<open>
  The claim as it was stated fails: the same handler passed twice is listed twice, and one
  \<open>reset\<close> then calls its \<open>reset()\<close> twice.
\<close>

theorem reset_registry_counterexample:
  "map_sum (resetHandlers \<circ> snd) (resetHandlers \<circ> snd)
     (thn (addPageHandler RESETTABLE) (addPageHandler RESETTABLE) (initial None (\<lambda>a. 0))) =
     Inr [RESETTABLE, RESETTABLE] \<and>
   map_sum (bus \<circ> snd) (bus \<circ> snd)
     (thn (addPageHandler RESETTABLE) (thn (addPageHandler RESETTABLE) reset)
        (initial None (\<lambda>a. 0))) =
     Inr [Rd 2 255 0xfc 0, Rd 2 255 0xfd 0, Rs 2, Rs 2]"
  by (simp add: run addPageHandler_def isResettablePageHandler_def reset_def readWord_def
        readByte_def Let_def js_lit fold_page_update RESETTABLE_def initial_def)

section \<open>The wait latch\<close>

lemma step_None: "step None s = fetch_execute s"
  by (cases "fetch_execute s") (auto simp: step_def run)

lemma wai_then_nop:
  "fetch_execute wai_scenario = Inr ((), after_wai) \<and> wait after_wai \<and>
   pc after_wai = 0x0401 \<and> cycles after_wai = 3 \<and>
   step None after_wai =
     Inr ((), after_wai\<lparr> pc := 0x0402, cycles := 5, addr := 0x0402,
                 op := Some (''NOP'', Implied),
                 bus := [Rd 1 4 0 0xcb, Rd 1 4 1 0xea, Rd 1 4 1 0xea,
                         Rd 1 4 1 0xea, Rd 1 4 2 0x00] \<rparr>)"
  by (simp add: step_None run fetch_execute_def readBytePC_def readByte_def js_lit Let_def
        RAM_def opary_at_lookup [OF op_wdc_cb] opary_at_lookup [OF op_wdc_ea] wai_def nop_def
        implied_def after_wai_def wai_scenario_def scenario_def initial_def DEFAULT_STATE_def)

lemma thn_InrD: "thn m n s = Inr (u, s') \<Longrightarrow> \<exists>x t. m s = Inr (x, t) \<and> n t = Inr (u, s')"
  by (auto simp: run split: sum.splits prod.splits)

lemma bnd_InrD: "bnd m f s = Inr (u, s') \<Longrightarrow> \<exists>x t. m s = Inr (x, t) \<and> f x t = Inr (u, s')"
  by (auto simp: run split: sum.splits prod.splits)

lemma readBytePC_fetches:
  "readBytePC s = Inr (b, t) \<Longrightarrow>
   \<exists>h. memPages s (shr (pc s) 8) = Some h \<and>
       bus t = bus s @ [Rd (h_id h) (shr (pc s) 8) (band (pc s) 0xff) b]"
  by (auto simp: run readBytePC_def readByte_def Let_def split: option.splits prod.splits)

lemma fetch_execute_fetches:
  assumes "fetch_execute s = Inr (u, s')"
  shows "\<exists>h v evs. memPages s (shr (pc s) 8) = Some h \<and>
           bus s' = bus s @ Rd (h_id h) (shr (pc s) 8) (band (pc s) 0xff) v # evs"
proof -
  let ?K = "\<lambda>b. bnd (get flavor) (\<lambda>fl.
     let ins = opary_at fl b in
     thn (upd (\<lambda>s. s\<lparr>op := map_option (\<lambda>i. (name i, mode i)) ins\<rparr>))
    (thn (upd (\<lambda>s. s\<lparr>sync := False\<rparr>))
         (case ins of None \<Rightarrow> throw TypeError | Some i \<Rightarrow> fn i)))"
  have K: "accounted (?K b)" for b
    unfolding Let_def
    by (intro accounted_thn accounted_bnd accounted_get)
       (auto simp: accounted_opary_at split: option.splits)
  have "bnd readBytePC ?K (s\<lparr>sync := True\<rparr>) = Inr (u, s')"
    using assms by (simp add: fetch_execute_def)
  then obtain b t where rd: "readBytePC (s\<lparr>sync := True\<rparr>) = Inr (b, t)"
      and k: "?K b t = Inr (u, s')"
    by (blast dest: bnd_InrD)
  from readBytePC_fetches [OF rd] obtain h where h: "memPages s (shr (pc s) 8) = Some h"
      "bus t = bus s @ [Rd (h_id h) (shr (pc s) 8) (band (pc s) 0xff) b]"
    by auto
  from accounted_Inr [OF K k] obtain evs where "bus s' = bus t @ evs"
    unfolding bus_grows_def by blast
  with h show ?thesis by simp
qed

lemma call_resets_wait: "call_resets hs s = Inr (u, s') \<Longrightarrow> wait s' = wait s"
  by (induction hs arbitrary: s) (auto simp: run split: option.splits)

lemma nmi_clears_wait: "nmi s = Inr (u, s') \<Longrightarrow> \<not> wait s'"
  by (auto simp: nmi_def dest!: thn_InrD bnd_InrD)

lemma irq_clears_wait: "irq s = Inr (u, s') \<Longrightarrow> band (sr s) flags_I = 0 \<Longrightarrow> \<not> wait s'"
  by (auto simp: irq_def run split: sum.splits prod.splits if_splits)

lemma reset_clears_wait: "reset s = Inr (u, s') \<Longrightarrow> \<not> wait s'"
  by (auto simp: reset_def run split: sum.splits prod.splits dest: call_resets_wait)

lemma nmi_after_wai: "\<exists>t'. nmi after_wai = Inr ((), t')"
  by (simp add: run nmi_def pushWord_def pushByte_def writeByte_def readWord_def readByte_def
        setFlag_def js_lit Let_def RAM_def after_wai_def wai_scenario_def scenario_def
        initial_def DEFAULT_STATE_def FLAVORS_65C02_def)




end
